(* ===== verification/Prelude.thy ===== *)
theory Prelude
  imports Complex_Main
begin

text \<open>
  Shared vocabulary of the jQuery-Viewpoint development (src/js/viewpoint.js).
  \<^item> JavaScript exceptions as values: \<open>js_exc\<close>, and a state-and-exception
    computation \<open>('s, 'a) jsm\<close> whose result is \<open>Inl\<close> of the exception or \<open>Inr\<close> of
    the value, always paired with the state reached, because a JS \<^verbatim>\<open>throw\<close>
    keeps every mutation made before it;
  \<^item> the lemma collections the component theories fill;
  \<^item> generic facts on lists and characters shared by the string lexer and the
    dispatcher.
\<close>

named_theorems jsm_simps "evaluation rules of the exception-and-state computations"
named_theorems jsm_inv_rules "rules that carry a state invariant through a computation"
named_theorems edge_unfold "unfolding rules of the edge predicates of the viewpoint snapshot"

section \<open>JavaScript exceptions\<close>

text \<open>
  The plugin raises two kinds of exception: the string values thrown by
  \<^verbatim>\<open>init\<close> (\<^verbatim>\<open>throw "scrollElement not found"\<close>), and the \<^verbatim>\<open>TypeError\<close> the engine
  raises when an option that is truthy but not a function is called as a
  callback (\<^verbatim>\<open>self.options.offTop(...)\<close>).
\<close>

datatype js_exc =
    ThrowString string
  | TypeErrorNotFunction string

type_synonym ('s, 'a) jsm = "'s \<Rightarrow> (js_exc + 'a) \<times> 's"

definition jsm_return :: "'a \<Rightarrow> ('s, 'a) jsm" where
  "jsm_return a s = (Inr a, s)"

definition jsm_throw :: "js_exc \<Rightarrow> ('s, 'a) jsm" where
  "jsm_throw e s = (Inl e, s)"

definition jsm_bind :: "('s, 'a) jsm \<Rightarrow> ('a \<Rightarrow> ('s, 'b) jsm) \<Rightarrow> ('s, 'b) jsm" where
  "jsm_bind m f s = (case m s of (Inl e, s') \<Rightarrow> (Inl e, s') | (Inr a, s') \<Rightarrow> f a s')"

definition jsm_seq :: "('s, unit) jsm \<Rightarrow> ('s, 'b) jsm \<Rightarrow> ('s, 'b) jsm" where
  "jsm_seq m n = jsm_bind m (\<lambda>_. n)"

definition jsm_modify :: "('s \<Rightarrow> 's) \<Rightarrow> ('s, unit) jsm" where
  "jsm_modify f s = (Inr (), f s)"

definition jsm_when :: "bool \<Rightarrow> ('s, unit) jsm \<Rightarrow> ('s, unit) jsm" where
  "jsm_when b m = (if b then m else jsm_return ())"

text \<open>An \<^verbatim>\<open>if\<close> whose condition reads the state, with no \<^verbatim>\<open>else\<close>.\<close>

definition jsm_cond :: "('s \<Rightarrow> bool) \<Rightarrow> ('s, unit) jsm \<Rightarrow> ('s, unit) jsm" where
  "jsm_cond P m s = (if P s then m s else (Inr (), s))"

lemma jsm_return_apply [simp, jsm_simps]: "jsm_return a s = (Inr a, s)"
  by (simp add: jsm_return_def)

lemma jsm_throw_apply [simp, jsm_simps]: "jsm_throw e s = (Inl e, s)"
  by (simp add: jsm_throw_def)

lemma jsm_modify_apply [simp, jsm_simps]: "jsm_modify f s = (Inr (), f s)"
  by (simp add: jsm_modify_def)

lemma jsm_bind_apply [simp, jsm_simps]:
  "jsm_bind m f s = (case m s of (Inl e, s') \<Rightarrow> (Inl e, s') | (Inr a, s') \<Rightarrow> f a s')"
  by (simp add: jsm_bind_def)

lemma jsm_seq_apply [simp, jsm_simps]:
  "jsm_seq m n s = (case m s of (Inl e, s') \<Rightarrow> (Inl e, s') | (Inr _, s') \<Rightarrow> n s')"
  by (simp add: jsm_seq_def split: prod.split sum.split)

lemma jsm_cond_apply [simp, jsm_simps]:
  "jsm_cond P m s = (if P s then m s else (Inr (), s))"
  by (simp add: jsm_cond_def)

lemma jsm_when_apply [simp, jsm_simps]:
  "jsm_when b m s = (if b then m s else (Inr (), s))"
  by (simp add: jsm_when_def)

text \<open>The monad laws, used when a handler is rebracketed.\<close>

lemma jsm_bind_return_left: "jsm_bind (jsm_return a) f = f a"
  by (rule ext) simp

lemma jsm_bind_assoc:
  "jsm_bind (jsm_bind m f) g = jsm_bind m (\<lambda>a. jsm_bind (f a) g)"
  by (rule ext) (simp split: prod.split sum.split)

lemma jsm_seq_return_unit [simp]: "jsm_seq m (jsm_return ()) = m"
  by (rule ext) (simp split: prod.split sum.split)

lemma jsm_seq_modify [simp]: "jsm_seq (jsm_modify f) n s = n (f s)"
  by simp

section \<open>Invariants of computations\<close>

text \<open>
  \<open>P\<close> is kept by \<open>m\<close> whatever \<open>m\<close> returns, a thrown exception included:
  the state after a \<^verbatim>\<open>throw\<close> is the one later code runs on.
\<close>

definition jsm_inv :: "('s \<Rightarrow> bool) \<Rightarrow> ('s, 'a) jsm \<Rightarrow> bool" where
  "jsm_inv P m \<longleftrightarrow> (\<forall>s. P s \<longrightarrow> P (snd (m s)))"

lemma jsm_invD: "jsm_inv P m \<Longrightarrow> P s \<Longrightarrow> P (snd (m s))"
  by (simp add: jsm_inv_def)

lemma jsm_inv_return [jsm_inv_rules]: "jsm_inv P (jsm_return a)"
  by (simp add: jsm_inv_def)

lemma jsm_inv_modify [jsm_inv_rules]: "(\<And>s. P s \<Longrightarrow> P (f s)) \<Longrightarrow> jsm_inv P (jsm_modify f)"
  by (simp add: jsm_inv_def)

lemma jsm_inv_bind [jsm_inv_rules]:
  "jsm_inv P m \<Longrightarrow> (\<And>a. jsm_inv P (f a)) \<Longrightarrow> jsm_inv P (jsm_bind m f)"
  unfolding jsm_inv_def by (auto split: prod.split sum.split)

lemma jsm_inv_seq [jsm_inv_rules]: "jsm_inv P m \<Longrightarrow> jsm_inv P n \<Longrightarrow> jsm_inv P (jsm_seq m n)"
  unfolding jsm_seq_def by (rule jsm_inv_bind)

lemma jsm_inv_cond [jsm_inv_rules]: "jsm_inv P m \<Longrightarrow> jsm_inv P (jsm_cond C m)"
  by (simp add: jsm_inv_def)

lemma jsm_inv_if [jsm_inv_rules]:
  "jsm_inv P m1 \<Longrightarrow> jsm_inv P m2 \<Longrightarrow> jsm_inv P (\<lambda>s. if C s then m1 s else m2 s)"
  by (simp add: jsm_inv_def)

lemma jsm_inv_ifc [jsm_inv_rules]:
  "jsm_inv P m1 \<Longrightarrow> jsm_inv P m2 \<Longrightarrow> jsm_inv P (if b then m1 else m2)"
  by simp

section \<open>Lists and characters\<close>

text \<open>
  A greedy lexer stage that reads a maximal run of \<open>P\<close>-characters is not
  disturbed by text appended after the input when that text does not start with
  a \<open>P\<close>-character.
\<close>

definition stops :: "('a \<Rightarrow> bool) \<Rightarrow> 'a list \<Rightarrow> bool" where
  "stops P w \<longleftrightarrow> (case w of [] \<Rightarrow> True | c # _ \<Rightarrow> \<not> P c)"

lemma stops_Nil [simp]: "stops P []"
  by (simp add: stops_def)

lemma stops_Cons [simp]: "stops P (c # w) \<longleftrightarrow> \<not> P c"
  by (simp add: stops_def)

lemma takeWhile_append_stops: "stops P w \<Longrightarrow> takeWhile P (s @ w) = takeWhile P s"
  by (induction s) (auto simp: stops_def split: list.splits)

lemma dropWhile_append_stops: "stops P w \<Longrightarrow> dropWhile P (s @ w) = dropWhile P s @ w"
  by (induction s) (auto simp: stops_def split: list.splits)

lemma stops_mono: "stops P w \<Longrightarrow> (\<And>c. Q c \<Longrightarrow> P c) \<Longrightarrow> stops Q w"
  by (auto simp: stops_def split: list.splits)

text \<open>Splitting off a trailing run: the prefix and the run that \<open>rev\<close>/\<open>dropWhile\<close> trim.\<close>

lemma rev_dropWhile_rev_split:
  "xs = rev (dropWhile P (rev xs)) @ rev (takeWhile P (rev xs))"
proof -
  have "rev xs = takeWhile P (rev xs) @ dropWhile P (rev xs)" by simp
  then show ?thesis by (metis rev_append rev_rev_ident)
qed

end
