(* ===== verification/JsNumber.thy ===== *)
theory JsNumber
  imports Prelude
begin

text \<open>
  Offset resolution (src/js/viewpoint.js, \<^verbatim>\<open>isNumeric\<close> lines 39--41 and
  \<^verbatim>\<open>isPercent\<close> lines 43--53) rests on two conversions of the JavaScript engine:
  \<^verbatim>\<open>Number(s)\<close> (ECMAScript StringToNumber, also what \<^verbatim>\<open>obj - x\<close> applies to a
  string) and \<^verbatim>\<open>parseFloat(s)\<close>. They are modelled here from the ECMAScript
  grammar (StrNumericLiteral, StrDecimalLiteral, NonDecimalIntegerLiteral), since
  the plugin's behaviour on strings such as \<^verbatim>\<open>"0x10%"\<close> or \<^verbatim>\<open>" 5%"\<close> is theirs.
  A JS number is \<open>jsnum\<close>: a finite value (an exact real: rounding to binary64 is
  not modelled), the two infinities, or NaN. Strings are byte lists; the
  whitespace trimmed is the ASCII part of StrWhiteSpaceChar.
\<close>

section \<open>Number values\<close>

datatype jsnum = Fin real | PosInf | NegInf | NaN

fun js_neg :: "jsnum \<Rightarrow> jsnum" where
  "js_neg (Fin a) = Fin (- a)"
| "js_neg PosInf = NegInf"
| "js_neg NegInf = PosInf"
| "js_neg NaN = NaN"

text \<open>Subtraction, IEEE style: \<open>\<infinity> - \<infinity>\<close> and anything with NaN are NaN.\<close>

fun js_minus :: "jsnum \<Rightarrow> jsnum \<Rightarrow> jsnum" where
  "js_minus (Fin a) (Fin b) = Fin (a - b)"
| "js_minus NaN _ = NaN"
| "js_minus _ NaN = NaN"
| "js_minus PosInf PosInf = NaN"
| "js_minus NegInf NegInf = NaN"
| "js_minus PosInf _ = PosInf"
| "js_minus NegInf _ = NegInf"
| "js_minus (Fin _) PosInf = NegInf"
| "js_minus (Fin _) NegInf = PosInf"

text \<open>\<open>a >= b\<close>: false whenever NaN is involved.\<close>

fun js_ge :: "jsnum \<Rightarrow> jsnum \<Rightarrow> bool" where
  "js_ge NaN _ = False"
| "js_ge _ NaN = False"
| "js_ge PosInf _ = True"
| "js_ge _ PosInf = False"
| "js_ge _ NegInf = True"
| "js_ge NegInf _ = False"
| "js_ge (Fin a) (Fin b) = (b \<le> a)"

section \<open>Characters\<close>

definition is_js_ws :: "char \<Rightarrow> bool" where
  "is_js_ws c \<longleftrightarrow> c \<in> set [CHR 0x09, CHR 0x0A, CHR 0x0B, CHR 0x0C, CHR 0x0D, CHR 0x20]"

definition is_dec_digit :: "char \<Rightarrow> bool" where
  "is_dec_digit c \<longleftrightarrow> 48 \<le> (of_char c :: nat) \<and> (of_char c :: nat) \<le> 57"

definition hex_digit_val :: "char \<Rightarrow> nat option" where
  "hex_digit_val c =
     (let n = (of_char c :: nat) in
      if 48 \<le> n \<and> n \<le> 57 then Some (n - 48)
      else if 97 \<le> n \<and> n \<le> 102 then Some (n - 87)
      else if 65 \<le> n \<and> n \<le> 70 then Some (n - 55)
      else None)"

definition digit_ok :: "nat \<Rightarrow> char \<Rightarrow> bool" where
  "digit_ok b c = (case hex_digit_val c of Some d \<Rightarrow> d < b | None \<Rightarrow> False)"

definition radix_val :: "nat \<Rightarrow> string \<Rightarrow> nat" where
  "radix_val b cs =
     foldl (\<lambda>acc c. acc * b + (case hex_digit_val c of Some d \<Rightarrow> d | None \<Rightarrow> 0)) 0 cs"

abbreviation dec_val :: "string \<Rightarrow> nat" where
  "dec_val \<equiv> radix_val 10"

section \<open>The decimal literal lexer\<close>

text \<open>
  \<open>scale10 x e\<close> is \<open>x \<cdot> 10\<^sup>e\<close> for an integer exponent.
  \<open>exponent_part\<close> reads an ExponentPart (\<open>e\<close> or \<open>E\<close>, an optional sign,
  at least one digit) and leaves the input alone when there is none.
\<close>

definition scale10 :: "real \<Rightarrow> int \<Rightarrow> real" where
  "scale10 x e = (if 0 \<le> e then x * 10 ^ nat e else x / 10 ^ nat (- e))"

definition sign_prefix :: "string \<Rightarrow> bool \<times> string" where
  "sign_prefix s =
     (case s of
        c # r \<Rightarrow> if c = CHR ''+'' then (False, r) else if c = CHR ''-'' then (True, r) else (False, s)
      | [] \<Rightarrow> (False, []))"

definition exponent_part :: "string \<Rightarrow> int \<times> string" where
  "exponent_part s =
     (case s of
        c # r \<Rightarrow>
          if c = CHR ''e'' \<or> c = CHR ''E'' then
            (let (neg, r') = sign_prefix r; ds = takeWhile is_dec_digit r' in
             if ds = [] then (0, s)
             else ((if neg then - int (dec_val ds) else int (dec_val ds)), dropWhile is_dec_digit r'))
          else (0, s)
      | [] \<Rightarrow> (0, []))"

definition fraction_part :: "string \<Rightarrow> string \<times> string" where
  "fraction_part s =
     (case s of
        c # r \<Rightarrow> if c = CHR ''.'' then (takeWhile is_dec_digit r, dropWhile is_dec_digit r) else ([], s)
      | [] \<Rightarrow> ([], []))"

text \<open>
  StrUnsignedDecimalLiteral, read greedily: \<open>Infinity\<close>, or digits, an optional
  fraction and an optional exponent, with at least one digit before or after the
  point. The result is the value and the unread rest.
\<close>

definition dec_unsigned :: "string \<Rightarrow> (jsnum \<times> string) option" where
  "dec_unsigned s =
     (if take 8 s = ''Infinity'' then Some (PosInf, drop 8 s)
      else
        (let ip = takeWhile is_dec_digit s;
             (fp, r2) = fraction_part (dropWhile is_dec_digit s)
         in if ip = [] \<and> fp = [] then None
            else
              (let (e, r3) = exponent_part r2
               in Some (Fin (scale10 (real (dec_val (ip @ fp)) / 10 ^ length fp) e), r3))))"

definition dec_literal :: "string \<Rightarrow> (jsnum \<times> string) option" where
  "dec_literal s =
     (case s of
        c # r \<Rightarrow>
          if c = CHR ''+'' then dec_unsigned r
          else if c = CHR ''-'' then map_option (\<lambda>(v, rest). (js_neg v, rest)) (dec_unsigned r)
          else dec_unsigned s
      | [] \<Rightarrow> None)"

text \<open>NonDecimalIntegerLiteral: \<open>0x\<close>, \<open>0o\<close> or \<open>0b\<close> and at least one digit of the base.\<close>

definition non_decimal :: "string \<Rightarrow> real option" where
  "non_decimal s =
     (case s of
        z # c # ds \<Rightarrow>
          (let b = (if c = CHR ''x'' \<or> c = CHR ''X'' then 16
                    else if c = CHR ''o'' \<or> c = CHR ''O'' then 8
                    else if c = CHR ''b'' \<or> c = CHR ''B'' then 2 else 0)
           in if z = CHR ''0'' \<and> b \<noteq> 0 \<and> ds \<noteq> [] \<and> list_all (digit_ok b) ds
              then Some (real (radix_val b ds)) else None)
      | _ \<Rightarrow> None)"

section \<open>The two conversions\<close>

definition trim_ws :: "string \<Rightarrow> string" where
  "trim_ws s = rev (dropWhile is_js_ws (rev (dropWhile is_js_ws s)))"

text \<open>\<^verbatim>\<open>Number(s)\<close>: the whole trimmed string must be a literal; blank is 0.\<close>

definition to_number :: "string \<Rightarrow> jsnum" where
  "to_number s =
     (let t = trim_ws s in
      if t = [] then Fin 0
      else (case non_decimal t of
              Some v \<Rightarrow> Fin v
            | None \<Rightarrow> (case dec_literal t of Some (v, []) \<Rightarrow> v | _ \<Rightarrow> NaN)))"

text \<open>\<^verbatim>\<open>parseFloat(s)\<close>: the longest decimal-literal prefix after leading whitespace.\<close>

definition parse_float :: "string \<Rightarrow> jsnum" where
  "parse_float s = (case dec_literal (dropWhile is_js_ws s) of Some (v, _) \<Rightarrow> v | None \<Rightarrow> NaN)"

section \<open>The plugin's helpers\<close>

text \<open>\<^verbatim>\<open>isNumeric(obj)\<close>, line 40: \<^verbatim>\<open>obj - parseFloat(obj) >= 0\<close>.\<close>

definition is_numeric :: "string \<Rightarrow> bool" where
  "is_numeric obj = js_ge (js_minus (to_number obj) (parse_float obj)) (Fin 0)"

text \<open>
  An option value as the plugin sees it: \<^verbatim>\<open>undefined\<close>, a number, a string, or
  anything else (\<^verbatim>\<open>null\<close>, a boolean, an object).
\<close>

datatype js_opt = OptUndefined | OptNumber real | OptString string | OptOther

text \<open>
  \<^verbatim>\<open>isPercent(str)\<close>, lines 43--53: for a string ending in \<open>%\<close>, the part before it
  when that part passes \<^verbatim>\<open>isNumeric\<close>; \<^verbatim>\<open>false\<close> (here \<open>None\<close>) otherwise.
  \<^verbatim>\<open>str.charAt(str.length - 1)\<close> is the empty string on an empty \<^verbatim>\<open>str\<close>.
\<close>

definition is_percent :: "js_opt \<Rightarrow> string option" where
  "is_percent v =
     (case v of
        OptString str \<Rightarrow>
          if str \<noteq> [] \<and> last str = CHR ''%'' then
            (let ret = butlast str in if is_numeric ret then Some ret else None)
          else None
      | _ \<Rightarrow> None)"

text \<open>
  \<^verbatim>\<open>Number(offsetPercentNum)\<close> as the edge checks use it (lines 259, 271, 283, 295):
  only on a string \<^verbatim>\<open>isPercent\<close> returned, whose value is finite
  (\<open>is_percent_finite\<close> below), so the last branch is never taken.
\<close>

definition number_value :: "string \<Rightarrow> real" where
  "number_value p = (case to_number p of Fin r \<Rightarrow> r | _ \<Rightarrow> 0)"

section \<open>Vocabulary of the properties\<close>

text \<open>Characters that can continue a decimal literal once its first part is read.\<close>

definition lex_cont :: "char \<Rightarrow> bool" where
  "lex_cont c \<longleftrightarrow> is_dec_digit c \<or> c \<in> set ''.eE+-''"

text \<open>Decimal rendering of a natural number, the inverse the round trips use.\<close>

fun show_nat :: "nat \<Rightarrow> string" where
  "show_nat n =
     (if n < 10 then [char_of (48 + n)] else show_nat (n div 10) @ [char_of (48 + n mod 10)])"

declare show_nat.simps [simp del]

section \<open>The lexer reads the same prefix when text is appended\<close>

lemma stops_lex_cont_digit: "stops lex_cont w \<Longrightarrow> stops is_dec_digit w"
  by (erule stops_mono) (simp add: lex_cont_def)

lemma stops_lex_cont_Cons: "stops lex_cont (c # w) \<Longrightarrow>
    \<not> is_dec_digit c \<and> c \<noteq> CHR ''.'' \<and> c \<noteq> CHR ''e'' \<and> c \<noteq> CHR ''E'' \<and> c \<noteq> CHR ''+'' \<and> c \<noteq> CHR ''-''"
  by (simp add: lex_cont_def)

lemma fraction_part_append:
  assumes "fraction_part s = (fp, r)" and "stops lex_cont w"
  shows "fraction_part (s @ w) = (fp, r @ w)"
proof (cases s)
  case Nil
  with assms show ?thesis
    by (cases w) (auto simp: fraction_part_def lex_cont_def)
next
  case (Cons c s')
  with assms show ?thesis
    by (auto simp: fraction_part_def takeWhile_append_stops dropWhile_append_stops
        stops_lex_cont_digit split: if_splits)
qed

lemma sign_prefix_append:
  assumes "sign_prefix s = (n, r)" and "stops lex_cont w"
  shows "sign_prefix (s @ w) = (n, r @ w)"
proof (cases s)
  case Nil
  with assms show ?thesis
    by (cases w) (auto simp: sign_prefix_def lex_cont_def)
next
  case (Cons c s')
  with assms show ?thesis by (auto simp: sign_prefix_def split: if_splits)
qed

lemma exponent_part_append:
  assumes "exponent_part s = (e, r)" and w: "stops lex_cont w"
  shows "exponent_part (s @ w) = (e, r @ w)"
proof (cases s)
  case Nil
  with assms show ?thesis
    by (cases w) (auto simp: exponent_part_def lex_cont_def)
next
  case (Cons c s')
  obtain n r' where sp: "sign_prefix s' = (n, r')" by fastforce
  from sp w have sp': "sign_prefix (s' @ w) = (n, r' @ w)" by (rule sign_prefix_append)
  have dw: "stops is_dec_digit w" using w by (rule stops_lex_cont_digit)
  from assms(1) Cons sp sp' dw show ?thesis
    by (auto simp: exponent_part_def Let_def takeWhile_append_stops dropWhile_append_stops
        split: if_splits)
qed

lemma dec_unsigned_head:
  assumes "dec_unsigned s \<noteq> None" and "take 8 s \<noteq> ''Infinity''"
  shows "\<exists>c s'. s = c # s' \<and> c \<noteq> CHR ''I''"
  using assms
  by (cases s) (auto simp: dec_unsigned_def fraction_part_def is_dec_digit_def Let_def
      split: prod.splits)

lemma dec_unsigned_append:
  assumes d: "dec_unsigned s = Some (v, r)" and w: "stops lex_cont w"
  shows "dec_unsigned (s @ w) = Some (v, r @ w)"
proof (cases "take 8 s = ''Infinity''")
  case True
  then have "length (take 8 s) = 8" by simp
  then have "length s \<ge> 8" by simp
  with True d show ?thesis by (simp add: dec_unsigned_def)
next
  case False
  with d obtain c s' where s: "s = c # s'" and c: "c \<noteq> CHR ''I''"
    using dec_unsigned_head by blast
  then have inf: "take 8 (s @ w) \<noteq> ''Infinity''" by simp
  have dw: "stops is_dec_digit w" using w by (rule stops_lex_cont_digit)
  obtain fp r2 where fr: "fraction_part (dropWhile is_dec_digit s) = (fp, r2)" by fastforce
  obtain e r3 where ex: "exponent_part r2 = (e, r3)" by fastforce
  have fr': "fraction_part (dropWhile is_dec_digit (s @ w)) = (fp, r2 @ w)"
    using fraction_part_append [OF fr w] dw by (simp add: dropWhile_append_stops)
  have ex': "exponent_part (r2 @ w) = (e, r3 @ w)" using ex w by (rule exponent_part_append)
  from d False fr ex have "\<not> (takeWhile is_dec_digit s = [] \<and> fp = [])"
    and "v = Fin (scale10 (real (dec_val (takeWhile is_dec_digit s @ fp)) / 10 ^ length fp) e)"
    and "r = r3"
    by (auto simp: dec_unsigned_def Let_def split: if_splits)
  with inf fr' ex' dw show ?thesis
    by (simp add: dec_unsigned_def Let_def takeWhile_append_stops)
qed

lemma dec_literal_append:
  assumes d: "dec_literal s = Some (v, r)" and w: "stops lex_cont w"
  shows "dec_literal (s @ w) = Some (v, r @ w)"
proof (cases s)
  case Nil
  with d show ?thesis by (simp add: dec_literal_def)
next
  case (Cons c s')
  show ?thesis
  proof (cases "c = CHR ''+'' \<or> c = CHR ''-''")
    case True
    with d w Cons show ?thesis
      by (auto simp: dec_literal_def dec_unsigned_append split: if_splits)
  next
    case False
    with d Cons have "dec_unsigned s = Some (v, r)" by (simp add: dec_literal_def)
    then have "dec_unsigned (s @ w) = Some (v, r @ w)" using w by (rule dec_unsigned_append)
    with False Cons show ?thesis by (simp add: dec_literal_def)
  qed
qed


section \<open>What \<^verbatim>\<open>isNumeric\<close> accepts\<close>

lemma dropWhile_ws_split:
  "dropWhile is_js_ws s = trim_ws s @ rev (takeWhile is_js_ws (rev (dropWhile is_js_ws s)))"
  unfolding trim_ws_def by (rule rev_dropWhile_rev_split)

lemma ws_not_lex_cont: "is_js_ws c \<Longrightarrow> \<not> lex_cont c"
  unfolding is_js_ws_def lex_cont_def is_dec_digit_def by auto

lemma ws_run_stops: "(\<forall>c\<in>set w. is_js_ws c) \<Longrightarrow> stops lex_cont w"
  by (cases w) (simp_all add: ws_not_lex_cont)

lemma ws_suffix_stops: "stops lex_cont (rev (takeWhile is_js_ws xs))"
  by (rule ws_run_stops) (auto dest: set_takeWhileD)

lemma parse_float_trim:
  assumes "dec_literal (trim_ws s) = Some (v, r)"
  shows "parse_float s = v"
proof -
  let ?w = "rev (takeWhile is_js_ws (rev (dropWhile is_js_ws s)))"
  have "dec_literal (trim_ws s @ ?w) = Some (v, r @ ?w)"
    using assms ws_suffix_stops by (rule dec_literal_append)
  then show ?thesis
    by (simp add: parse_float_def dropWhile_ws_split [of s, symmetric])
qed

lemma trim_ws_Nil_parse_float:
  assumes "trim_ws s = []"
  shows "parse_float s = NaN"
proof -
  let ?d = "dropWhile is_js_ws s"
  have split: "?d = rev (takeWhile is_js_ws (rev ?d))"
    using dropWhile_ws_split [of s] assms by simp
  have d0: "?d = []"
  proof (rule ccontr)
    assume ne: "?d \<noteq> []"
    then have "\<not> is_js_ws (hd ?d)" by (rule hd_dropWhile)
    moreover from ne split have "hd ?d \<in> set (takeWhile is_js_ws (rev ?d))"
      by (metis hd_in_set set_rev)
    ultimately show False by (blast dest: set_takeWhileD)
  qed
  show ?thesis unfolding parse_float_def d0 by (simp add: dec_literal_def)
qed

lemma non_decimal_Some:
  assumes "non_decimal t = Some v"
  shows "dec_literal t = Some (Fin 0, tl t) \<and> 0 \<le> v"
proof -
  from assms obtain c ds where t: "t = CHR ''0'' # c # ds"
    and c: "c \<in> set ''xXoObB''" and v: "v = real (radix_val (if c = CHR ''x'' \<or> c = CHR ''X'' then 16
                    else if c = CHR ''o'' \<or> c = CHR ''O'' then 8 else 2) ds)"
    by (auto simp: non_decimal_def Let_def split: list.splits if_splits)
  from c have "dec_literal t = Some (Fin 0, tl t)"
    by (auto simp: t dec_literal_def dec_unsigned_def fraction_part_def exponent_part_def
        is_dec_digit_def radix_val_def hex_digit_val_def scale10_def)
  then show ?thesis by (simp add: v)
qed

lemma js_minus_NaN_right [simp]: "js_minus v NaN = NaN"
  by (cases v) auto

lemma js_minus_self_ge: "js_ge (js_minus v v) (Fin 0) \<longleftrightarrow> (\<exists>r. v = Fin r)"
  by (cases v) auto

lemma to_number_trim_cases:
  assumes "trim_ws s \<noteq> []" and "non_decimal (trim_ws s) = None"
  shows "to_number s = (case dec_literal (trim_ws s) of Some (v, []) \<Rightarrow> v | _ \<Rightarrow> NaN)"
  using assms by (simp add: to_number_def)

text \<open>
  C3.
  \<^verbatim>\<open>isNumeric\<close> accepts exactly the strings that are not blank and that
  \<^verbatim>\<open>Number()\<close> reads as a finite value: signed decimals with fraction and exponent,
  surrounding whitespace, and also \<^verbatim>\<open>0x\<close>/\<^verbatim>\<open>0o\<close>/\<^verbatim>\<open>0b\<close> literals (where
  \<^verbatim>\<open>parseFloat\<close> reads only the leading \<open>0\<close>); never \<^verbatim>\<open>Infinity\<close>.
\<close>

theorem is_numeric_iff: "is_numeric s \<longleftrightarrow> trim_ws s \<noteq> [] \<and> (\<exists>r. to_number s = Fin r)"
proof (cases "trim_ws s = []")
  case True
  then show ?thesis by (simp add: is_numeric_def trim_ws_Nil_parse_float)
next
  case ne: False
  show ?thesis
  proof (cases "non_decimal (trim_ws s)")
    case (Some v)
    with non_decimal_Some have "parse_float s = Fin 0" and "0 \<le> v"
      by (auto intro: parse_float_trim)
    with ne Some show ?thesis by (simp add: is_numeric_def to_number_def)
  next
    case None
    show ?thesis
    proof (cases "dec_literal (trim_ws s)")
      case None2: None
      with ne None show ?thesis by (simp add: is_numeric_def to_number_def)
    next
      case (Some p)
      obtain v r where p: "p = (v, r)" by fastforce
      with Some have pf: "parse_float s = v" by (simp add: parse_float_trim)
      show ?thesis
      proof (cases r)
        case Nil
        with ne None Some p pf show ?thesis
          by (simp add: is_numeric_def to_number_def js_minus_self_ge)
      next
        case (Cons c r')
        with ne None Some p show ?thesis by (simp add: is_numeric_def to_number_def)
      qed
    qed
  qed
qed

lemma is_percent_Some:
  "is_percent v = Some p \<longleftrightarrow>
     (\<exists>str. v = OptString str \<and> str \<noteq> [] \<and> last str = CHR ''%'' \<and> p = butlast str \<and> is_numeric p)"
  by (auto simp: is_percent_def Let_def split: js_opt.splits)

lemma is_percent_finite: "is_percent v = Some p \<Longrightarrow> to_number p = Fin (number_value p)"
  by (auto simp: is_percent_Some is_numeric_iff number_value_def)

section \<open>Decimal round trips\<close>

lemma hex_digit_val_char_of: "(d::nat) < 10 \<Longrightarrow> hex_digit_val (char_of (48 + d)) = Some d"
  by (simp add: hex_digit_val_def)

lemma is_dec_digit_char_of: "(d::nat) < 10 \<Longrightarrow> is_dec_digit (char_of (48 + d))"
  by (simp add: is_dec_digit_def)

lemma radix_val_snoc:
  "radix_val b (xs @ [c]) = radix_val b xs * b + (case hex_digit_val c of Some d \<Rightarrow> d | None \<Rightarrow> 0)"
  by (simp add: radix_val_def)

lemma show_nat_digits: "list_all is_dec_digit (show_nat n)"
  by (induction n rule: show_nat.induct) (subst show_nat.simps, simp add: is_dec_digit_char_of)

lemma show_nat_not_Nil: "show_nat n \<noteq> []"
  by (subst show_nat.simps) simp

lemma dec_val_show_nat: "dec_val (show_nat n) = n"
proof (induction n rule: show_nat.induct)
  case (1 n)
  show ?case
  proof (cases "n < 10")
    case True
    then show ?thesis
      by (subst show_nat.simps) (simp add: radix_val_def hex_digit_val_char_of)
  next
    case False
    with "1.IH" show ?thesis
      by (subst show_nat.simps) (simp add: radix_val_snoc hex_digit_val_char_of)
  qed
qed

lemma digit_not_ws: "is_dec_digit c \<Longrightarrow> \<not> is_js_ws c"
  unfolding is_dec_digit_def is_js_ws_def by auto

lemma digits_dropWhile_ws: "list_all is_dec_digit ds \<Longrightarrow> dropWhile is_js_ws ds = ds"
  by (cases ds) (simp_all add: digit_not_ws)

lemma digits_trim_ws: "list_all is_dec_digit ds \<Longrightarrow> trim_ws ds = ds"
  by (simp add: trim_ws_def digits_dropWhile_ws)

lemma digits_non_decimal: "list_all is_dec_digit ds \<Longrightarrow> non_decimal ds = None"
  by (auto simp: non_decimal_def is_dec_digit_def split: list.splits)

lemma digits_dec_literal:
  assumes "ds \<noteq> []" and "list_all is_dec_digit ds"
  shows "dec_literal ds = Some (Fin (real (dec_val ds)), [])"
proof -
  from assms obtain c r where ds: "ds = c # r" and c: "is_dec_digit c"
    by (cases ds) auto
  then have sign: "c \<noteq> CHR ''+'' \<and> c \<noteq> CHR ''-'' \<and> c \<noteq> CHR ''I''"
    by (auto simp: is_dec_digit_def)
  from assms(2) have "takeWhile is_dec_digit ds = ds" and "dropWhile is_dec_digit ds = []"
    by (simp_all add: list_all_iff)
  with sign show ?thesis
    by (simp add: ds dec_literal_def dec_unsigned_def fraction_part_def exponent_part_def
        scale10_def)
qed

text \<open>
  \<^verbatim>\<open>Number()\<close> and \<^verbatim>\<open>parseFloat()\<close> read back the decimal rendering of every \<open>n\<close>.\<close>

lemma to_number_show_nat: "to_number (show_nat n) = Fin (real n)"
  using digits_dec_literal [OF show_nat_not_Nil show_nat_digits]
  by (simp add: to_number_def digits_trim_ws digits_non_decimal show_nat_digits show_nat_not_Nil
      dec_val_show_nat)

lemma parse_float_show_nat: "parse_float (show_nat n) = Fin (real n)"
  using digits_dec_literal [OF show_nat_not_Nil show_nat_digits]
  by (simp add: parse_float_def digits_dropWhile_ws show_nat_digits dec_val_show_nat)

end
