(* ===== verification/Sampler.thy ===== *)
theory Sampler
  imports JsNumber
begin

text \<open>
  The state sampler and the edge evaluator of src/js/viewpoint.js:
  \<^item> the options object (\<^verbatim>\<open>defaultOptions\<close>, lines 16--37) as the record
    \<open>vp_options\<close>, with the option values as \<open>js_opt\<close> and the eight callback
    slots as a function from \<open>cb_name\<close> to \<open>cb_slot\<close>;
  \<^item> the host's geometry readings (jQuery \<^verbatim>\<open>width()\<close>, \<^verbatim>\<open>height()\<close>,
    \<^verbatim>\<open>scrollTop()\<close>, \<^verbatim>\<open>scrollLeft()\<close>, \<^verbatim>\<open>offset()\<close>, \<^verbatim>\<open>position()\<close>) as the
    record \<open>geometry\<close>;
  \<^item> \<^verbatim>\<open>currentState\<close> as the record \<open>vp_state\<close>: its numeric fields and its
    six flags, the flags \<open>None\<close> until first written (the object starts as \<^verbatim>\<open>{}\<close>);
  \<^item> \<^verbatim>\<open>updateCurrentState\<close> (lines 222--237), the four edge checks and
    \<^verbatim>\<open>checkAffixTop\<close> (lines 252--304) and \<^verbatim>\<open>isInViewPoint\<close> (lines 240--250).
  Geometry is real-valued: jQuery reports finite numbers, and a numeric offset
  option is taken to be a finite number.
\<close>

section \<open>Options\<close>

datatype cb_name = InView | OffView | OffTop | OffRight | OffBottom | OffLeft | AffixTop | OffAffixTop

text \<open>
  A callback option is absent or falsy (\<^verbatim>\<open>undefined\<close>, \<^verbatim>\<open>null\<close>, \<^verbatim>\<open>false\<close>, \<^verbatim>\<open>0\<close>),
  a function, or truthy but not a function (\<^verbatim>\<open>true\<close>, a string, an object).
  The constructor tests \<^verbatim>\<open>$.isFunction\<close>; the dispatcher tests truthiness.
\<close>

datatype cb_slot = CbAbsent | CbFunction | CbTruthy

definition is_function :: "cb_slot \<Rightarrow> bool" where
  "is_function c \<longleftrightarrow> c = CbFunction"

definition truthy :: "cb_slot \<Rightarrow> bool" where
  "truthy c \<longleftrightarrow> c \<noteq> CbAbsent"

text \<open>The scroll element: the window, a selector string, or a DOM node.\<close>

datatype elem_ref = WindowRef | SelectorRef string | NodeRef nat

record vp_options =
  scrollElement :: elem_ref
  contentPane :: js_opt
  topOffset :: js_opt
  rightOffset :: js_opt
  bottomOffset :: js_opt
  leftOffset :: js_opt
  affixOffset :: js_opt
  delay :: nat
  callbacks :: "cb_name \<Rightarrow> cb_slot"

text \<open>\<^verbatim>\<open>defaultOptions\<close>, lines 16--37 (the event names are constants of the model).\<close>

definition default_options :: vp_options where
  "default_options =
     \<lparr>scrollElement = WindowRef, contentPane = OptOther, topOffset = OptUndefined,
      rightOffset = OptUndefined, bottomOffset = OptUndefined, leftOffset = OptUndefined,
      affixOffset = OptUndefined, delay = 70, callbacks = (\<lambda>_. CbAbsent)\<rparr>"

section \<open>Geometry and the snapshot\<close>

record geometry =
  g_win_width :: real
  g_win_height :: real
  g_scroll_top :: real
  g_scroll_left :: real
  g_el_width :: real
  g_el_height :: real
  g_offset :: "real \<times> real"
  g_position :: "real \<times> real"

record vp_state =
  winWidth :: real
  winHeight :: real
  winScrollTop :: real
  winScrollLeft :: real
  elementWidth :: real
  elementHeight :: real
  elementOffsetTop :: real
  elementOffsetLeft :: real
  foldWidth :: real
  foldHeight :: real
  isAffixTop :: "bool option"
  isOffTop :: "bool option"
  isOffRight :: "bool option"
  isOffBottom :: "bool option"
  isOffLeft :: "bool option"
  isInViewPoint :: "bool option"

text \<open>
  The \<^verbatim>\<open>{}\<close> the prototype starts with. Its numeric fields are never read
  before \<open>update_current_state\<close> writes them (\<open>update_current_state_numeric\<close>),
  so the zeros stand for \<^verbatim>\<open>undefined\<close> without effect.
\<close>

definition empty_state :: vp_state where
  "empty_state =
     \<lparr>winWidth = 0, winHeight = 0, winScrollTop = 0, winScrollLeft = 0, elementWidth = 0,
      elementHeight = 0, elementOffsetTop = 0, elementOffsetLeft = 0, foldWidth = 0,
      foldHeight = 0, isAffixTop = None, isOffTop = None, isOffRight = None,
      isOffBottom = None, isOffLeft = None, isInViewPoint = None\<rparr>"

section \<open>Offset resolution\<close>

text \<open>
  The offset computations the four checks inline (lines 254--260, 266--272,
  278--284, 290--296): a number is used as it is; a percentage string is a share
  of the element's height or width, added for top and left and subtracted
  (\<^verbatim>\<open>0 - ...\<close>) for right and bottom; anything else is 0.
\<close>

definition offset_pos :: "js_opt \<Rightarrow> real \<Rightarrow> real" where
  "offset_pos v extent =
     (let offsetPercentNum = is_percent v in
      case v of
        OptNumber n \<Rightarrow> n
      | _ \<Rightarrow> (case offsetPercentNum of Some p \<Rightarrow> extent * (number_value p / 100) | None \<Rightarrow> 0))"

definition offset_neg :: "js_opt \<Rightarrow> real \<Rightarrow> real" where
  "offset_neg v extent =
     (let offsetPercentNum = is_percent v in
      case v of
        OptNumber n \<Rightarrow> n
      | _ \<Rightarrow> (case offsetPercentNum of Some p \<Rightarrow> 0 - extent * (number_value p / 100) | None \<Rightarrow> 0))"

text \<open>\<^verbatim>\<open>checkAffixTop\<close> takes a number only (line 302).\<close>

definition affix_offset :: "js_opt \<Rightarrow> real" where
  "affix_offset v = (case v of OptNumber n \<Rightarrow> n | _ \<Rightarrow> 0)"

section \<open>The edge checks\<close>

definition check_off_top :: "vp_options \<Rightarrow> vp_state \<Rightarrow> bool" where
  "check_off_top opts st \<longleftrightarrow>
     winScrollTop st \<ge> (elementOffsetTop st + elementHeight st) - offset_pos (topOffset opts) (elementHeight st)"

definition check_off_right :: "vp_options \<Rightarrow> vp_state \<Rightarrow> bool" where
  "check_off_right opts st \<longleftrightarrow>
     foldWidth st \<le> elementOffsetLeft st - offset_neg (rightOffset opts) (elementWidth st)"

definition check_off_bottom :: "vp_options \<Rightarrow> vp_state \<Rightarrow> bool" where
  "check_off_bottom opts st \<longleftrightarrow>
     foldHeight st \<le> elementOffsetTop st - offset_neg (bottomOffset opts) (elementHeight st)"

definition check_off_left :: "vp_options \<Rightarrow> vp_state \<Rightarrow> bool" where
  "check_off_left opts st \<longleftrightarrow>
     winScrollLeft st \<ge> (elementOffsetLeft st + elementWidth st) - offset_pos (leftOffset opts) (elementWidth st)"

definition check_affix_top :: "vp_options \<Rightarrow> vp_state \<Rightarrow> bool" where
  "check_affix_top opts st \<longleftrightarrow> winScrollTop st \<ge> elementOffsetTop st - affix_offset (affixOffset opts)"

section \<open>Sampling and the aggregate\<close>

text \<open>
  \<^verbatim>\<open>updateCurrentState\<close>, lines 222--237: the element's position is
  \<^verbatim>\<open>position()\<close> when the instance has a \<^verbatim>\<open>$contentPane\<close>, else \<^verbatim>\<open>offset()\<close>;
  the fold extents are size plus scroll; \<^verbatim>\<open>isAffixTop\<close> is written last, from the
  fields just written. The edge flags are left as they were.
\<close>

definition update_current_state :: "vp_options \<Rightarrow> bool \<Rightarrow> geometry \<Rightarrow> vp_state \<Rightarrow> vp_state" where
  "update_current_state opts has_pane g st =
     (let pos = (if has_pane then g_position g else g_offset g);
          st1 = st\<lparr>winWidth := g_win_width g, winHeight := g_win_height g,
                   winScrollTop := g_scroll_top g, winScrollLeft := g_scroll_left g,
                   elementWidth := g_el_width g, elementHeight := g_el_height g,
                   elementOffsetTop := fst pos, elementOffsetLeft := snd pos\<rparr>;
          st2 = st1\<lparr>foldWidth := winWidth st1 + winScrollLeft st1,
                    foldHeight := winHeight st1 + winScrollTop st1\<rparr>
      in st2\<lparr>isAffixTop := Some (check_affix_top opts st2)\<rparr>)"

text \<open>
  \<^verbatim>\<open>isInViewPoint\<close>, lines 240--250: the four flags are computed in the order
  top, right, bottom, left and stored, then their conjunction is stored and
  returned. The checks read numeric fields only, so the order of the four
  writes does not change their values.
\<close>

definition is_in_view_point :: "vp_options \<Rightarrow> vp_state \<Rightarrow> vp_state \<times> bool" where
  "is_in_view_point opts st =
     (let st1 = st\<lparr>isOffTop := Some (check_off_top opts st)\<rparr>;
          st2 = st1\<lparr>isOffRight := Some (check_off_right opts st1)\<rparr>;
          st3 = st2\<lparr>isOffBottom := Some (check_off_bottom opts st2)\<rparr>;
          st4 = st3\<lparr>isOffLeft := Some (check_off_left opts st3)\<rparr>;
          v = (\<not> check_off_top opts st \<and> \<not> check_off_right opts st1 \<and>
               \<not> check_off_bottom opts st2 \<and> \<not> check_off_left opts st3)
      in (st4\<lparr>isInViewPoint := Some v\<rparr>, v))"


section \<open>Offset lemmas\<close>

lemmas edge_defs [edge_unfold] =
  check_off_top_def check_off_right_def check_off_bottom_def check_off_left_def check_affix_top_def

lemma is_percent_nonstring [simp]:
  "is_percent (OptNumber n) = None" "is_percent OptUndefined = None" "is_percent OptOther = None"
  by (simp_all add: is_percent_def)

lemma offset_pos_percent: "is_percent v = Some p \<Longrightarrow> offset_pos v extent = extent * (number_value p / 100)"
  by (cases v) (simp_all add: offset_pos_def)

lemma offset_neg_percent: "is_percent v = Some p \<Longrightarrow> offset_neg v extent = - (extent * (number_value p / 100))"
  by (cases v) (simp_all add: offset_neg_def)

lemma offset_pos_number [simp]: "offset_pos (OptNumber n) extent = n"
  by (simp add: offset_pos_def)

lemma offset_neg_number [simp]: "offset_neg (OptNumber n) extent = n"
  by (simp add: offset_neg_def)

lemma offset_pos_other: "(\<forall>n. v \<noteq> OptNumber n) \<Longrightarrow> is_percent v = None \<Longrightarrow> offset_pos v extent = 0"
  by (cases v) (simp_all add: offset_pos_def)

lemma offset_neg_other: "(\<forall>n. v \<noteq> OptNumber n) \<Longrightarrow> is_percent v = None \<Longrightarrow> offset_neg v extent = 0"
  by (cases v) (simp_all add: offset_neg_def)

lemma offsets_undefined [simp]:
  "offset_pos OptUndefined extent = 0" "offset_neg OptUndefined extent = 0" "affix_offset OptUndefined = 0"
  by (simp_all add: offset_pos_def offset_neg_def affix_offset_def is_percent_def)

lemma is_percent_show_nat: "is_percent (OptString (show_nat n @ ''%'')) = Some (show_nat n)"
proof -
  have "is_numeric (show_nat n)"
    using digits_trim_ws [OF show_nat_digits] show_nat_not_Nil
    by (simp add: is_numeric_iff to_number_show_nat)
  then show ?thesis by (simp add: is_percent_def)
qed

lemma number_value_show_nat [simp]: "number_value (show_nat n) = real n"
  by (simp add: number_value_def to_number_show_nat)

section \<open>Sampling lemmas\<close>

text \<open>What \<open>update_current_state\<close> writes depends on the geometry alone; the edge flags pass through.\<close>

lemma update_current_state_fields:
  fixes st :: vp_state and opts :: vp_options and has_pane :: bool and g :: geometry
  defines "st' \<equiv> update_current_state opts has_pane g st"
  defines "pos \<equiv> (if has_pane then g_position g else g_offset g)"
  shows "winWidth st' = g_win_width g" "winHeight st' = g_win_height g"
    "winScrollTop st' = g_scroll_top g" "winScrollLeft st' = g_scroll_left g"
    "elementWidth st' = g_el_width g" "elementHeight st' = g_el_height g"
    "elementOffsetTop st' = fst pos" "elementOffsetLeft st' = snd pos"
    "foldWidth st' = g_win_width g + g_scroll_left g"
    "foldHeight st' = g_win_height g + g_scroll_top g"
    "isAffixTop st' = Some (g_scroll_top g \<ge> fst pos - affix_offset (affixOffset opts))"
    "isOffTop st' = isOffTop st" "isOffRight st' = isOffRight st"
    "isOffBottom st' = isOffBottom st" "isOffLeft st' = isOffLeft st"
    "isInViewPoint st' = isInViewPoint st"
  unfolding st'_def pos_def update_current_state_def Let_def
  by (simp_all add: check_affix_top_def)

text \<open>The aggregate and its four flags, evaluated.\<close>

lemma is_in_view_point_eq:
  "is_in_view_point opts st =
     (st\<lparr>isOffTop := Some (check_off_top opts st), isOffRight := Some (check_off_right opts st),
         isOffBottom := Some (check_off_bottom opts st), isOffLeft := Some (check_off_left opts st),
         isInViewPoint := Some (\<not> check_off_top opts st \<and> \<not> check_off_right opts st \<and>
                                \<not> check_off_bottom opts st \<and> \<not> check_off_left opts st)\<rparr>,
      \<not> check_off_top opts st \<and> \<not> check_off_right opts st \<and>
      \<not> check_off_bottom opts st \<and> \<not> check_off_left opts st)"
  by (simp add: is_in_view_point_def Let_def edge_defs)

lemma is_in_view_point_numeric:
  "winScrollTop (fst (is_in_view_point opts st)) = winScrollTop st \<and>
   elementOffsetTop (fst (is_in_view_point opts st)) = elementOffsetTop st \<and>
   isAffixTop (fst (is_in_view_point opts st)) = isAffixTop st"
  by (simp add: is_in_view_point_eq)

section \<open>What the edge checks decide\<close>

text \<open>
  C2.
  After sampling, the aggregate holds exactly when the element's box, shrunk by
  the resolved offsets, overlaps the visible region strictly on both axes.
\<close>

theorem in_view_iff_overlap:
  fixes st :: vp_state and opts :: vp_options and has_pane :: bool and g :: geometry
  defines "pos \<equiv> (if has_pane then g_position g else g_offset g)"
  defines "ot \<equiv> offset_pos (topOffset opts) (g_el_height g)"
      and "ob \<equiv> offset_neg (bottomOffset opts) (g_el_height g)"
      and "ol \<equiv> offset_pos (leftOffset opts) (g_el_width g)"
      and "orr \<equiv> offset_neg (rightOffset opts) (g_el_width g)"
  shows "snd (is_in_view_point opts (update_current_state opts has_pane g st)) \<longleftrightarrow>
           g_scroll_top g < fst pos + g_el_height g - ot \<and>
           fst pos - ob < g_scroll_top g + g_win_height g \<and>
           g_scroll_left g < snd pos + g_el_width g - ol \<and>
           snd pos - orr < g_scroll_left g + g_win_width g"
  unfolding is_in_view_point_eq snd_conv edge_defs pos_def ot_def ob_def ol_def orr_def
  by (cases has_pane) (auto simp: update_current_state_fields not_le add.commute)

text \<open>
  C4.
  A percentage offset means the same at the top and at the bottom edge: the
  element counts as off that edge while at most that share of its height still
  shows past it.
\<close>

theorem percent_offset_mirror:
  assumes "is_percent (topOffset opts) = Some p" and "bottomOffset opts = topOffset opts"
  shows "(check_off_top opts st \<longleftrightarrow>
            (elementOffsetTop st + elementHeight st) - winScrollTop st \<le> elementHeight st * (number_value p / 100)) \<and>
         (check_off_bottom opts st \<longleftrightarrow>
            foldHeight st - elementOffsetTop st \<le> elementHeight st * (number_value p / 100))"
  using assms by (auto simp: edge_defs offset_pos_percent offset_neg_percent)

text \<open>
  C5.
  A pixel offset does not: \<open>n\<close> pixels of the element may still show at the
  top, but at the bottom the element must be \<open>n\<close> pixels clear of the fold.
\<close>

theorem pixel_offset_asymmetry:
  assumes "topOffset opts = OptNumber n" and "bottomOffset opts = OptNumber n"
  shows "(check_off_top opts st \<longleftrightarrow> (elementOffsetTop st + elementHeight st) - winScrollTop st \<le> n) \<and>
         (check_off_bottom opts st \<longleftrightarrow> elementOffsetTop st - foldHeight st \<ge> n)"
  using assms by (auto simp: edge_defs)

end
