(* ===== verification/Dispatch.thy ===== *)
theory Dispatch
  imports Sampler
begin

text \<open>
  The transition dispatcher of src/js/viewpoint.js: the \<^verbatim>\<open>checkViewPoint\<close>
  event handler bound in \<^verbatim>\<open>setupEvents\<close> (lines 112--127) and the four helpers
  \<^verbatim>\<open>onAffixTop\<close>, \<^verbatim>\<open>offAffixTop\<close>, \<^verbatim>\<open>onInView\<close>, \<^verbatim>\<open>offView\<close> (lines 129--181).
  \<^item> The plugin instance is the record \<open>viewpoint\<close>: its options, whether
    \<^verbatim>\<open>init\<close> set \<^verbatim>\<open>$contentPane\<close>, the two dispatch memories \<^verbatim>\<open>isCalled\<close>
    and \<^verbatim>\<open>isAffixTopCalled\<close> (the string \<^verbatim>\<open>""\<close> is \<open>None\<close>, a callback name is
    \<open>Some\<close> of it) and \<^verbatim>\<open>isDisable\<close>.
  \<^item> One evaluation runs on \<open>ev_state\<close>: the instance, the \<^verbatim>\<open>currentState\<close>
    object, and the log of callback invocations, each with the snapshot as the
    callback sees it when it is called.
  \<^item> The handler is a computation of \<open>(ev_state, unit) jsm\<close>: calling an option
    that is truthy but not a function throws a \<^verbatim>\<open>TypeError\<close>, which ends the
    handler with the mutations made so far.
  \<open>handler_spec\<close> is the handler's outcome as a plain function, and
  \<open>check_view_point_refines\<close> shows that the handler computes it whenever no
  callback option is a non-function.
\<close>

section \<open>The plugin instance and the evaluation state\<close>

record viewpoint =
  options :: vp_options
  has_pane :: bool
  isCalled :: "cb_name option"
  isAffixTopCalled :: "cb_name option"
  isDisable :: bool
  element :: nat

record ev_state =
  vp :: viewpoint
  cur :: vp_state
  fired :: "(cb_name \<times> vp_state) list"

definition cb_key :: "cb_name \<Rightarrow> string" where
  "cb_key n = (case n of InView \<Rightarrow> ''inView'' | OffView \<Rightarrow> ''offView'' | OffTop \<Rightarrow> ''offTop''
     | OffRight \<Rightarrow> ''offRight'' | OffBottom \<Rightarrow> ''offBottom'' | OffLeft \<Rightarrow> ''offLeft''
     | AffixTop \<Rightarrow> ''affixTop'' | OffAffixTop \<Rightarrow> ''offAffixTop'')"

abbreviation slot :: "ev_state \<Rightarrow> cb_name \<Rightarrow> cb_slot" where
  "slot s n \<equiv> callbacks (options (vp s)) n"

section \<open>Calling a callback\<close>

text \<open>
  \<^verbatim>\<open>self.options.X(self.$element, self.currentState)\<close>: a function is called
  (recorded in the log with the snapshot it receives); anything else throws.
\<close>

definition invoke :: "cb_name \<Rightarrow> (ev_state, unit) jsm" where
  "invoke n s =
     (if is_function (slot s n) then (Inr (), s\<lparr>fired := fired s @ [(n, cur s)]\<rparr>)
      else (Inl (TypeErrorNotFunction (cb_key n)), s))"

definition set_called :: "cb_name \<Rightarrow> (ev_state, unit) jsm" where
  "set_called n = jsm_modify (\<lambda>s. s\<lparr>vp := (vp s)\<lparr>isCalled := Some n\<rparr>\<rparr>)"

definition set_affix_called :: "cb_name \<Rightarrow> (ev_state, unit) jsm" where
  "set_affix_called n = jsm_modify (\<lambda>s. s\<lparr>vp := (vp s)\<lparr>isAffixTopCalled := Some n\<rparr>\<rparr>)"

section \<open>The four helpers\<close>

text \<open>\<^verbatim>\<open>onAffixTop\<close> and \<^verbatim>\<open>offAffixTop\<close>, lines 129--141: call, then remember.\<close>

definition on_affix_top :: "(ev_state, unit) jsm" where
  "on_affix_top =
     jsm_cond (\<lambda>s. isAffixTopCalled (vp s) \<noteq> Some AffixTop)
       (jsm_seq (invoke AffixTop) (set_affix_called AffixTop))"

definition off_affix_top :: "(ev_state, unit) jsm" where
  "off_affix_top =
     jsm_cond (\<lambda>s. isAffixTopCalled (vp s) \<noteq> Some OffAffixTop)
       (jsm_seq (invoke OffAffixTop) (set_affix_called OffAffixTop))"

text \<open>One guarded position callback: fire unless it is the remembered one.\<close>

definition fire_position :: "cb_name \<Rightarrow> (ev_state, unit) jsm" where
  "fire_position n =
     jsm_cond (\<lambda>s. isCalled (vp s) \<noteq> Some n) (jsm_seq (invoke n) (set_called n))"

text \<open>\<^verbatim>\<open>onInView\<close>, lines 143--148.\<close>

definition on_in_view :: "(ev_state, unit) jsm" where
  "on_in_view = jsm_cond (\<lambda>s. truthy (slot s InView)) (fire_position InView)"

text \<open>
  \<^verbatim>\<open>offView\<close>, lines 150--181: five independent blocks in this order, each
  guarded by its option and (but for \<^verbatim>\<open>offView\<close>) by its flag of the snapshot.
\<close>

definition off_view :: "(ev_state, unit) jsm" where
  "off_view =
     jsm_seq (jsm_cond (\<lambda>s. truthy (slot s OffView)) (fire_position OffView))
    (jsm_seq (jsm_cond (\<lambda>s. truthy (slot s OffTop) \<and> isOffTop (cur s) = Some True) (fire_position OffTop))
    (jsm_seq (jsm_cond (\<lambda>s. truthy (slot s OffRight) \<and> isOffRight (cur s) = Some True) (fire_position OffRight))
    (jsm_seq (jsm_cond (\<lambda>s. truthy (slot s OffBottom) \<and> isOffBottom (cur s) = Some True) (fire_position OffBottom))
             (jsm_cond (\<lambda>s. truthy (slot s OffLeft) \<and> isOffLeft (cur s) = Some True) (fire_position OffLeft)))))"

section \<open>The handler\<close>

text \<open>Lines 116--120: the affix family, one branch at most.\<close>

definition affix_dispatch :: "(ev_state, unit) jsm" where
  "affix_dispatch s =
     (if truthy (slot s AffixTop) \<and> isAffixTop (cur s) = Some True then on_affix_top s
      else if truthy (slot s OffAffixTop) then off_affix_top s
      else (Inr (), s))"

text \<open>\<^verbatim>\<open>self.isInViewPoint()\<close> on the shared snapshot, line 122.\<close>

definition in_view_step :: "(ev_state, bool) jsm" where
  "in_view_step s =
     (let (c, v) = is_in_view_point (options (vp s)) (cur s) in (Inr v, s\<lparr>cur := c\<rparr>))"

definition sample_step :: "geometry \<Rightarrow> (ev_state, unit) jsm" where
  "sample_step g =
     jsm_modify (\<lambda>s. s\<lparr>cur := update_current_state (options (vp s)) (has_pane (vp s)) g (cur s)\<rparr>)"

text \<open>The \<^verbatim>\<open>checkViewPoint\<close> handler, lines 112--127, on the geometry \<open>g\<close> the host reports.\<close>

definition check_view_point :: "geometry \<Rightarrow> (ev_state, unit) jsm" where
  "check_view_point g =
     jsm_seq (sample_step g)
    (jsm_seq affix_dispatch
    (jsm_bind in_view_step (\<lambda>inview. if inview then on_in_view else off_view)))"

text \<open>
  The handler run once per scroll, resize or ready event, on the geometry of
  each; the first exception ends the run, as an uncaught exception in a jQuery
  handler leaves the later events to later runs of the same code.
\<close>

fun check_view_points :: "geometry list \<Rightarrow> (ev_state, unit) jsm" where
  "check_view_points [] = jsm_return ()"
| "check_view_points (g # gs) = jsm_seq (check_view_point g) (check_view_points gs)"

section \<open>The handler's outcome as a function\<close>

text \<open>
  The off-view edges in the order \<^verbatim>\<open>offView\<close> tests them, each with the flag
  that guards it, and the ones eligible on a snapshot.
\<close>

definition off_edges :: "(cb_name \<times> (vp_state \<Rightarrow> bool)) list" where
  "off_edges =
     [(OffView, \<lambda>_. True), (OffTop, \<lambda>c. isOffTop c = Some True),
      (OffRight, \<lambda>c. isOffRight c = Some True), (OffBottom, \<lambda>c. isOffBottom c = Some True),
      (OffLeft, \<lambda>c. isOffLeft c = Some True)]"

definition off_eligible :: "vp_options \<Rightarrow> vp_state \<Rightarrow> cb_name list" where
  "off_eligible opts c = map fst (filter (\<lambda>(n, f). truthy (callbacks opts n) \<and> f c) off_edges)"

text \<open>
  Guarded firing along a list of eligible names: each fires unless it is the
  remembered one, and then becomes the remembered one.
\<close>

fun dispatch_seq :: "cb_name option \<Rightarrow> cb_name list \<Rightarrow> cb_name list \<times> cb_name option" where
  "dispatch_seq m [] = ([], m)"
| "dispatch_seq m (n # ns) =
     (if m = Some n then dispatch_seq m ns
      else (let (f, m') = dispatch_seq (Some n) ns in (n # f, m')))"

definition affix_spec :: "vp_options \<Rightarrow> bool option \<Rightarrow> cb_name option \<Rightarrow> cb_name list \<times> cb_name option" where
  "affix_spec opts affixed m =
     (if truthy (callbacks opts AffixTop) \<and> affixed = Some True then dispatch_seq m [AffixTop]
      else if truthy (callbacks opts OffAffixTop) then dispatch_seq m [OffAffixTop]
      else ([], m))"

definition position_spec :: "vp_options \<Rightarrow> vp_state \<Rightarrow> bool \<Rightarrow> cb_name option \<Rightarrow> cb_name list \<times> cb_name option" where
  "position_spec opts c inview m =
     (if inview then (if truthy (callbacks opts InView) then dispatch_seq m [InView] else ([], m))
      else dispatch_seq m (off_eligible opts c))"

definition handler_spec :: "geometry \<Rightarrow> ev_state \<Rightarrow> ev_state" where
  "handler_spec g s =
     (let v0 = vp s; opts = options v0;
          c1 = update_current_state opts (has_pane v0) g (cur s);
          (fa, ma) = affix_spec opts (isAffixTop c1) (isAffixTopCalled v0);
          (c2, inview) = is_in_view_point opts c1;
          (fp, mp) = position_spec opts c2 inview (isCalled v0)
      in s\<lparr>vp := v0\<lparr>isAffixTopCalled := ma, isCalled := mp\<rparr>, cur := c2,
           fired := fired s @ map (\<lambda>n. (n, c1)) fa @ map (\<lambda>n. (n, c2)) fp\<rparr>)"

text \<open>A list of guarded blocks run one after the other, the shape of \<open>off_view\<close>.\<close>

fun fire_edges :: "(cb_name \<times> (vp_state \<Rightarrow> bool)) list \<Rightarrow> (ev_state, unit) jsm" where
  "fire_edges [] = jsm_return ()"
| "fire_edges ((n, f) # es) =
     jsm_seq (jsm_cond (\<lambda>s. truthy (slot s n) \<and> f (cur s)) (fire_position n)) (fire_edges es)"

text \<open>
  The memories hold names of their own family: \<^verbatim>\<open>isCalled\<close> a position callback,
  \<^verbatim>\<open>isAffixTopCalled\<close> an affix callback.
\<close>

definition memory_ok :: "viewpoint \<Rightarrow> bool" where
  "memory_ok v \<longleftrightarrow>
     isCalled v \<notin> {Some AffixTop, Some OffAffixTop} \<and>
     isAffixTopCalled v \<in> {None, Some AffixTop, Some OffAffixTop}"

text \<open>The callbacks one evaluation called, in order.\<close>

definition new_calls :: "ev_state \<Rightarrow> ev_state \<Rightarrow> cb_name list" where
  "new_calls s s' = map fst (drop (length (fired s)) (fired s'))"

text \<open>
  A snapshot after \<^verbatim>\<open>isInViewPoint\<close>: the five booleans and \<^verbatim>\<open>isAffixTop\<close>
  are set (not \<^verbatim>\<open>undefined\<close>) and the aggregate is the conjunction of the
  negated edges.
\<close>

definition snapshot_ok :: "vp_state \<Rightarrow> bool" where
  "snapshot_ok c =
     (case (isOffTop c, isOffRight c, isOffBottom c, isOffLeft c, isInViewPoint c, isAffixTop c) of
        (Some t, Some r, Some b, Some l, Some v, Some _) \<Rightarrow> v = (\<not> t \<and> \<not> r \<and> \<not> b \<and> \<not> l)
      | _ \<Rightarrow> False)"

text \<open>No callback option is truthy without being a function.\<close>

definition callable :: "vp_options \<Rightarrow> bool" where
  "callable opts \<longleftrightarrow> (\<forall>n. callbacks opts n \<noteq> CbTruthy)"


section \<open>Guarded firing\<close>

lemma dispatch_seq_append:
  "dispatch_seq m (xs @ ys) =
     (let (f1, m1) = dispatch_seq m xs; (f2, m2) = dispatch_seq m1 ys in (f1 @ f2, m2))"
  by (induction m xs rule: dispatch_seq.induct) (simp_all split: prod.split)

lemma dispatch_seq_single:
  "dispatch_seq m [n] = (if m = Some n then ([], m) else ([n], Some n))"
  by simp

lemma callable_truthy: "callable opts \<Longrightarrow> truthy (callbacks opts n) \<longleftrightarrow> is_function (callbacks opts n)"
  by (cases "callbacks opts n") (auto simp: callable_def truthy_def is_function_def)

text \<open>The effect of firing the names \<open>ns\<close> the way \<open>dispatch_seq\<close> does, on the log and memory.\<close>

definition log_position :: "cb_name list \<times> cb_name option \<Rightarrow> ev_state \<Rightarrow> ev_state" where
  "log_position r s =
     s\<lparr>vp := (vp s)\<lparr>isCalled := snd r\<rparr>, fired := fired s @ map (\<lambda>n. (n, cur s)) (fst r)\<rparr>"

lemma log_position_Nil [simp]: "log_position ([], isCalled (vp s)) s = s"
  by (simp add: log_position_def)

lemma log_position_fields [simp]:
  "cur (log_position r s) = cur s" "options (vp (log_position r s)) = options (vp s)"
  "isCalled (vp (log_position r s)) = snd r"
  by (simp_all add: log_position_def)

lemma fire_position_eq:
  assumes "is_function (slot s n)"
  shows "fire_position n s = (Inr (), log_position (dispatch_seq (isCalled (vp s)) [n]) s)"
  using assms by (simp add: fire_position_def invoke_def set_called_def log_position_def)

lemma log_position_append:
  "log_position (dispatch_seq m1 ys) (log_position (f1, m1) s) =
     log_position (f1 @ fst (dispatch_seq m1 ys), snd (dispatch_seq m1 ys)) s"
  by (simp add: log_position_def)

lemma log_position_seq:
  "log_position (dispatch_seq (snd (dispatch_seq m xs)) ys) (log_position (dispatch_seq m xs) s) =
     log_position (dispatch_seq m (xs @ ys)) s"
  by (simp add: log_position_def dispatch_seq_append split: prod.split)

lemma fire_edges_eq:
  assumes "callable (options (vp s))"
  shows "fire_edges es s =
     (Inr (), log_position (dispatch_seq (isCalled (vp s))
                 (map fst (filter (\<lambda>(n, f). truthy (slot s n) \<and> f (cur s)) es))) s)"
  using assms
proof (induction es arbitrary: s)
  case Nil
  then show ?case by simp
next
  case (Cons e es)
  obtain n f where e: "e = (n, f)" by fastforce
  let ?L = "\<lambda>s. map fst (filter (\<lambda>(n, f). truthy (slot s n) \<and> f (cur s)) es)"
  show ?case
  proof (cases "truthy (slot s n) \<and> f (cur s)")
    case True
    with Cons.prems have fn: "is_function (slot s n)" by (simp add: callable_truthy)
    define s1 where "s1 = log_position (dispatch_seq (isCalled (vp s)) [n]) s"
    have blk: "jsm_cond (\<lambda>s. truthy (slot s n) \<and> f (cur s)) (fire_position n) s = (Inr (), s1)"
      using True fn by (simp add: fire_position_eq s1_def)
    have same: "?L s1 = ?L s" and prem1: "callable (options (vp s1))"
      using Cons.prems by (simp_all add: s1_def)
    have "fire_edges es s1 = (Inr (), log_position (dispatch_seq (isCalled (vp s1)) (?L s)) s1)"
      using Cons.IH [OF prem1] same by simp
    also have "log_position (dispatch_seq (isCalled (vp s1)) (?L s)) s1 =
        log_position (dispatch_seq (isCalled (vp s)) (n # ?L s)) s"
      using log_position_seq [of "isCalled (vp s)" "[n]" "?L s" s] by (simp add: s1_def)
    finally show ?thesis using True blk by (simp add: e)
  next
    case False
    have blk: "jsm_cond (\<lambda>s. truthy (slot s n) \<and> f (cur s)) (fire_position n) s = (Inr (), s)"
      using False by (auto simp: jsm_cond_def)
    have flt: "filter (\<lambda>(n, f). truthy (slot s n) \<and> f (cur s)) ((n, f) # es) =
        filter (\<lambda>(n, f). truthy (slot s n) \<and> f (cur s)) es"
      using False by simp
    show ?thesis
      unfolding e fire_edges.simps jsm_seq_apply blk flt using Cons.IH [OF Cons.prems] by simp
  qed
qed

lemma off_view_fire_edges: "off_view = fire_edges off_edges"
  by (simp add: off_view_def off_edges_def)

lemma off_view_eq:
  "callable (options (vp s)) \<Longrightarrow>
     off_view s = (Inr (), log_position (dispatch_seq (isCalled (vp s)) (off_eligible (options (vp s)) (cur s))) s)"
  by (simp add: off_view_fire_edges fire_edges_eq off_eligible_def)

lemma on_in_view_eq:
  "callable (options (vp s)) \<Longrightarrow>
     on_in_view s = (Inr (), log_position (position_spec (options (vp s)) (cur s) True (isCalled (vp s))) s)"
  by (simp add: on_in_view_def position_spec_def fire_position_eq callable_truthy)


definition log_affix :: "cb_name list \<times> cb_name option \<Rightarrow> ev_state \<Rightarrow> ev_state" where
  "log_affix r s =
     s\<lparr>vp := (vp s)\<lparr>isAffixTopCalled := snd r\<rparr>, fired := fired s @ map (\<lambda>n. (n, cur s)) (fst r)\<rparr>"

lemma log_affix_fields [simp]:
  "cur (log_affix r s) = cur s" "options (vp (log_affix r s)) = options (vp s)"
  "has_pane (vp (log_affix r s)) = has_pane (vp s)" "isCalled (vp (log_affix r s)) = isCalled (vp s)"
  "isAffixTopCalled (vp (log_affix r s)) = snd r" "fired (log_affix r s) = fired s @ map (\<lambda>n. (n, cur s)) (fst r)"
  by (simp_all add: log_affix_def)

lemma affix_dispatch_eq:
  assumes "callable (options (vp s))"
  shows "affix_dispatch s =
     (Inr (), log_affix (affix_spec (options (vp s)) (isAffixTop (cur s)) (isAffixTopCalled (vp s))) s)"
  using assms
  by (auto simp: affix_dispatch_def affix_spec_def on_affix_top_def off_affix_top_def invoke_def
      set_affix_called_def log_affix_def callable_truthy)

lemma sample_step_apply [simp]:
  "sample_step g s = (Inr (), s\<lparr>cur := update_current_state (options (vp s)) (has_pane (vp s)) g (cur s)\<rparr>)"
  by (simp add: sample_step_def)

lemma in_view_step_apply [simp]:
  "in_view_step s = (Inr (snd (is_in_view_point (options (vp s)) (cur s))),
                     s\<lparr>cur := fst (is_in_view_point (options (vp s)) (cur s))\<rparr>)"
  by (simp add: in_view_step_def split: prod.split)

text \<open>
  The handler computes its outcome function: when no callback option is a
  non-function it returns normally, in the state \<open>handler_spec\<close> computes.
\<close>

lemma check_view_point_eq:
  assumes "callable (options (vp s))"
  shows "check_view_point g s = (Inr (), handler_spec g s)"
proof -
  let ?opts = "options (vp s)"
  define s1 where "s1 = s\<lparr>cur := update_current_state ?opts (has_pane (vp s)) g (cur s)\<rparr>"
  define s2 where "s2 = log_affix (affix_spec ?opts (isAffixTop (cur s1)) (isAffixTopCalled (vp s))) s1"
  define s3 where "s3 = s2\<lparr>cur := fst (is_in_view_point ?opts (cur s1))\<rparr>"
  have c1: "callable (options (vp s1))" and c3: "callable (options (vp s3))"
    using assms by (simp_all add: s1_def s2_def s3_def)
  have v1: "vp s1 = vp s" by (simp add: s1_def)
  have a: "affix_dispatch s1 = (Inr (), s2)"
    using affix_dispatch_eq [OF c1] by (simp add: s2_def s1_def)
  have "check_view_point g s =
      (if snd (is_in_view_point ?opts (cur s1)) then on_in_view s3 else off_view s3)"
    by (simp add: check_view_point_def a s1_def [symmetric] s2_def s3_def v1)
  also have "\<dots> = (Inr (), handler_spec g s)"
    using on_in_view_eq [OF c3] off_view_eq [OF c3]
    by (simp add: handler_spec_def position_spec_def s1_def s2_def s3_def log_position_def
        log_affix_def Let_def split: prod.split)
  finally show ?thesis .
qed


section \<open>Facts about the outcome function\<close>

lemma dispatch_seq_fires_all:
  "distinct xs \<Longrightarrow> (xs = [] \<or> m \<noteq> Some (hd xs)) \<Longrightarrow>
     dispatch_seq m xs = (xs, if xs = [] then m else Some (last xs))"
proof (induction xs arbitrary: m)
  case Nil
  then show ?case by simp
next
  case (Cons x xs)
  then have "dispatch_seq (Some x) xs = (xs, if xs = [] then Some x else Some (last xs))"
    by (intro Cons.IH) (auto simp: neq_Nil_conv)
  with Cons.prems show ?case by simp
qed

lemma dispatch_seq_memory_last:
  "xs \<noteq> [] \<Longrightarrow> snd (dispatch_seq m xs) = Some (last xs)"
proof (induction m xs rule: dispatch_seq.induct)
  case (2 m n ns)
  then show ?case by (cases ns) (auto split: prod.split)
qed simp

lemma dispatch_seq_memory_Nil [simp]: "snd (dispatch_seq m []) = m"
  by simp

text \<open>Running the same eligible list twice: the second run repeats it when it has two names or more.\<close>

lemma dispatch_seq_twice:
  assumes "distinct xs"
  shows "fst (dispatch_seq (snd (dispatch_seq m xs)) xs) = (if 2 \<le> length xs then xs else [])"
proof (cases xs)
  case Nil
  then show ?thesis by simp
next
  case (Cons x ys)
  show ?thesis
  proof (cases ys)
    case Nil
    with Cons show ?thesis by (simp add: dispatch_seq_memory_last [of "[x]"])
  next
    case (Cons y zs)
    with \<open>xs = x # ys\<close> assms have "last xs \<noteq> hd xs"
      by (metis distinct.simps(2) last_ConsR last_in_set list.distinct(1) list.sel(1))
    with \<open>xs = x # ys\<close> Cons assms show ?thesis
      by (simp add: dispatch_seq_memory_last dispatch_seq_fires_all del: dispatch_seq.simps)
  qed
qed

lemma dispatch_seq_length_le: "length (fst (dispatch_seq m xs)) \<le> length xs"
  by (induction m xs rule: dispatch_seq.induct) (auto split: prod.split)

lemma dispatch_seq_set: "set (fst (dispatch_seq m xs)) \<subseteq> set xs"
proof (induction xs arbitrary: m)
  case (Cons x xs)
  show ?case using Cons.IH [of m] Cons.IH [of "Some x"] by (auto split: prod.split)
qed simp

text \<open>The guarded firing is the library's \<open>remdups_adj\<close> with the remembered name dropped in front.\<close>

lemma remdups_adj_Cons_drop:
  "remdups_adj (n # ns) = n # dropWhile (\<lambda>x. x = n) (remdups_adj ns)"
proof (induction ns arbitrary: n)
  case Nil
  then show ?case by simp
next
  case (Cons y ys)
  show ?case
  proof (cases "n = y")
    case True
    then show ?thesis using Cons.IH [of n] by simp
  next
    case False
    then show ?thesis using Cons.IH [of y] by simp
  qed
qed

lemma dispatch_seq_remdups_adj:
  "fst (dispatch_seq m xs) = dropWhile (\<lambda>x. Some x = m) (remdups_adj xs)"
proof (induction xs arbitrary: m)
  case (Cons n ns)
  show ?case
  proof (cases "m = Some n")
    case True
    then show ?thesis using Cons.IH [of m] by (simp add: remdups_adj_Cons_drop)
  next
    case False
    then show ?thesis using Cons.IH [of "Some n"] by (simp add: remdups_adj_Cons_drop case_prod_unfold)
  qed
qed simp

lemma distinct_off_eligible: "distinct (off_eligible opts c)"
  by (simp add: off_eligible_def off_edges_def)

lemma off_eligible_set: "set (off_eligible opts c) \<subseteq> {OffView, OffTop, OffRight, OffBottom, OffLeft}"
  by (auto simp: off_eligible_def off_edges_def)

text \<open>The snapshot after sampling and \<^verbatim>\<open>isInViewPoint\<close> is a function of the geometry alone.\<close>

lemma sampled_snapshot_determined:
  "fst (is_in_view_point opts (update_current_state opts hp g c)) =
   fst (is_in_view_point opts (update_current_state opts hp g c'))"
  by (simp add: is_in_view_point_eq update_current_state_def Let_def edge_defs)

lemma affix_spec_twice: "fst (affix_spec opts a (snd (affix_spec opts a m))) = []"
  by (simp add: affix_spec_def)

lemma affix_spec_length: "length (fst (affix_spec opts a m)) \<le> 1"
  by (simp add: affix_spec_def)

lemma handler_spec_fields:
  "options (vp (handler_spec g s)) = options (vp s)"
  "has_pane (vp (handler_spec g s)) = has_pane (vp s)"
  "isDisable (vp (handler_spec g s)) = isDisable (vp s)"
  "cur (handler_spec g s) =
     fst (is_in_view_point (options (vp s)) (update_current_state (options (vp s)) (has_pane (vp s)) g (cur s)))"
  by (simp_all add: handler_spec_def Let_def split: prod.split)


lemma is_in_view_point_snd:
  "snd (is_in_view_point opts c) \<longleftrightarrow> isInViewPoint (fst (is_in_view_point opts c)) = Some True"
  by (simp add: is_in_view_point_eq)

lemma position_spec_twice:
  "fst (position_spec opts c v (snd (position_spec opts c v m))) =
     (if \<not> v \<and> 2 \<le> length (off_eligible opts c) then off_eligible opts c else [])"
  by (simp add: position_spec_def dispatch_seq_twice distinct_off_eligible)

text \<open>The outcome function with its intermediate snapshots named.\<close>

lemma handler_spec_unfold:
  fixes g s
  defines "opts \<equiv> options (vp s)"
  defines "c1 \<equiv> update_current_state opts (has_pane (vp s)) g (cur s)"
  defines "c2 \<equiv> fst (is_in_view_point opts c1)"
  defines "a \<equiv> affix_spec opts (isAffixTop c1) (isAffixTopCalled (vp s))"
  defines "p \<equiv> position_spec opts c2 (snd (is_in_view_point opts c1)) (isCalled (vp s))"
  shows "handler_spec g s =
     s\<lparr>vp := (vp s)\<lparr>isAffixTopCalled := snd a, isCalled := snd p\<rparr>, cur := c2,
       fired := fired s @ map (\<lambda>n. (n, c1)) (fst a) @ map (\<lambda>n. (n, c2)) (fst p)\<rparr>"
  unfolding assms handler_spec_def Let_def by (simp split: prod.split)

lemma handler_spec_callable: "callable (options (vp s)) \<Longrightarrow> callable (options (vp (handler_spec g s)))"
  by (simp add: handler_spec_fields)

text \<open>
  C6.
  When no callback option is a truthy non-function, evaluating twice on the
  same geometry returns normally both times, and the second evaluation calls no affix
  callback and no \<^verbatim>\<open>inView\<close>, but when two or more off-view callbacks are
  eligible (for instance \<^verbatim>\<open>offView\<close> and \<^verbatim>\<open>offTop\<close> for an element above the
  viewport) it calls all of them again, every time: the single memory
  \<^verbatim>\<open>isCalled\<close> only remembers the last one.
\<close>

theorem second_evaluation_refires:
  assumes "callable (options (vp s))"
    and "check_view_point g s = (r1, s1)" and "check_view_point g s1 = (r2, s2)"
  shows "r1 = Inr () \<and> r2 = Inr () \<and>
         map fst (drop (length (fired s1)) (fired s2)) =
           (if isInViewPoint (cur s1) = Some False \<and> 2 \<le> length (off_eligible (options (vp s)) (cur s1))
            then off_eligible (options (vp s)) (cur s1) else [])"
proof -
  let ?opts = "options (vp s)" and ?hp = "has_pane (vp s)"
  have s1: "s1 = handler_spec g s" and r1: "r1 = Inr ()"
    using assms(2) check_view_point_eq [OF assms(1)] by simp_all
  have s2: "s2 = handler_spec g s1" and r2: "r2 = Inr ()"
    using assms(3) check_view_point_eq [OF handler_spec_callable [OF assms(1)]] s1 by simp_all
  define c1 where "c1 = update_current_state ?opts ?hp g (cur s)"
  define c1' where "c1' = update_current_state ?opts ?hp g (cur s1)"
  have o1: "options (vp s1) = ?opts" "has_pane (vp s1) = ?hp"
    by (simp_all add: s1 handler_spec_fields)
  have same: "fst (is_in_view_point ?opts c1') = fst (is_in_view_point ?opts c1)"
    unfolding c1_def c1'_def by (rule sampled_snapshot_determined)
  have aff: "isAffixTop c1' = isAffixTop c1"
    by (simp add: c1_def c1'_def update_current_state_fields)
  have cur1: "cur s1 = fst (is_in_view_point ?opts c1)"
    by (simp add: s1 handler_spec_fields c1_def)
  have view: "isInViewPoint (cur s1) = Some False \<longleftrightarrow> \<not> snd (is_in_view_point ?opts c1)"
    by (simp add: cur1 is_in_view_point_eq)
  have "map fst (drop (length (fired s1)) (fired s2)) =
      fst (affix_spec ?opts (isAffixTop c1') (isAffixTopCalled (vp s1))) @
      fst (position_spec ?opts (fst (is_in_view_point ?opts c1')) (snd (is_in_view_point ?opts c1'))
        (isCalled (vp s1)))"
    by (simp add: s2 handler_spec_unfold o1 c1'_def comp_def)
  also have "\<dots> = (if \<not> snd (is_in_view_point ?opts c1) \<and> 2 \<le> length (off_eligible ?opts (cur s1))
                     then off_eligible ?opts (cur s1) else [])"
    using same aff is_in_view_point_snd [of ?opts c1'] is_in_view_point_snd [of ?opts c1]
    by (simp add: s1 handler_spec_unfold c1_def [symmetric] affix_spec_twice position_spec_twice cur1)
  finally show ?thesis using r1 r2 view by simp
qed


section \<open>What one evaluation does\<close>

lemma affix_spec_set: "set (fst (affix_spec opts a m)) \<subseteq> {AffixTop, OffAffixTop}"
  by (auto simp: affix_spec_def)

lemma position_spec_set:
  "set (fst (position_spec opts c v m)) \<subseteq> {InView, OffView, OffTop, OffRight, OffBottom, OffLeft}"
  using dispatch_seq_set [of m "off_eligible opts c"] off_eligible_set [of opts c]
  by (auto simp: position_spec_def)

lemma position_spec_in_view:
  "v \<Longrightarrow> set (fst (position_spec opts c v m)) \<subseteq> {InView}"
  by (auto simp: position_spec_def)

lemma position_spec_off_view:
  "\<not> v \<Longrightarrow> InView \<notin> set (fst (position_spec opts c v m))"
  using dispatch_seq_set [of m "off_eligible opts c"] off_eligible_set [of opts c]
  by (auto simp: position_spec_def)

lemma dispatch_seq_distinct: "distinct xs \<Longrightarrow> distinct (fst (dispatch_seq m xs))"
proof (induction xs arbitrary: m)
  case (Cons x xs)
  show ?case
    using Cons.IH [of m] Cons.IH [of "Some x"] Cons.prems dispatch_seq_set [of "Some x" xs]
    by (auto split: prod.split)
qed simp

lemma position_spec_distinct: "distinct (fst (position_spec opts c v m))"
  by (simp add: position_spec_def dispatch_seq_distinct distinct_off_eligible)

text \<open>The calls of one evaluation, from the outcome function.\<close>

lemma new_calls_handler_spec:
  fixes g s
  defines "opts \<equiv> options (vp s)"
  defines "c1 \<equiv> update_current_state opts (has_pane (vp s)) g (cur s)"
  shows "new_calls s (handler_spec g s) =
     fst (affix_spec opts (isAffixTop c1) (isAffixTopCalled (vp s))) @
     fst (position_spec opts (fst (is_in_view_point opts c1)) (snd (is_in_view_point opts c1)) (isCalled (vp s)))"
  by (simp add: new_calls_def handler_spec_unfold opts_def c1_def comp_def)

text \<open>
  C10.
  When no callback option is a truthy non-function, one evaluation returns
  normally and calls at most one affix callback and no callback twice; when it
  calls \<^verbatim>\<open>inView\<close>, no other position callback. It may call several
  off-view callbacks: \<^verbatim>\<open>offView\<close> and each edge whose flag holds.
\<close>

theorem evaluation_call_bounds:
  assumes "callable (options (vp s))" and "check_view_point g s = (r, s')"
  shows "r = Inr () \<and>
         length (filter (\<lambda>n. n = AffixTop \<or> n = OffAffixTop) (new_calls s s')) \<le> 1 \<and>
         distinct (new_calls s s') \<and>
         (InView \<in> set (new_calls s s') \<longrightarrow> set (new_calls s s') \<subseteq> {InView, AffixTop, OffAffixTop})"
proof -
  let ?opts = "options (vp s)"
  let ?c1 = "update_current_state ?opts (has_pane (vp s)) g (cur s)"
  let ?A = "fst (affix_spec ?opts (isAffixTop ?c1) (isAffixTopCalled (vp s)))"
  let ?P = "fst (position_spec ?opts (fst (is_in_view_point ?opts ?c1)) (snd (is_in_view_point ?opts ?c1))
               (isCalled (vp s)))"
  have eq: "r = Inr ()" "new_calls s s' = ?A @ ?P"
    using assms check_view_point_eq [OF assms(1)] new_calls_handler_spec [of s g] by simp_all
  have A: "length ?A \<le> 1" "set ?A \<subseteq> {AffixTop, OffAffixTop}"
    by (rule affix_spec_length, rule affix_spec_set)
  have P: "set ?P \<subseteq> {InView, OffView, OffTop, OffRight, OffBottom, OffLeft}" "distinct ?P"
    by (rule position_spec_set, rule position_spec_distinct)
  have filt: "filter (\<lambda>n. n = AffixTop \<or> n = OffAffixTop) ?P = []"
    using P(1) by (auto simp: filter_empty_conv)
  have fA: "length (filter (\<lambda>n. n = AffixTop \<or> n = OffAffixTop) ?A) \<le> 1"
    by (rule order_trans [OF length_filter_le A(1)])
  have dA: "distinct ?A" using A(1) by (cases ?A) auto
  have disj: "set ?A \<inter> set ?P = {}" using A(2) P(1) by blast
  have inview: "InView \<in> set ?P \<Longrightarrow> set ?P \<subseteq> {InView}"
    using position_spec_in_view position_spec_off_view by blast
  show ?thesis
    using eq fA filt dA P(2) disj inview A(2) by auto
qed

text \<open>
  C11.
  Every evaluation keeps each memory within its own family, also one that a
  \<^verbatim>\<open>TypeError\<close> ends half-way.
\<close>

text \<open>
  A property of the evaluation state that survives logging a call and each
  memory being set to a name of its own family survives the callback phase
  (the affix branch and \<^verbatim>\<open>onInView\<close> or \<^verbatim>\<open>offView\<close>), also when it throws.
\<close>

lemma dispatch_inv:
  assumes fired: "\<And>s f. P s \<Longrightarrow> P (s\<lparr>fired := f\<rparr>)"
    and called: "\<And>s n. P s \<Longrightarrow> n \<noteq> AffixTop \<Longrightarrow> n \<noteq> OffAffixTop \<Longrightarrow>
                   P (s\<lparr>vp := (vp s)\<lparr>isCalled := Some n\<rparr>\<rparr>)"
    and affix: "\<And>s n. P s \<Longrightarrow> n = AffixTop \<or> n = OffAffixTop \<Longrightarrow>
                   P (s\<lparr>vp := (vp s)\<lparr>isAffixTopCalled := Some n\<rparr>\<rparr>)"
  shows "jsm_inv P affix_dispatch" "jsm_inv P on_in_view" "jsm_inv P off_view"
proof -
  have inv: "jsm_inv P (invoke n)" for n
    using fired by (simp add: jsm_inv_def invoke_def)
  have fp: "jsm_inv P (fire_position n)" if "n \<noteq> AffixTop" "n \<noteq> OffAffixTop" for n
    unfolding fire_position_def set_called_def using that
    by (intro jsm_inv_rules inv) (simp add: called)
  have af: "jsm_inv P on_affix_top" "jsm_inv P off_affix_top"
    unfolding on_affix_top_def off_affix_top_def set_affix_called_def
    by (intro jsm_inv_rules inv; simp add: affix)+
  show "jsm_inv P affix_dispatch"
    using af unfolding jsm_inv_def affix_dispatch_def by auto
  show "jsm_inv P on_in_view" "jsm_inv P off_view"
    unfolding on_in_view_def off_view_def by (intro jsm_inv_rules fp; simp)+
qed

text \<open>The same property, if it also survives resampling, survives the whole handler.\<close>

lemma check_view_point_inv:
  assumes cur: "\<And>s c. P s \<Longrightarrow> P (s\<lparr>cur := c\<rparr>)"
    and fired: "\<And>s f. P s \<Longrightarrow> P (s\<lparr>fired := f\<rparr>)"
    and called: "\<And>s n. P s \<Longrightarrow> n \<noteq> AffixTop \<Longrightarrow> n \<noteq> OffAffixTop \<Longrightarrow>
                   P (s\<lparr>vp := (vp s)\<lparr>isCalled := Some n\<rparr>\<rparr>)"
    and affix: "\<And>s n. P s \<Longrightarrow> n = AffixTop \<or> n = OffAffixTop \<Longrightarrow>
                   P (s\<lparr>vp := (vp s)\<lparr>isAffixTopCalled := Some n\<rparr>\<rparr>)"
  shows "jsm_inv P (check_view_point g)"
proof -
  note d = dispatch_inv [of P, OF fired called affix]
  have st: "jsm_inv P (sample_step g)" "jsm_inv P in_view_step"
    using cur by (simp_all add: jsm_inv_def sample_step_def split: prod.split)
  show ?thesis
    unfolding check_view_point_def by (intro jsm_inv_rules d st)
qed

text \<open>The callbacks never write the snapshot or the options.\<close>

lemma dispatch_frame:
  "jsm_inv (\<lambda>s. cur s = c \<and> options (vp s) = opts) affix_dispatch"
  "jsm_inv (\<lambda>s. cur s = c \<and> options (vp s) = opts) on_in_view"
  "jsm_inv (\<lambda>s. cur s = c \<and> options (vp s) = opts) off_view"
  by (rule dispatch_inv; simp)+

text \<open>
  On a normal return, whatever the options, the snapshot is the sampled one
  after \<^verbatim>\<open>isInViewPoint\<close>: an exception can only come from a callback, and
  the callbacks run after the sampling of their family and never write it.
\<close>

lemma check_view_point_cur:
  assumes "check_view_point g s = (Inr (), s')"
  shows "cur s' = fst (is_in_view_point (options (vp s))
                     (update_current_state (options (vp s)) (has_pane (vp s)) g (cur s)))"
proof -
  define s1 where "s1 = s\<lparr>cur := update_current_state (options (vp s)) (has_pane (vp s)) g (cur s)\<rparr>"
  obtain r2 s2 where a: "affix_dispatch s1 = (r2, s2)" by (cases "affix_dispatch s1")
  have f2: "cur s2 = cur s1 \<and> options (vp s2) = options (vp s)"
    using jsm_invD [OF dispatch_frame(1), of s1] a by (simp add: s1_def)
  define s3 where "s3 = s2\<lparr>cur := fst (is_in_view_point (options (vp s2)) (cur s2))\<rparr>"
  have "r2 = Inr ()"
    using assms a by (cases r2) (simp_all add: check_view_point_def s1_def)
  then have run: "(if snd (is_in_view_point (options (vp s2)) (cur s2)) then on_in_view else off_view) s3
      = (Inr (), s')"
    using assms a by (simp add: check_view_point_def s1_def s3_def)
  have "cur s' = cur s3"
    using run jsm_invD [OF dispatch_frame(2), of s3 "cur s3" "options (vp s3)"]
      jsm_invD [OF dispatch_frame(3), of s3 "cur s3" "options (vp s3)"]
    by (auto split: if_splits)
  with f2 show ?thesis by (simp add: s3_def s1_def)
qed

lemma check_view_point_memory_inv: "jsm_inv (\<lambda>s. memory_ok (vp s)) (check_view_point g)"
  by (rule check_view_point_inv) (auto simp: memory_ok_def)

text \<open>The options, the content-pane flag and the disable flag are never written by an evaluation.\<close>

lemma check_view_point_frame:
  "jsm_inv (\<lambda>s. options (vp s) = opts \<and> has_pane (vp s) = p \<and> isDisable (vp s) = d) (check_view_point g)"
  by (rule check_view_point_inv) auto

theorem check_view_point_memory_ok:
  assumes "memory_ok (vp s)"
  shows "memory_ok (vp (snd (check_view_point g s)))"
  using check_view_point_memory_inv assms by (rule jsm_invD)


section \<open>The affix family\<close>

text \<open>
  C7.
  With an \<^verbatim>\<open>offAffixTop\<close> callback, no \<^verbatim>\<open>affixTop\<close> one, no callback
  option that is a truthy non-function, and an affix memory that is not
  \<^verbatim>\<open>offAffixTop\<close> already, an evaluation on an affixed element (scrolled
  past its top) calls \<^verbatim>\<open>offAffixTop\<close> first:
  the \<^verbatim>\<open>else if\<close> of line 119 is taken whenever the \<^verbatim>\<open>affixTop\<close> branch is
  not, also when the element is affixed.
\<close>

theorem off_affix_top_fires_while_affixed:
  assumes "callbacks (options (vp s)) AffixTop = CbAbsent"
    and "callbacks (options (vp s)) OffAffixTop = CbFunction"
    and "callable (options (vp s))"
    and "isAffixTopCalled (vp s) \<noteq> Some OffAffixTop"
    and "g_scroll_top g \<ge> fst (if has_pane (vp s) then g_position g else g_offset g)
                           - affix_offset (affixOffset (options (vp s)))"
  shows "isAffixTop (cur (snd (check_view_point g s))) = Some True \<and>
         hd (new_calls s (snd (check_view_point g s))) = OffAffixTop"
  using assms check_view_point_eq [OF assms(3), of g]
  by (simp add: new_calls_handler_spec handler_spec_fields affix_spec_def truthy_def
      update_current_state_fields is_in_view_point_eq)

lemma new_fired_handler_spec:
  fixes g s
  defines "opts \<equiv> options (vp s)"
  defines "c1 \<equiv> update_current_state opts (has_pane (vp s)) g (cur s)"
  defines "c2 \<equiv> fst (is_in_view_point opts c1)"
  shows "drop (length (fired s)) (fired (handler_spec g s)) =
     map (\<lambda>n. (n, c1)) (fst (affix_spec opts (isAffixTop c1) (isAffixTopCalled (vp s)))) @
     map (\<lambda>n. (n, c2)) (fst (position_spec opts c2 (snd (is_in_view_point opts c1)) (isCalled (vp s))))"
  by (simp add: handler_spec_unfold opts_def c1_def c2_def)

text \<open>An affix callback of an evaluation receives the freshly sampled snapshot, before \<^verbatim>\<open>isInViewPoint\<close>.\<close>

lemma affix_call_snapshot:
  assumes "callable (options (vp s))" and "check_view_point g s = (r, s')"
    and "(n, c) \<in> set (drop (length (fired s)) (fired s'))"
    and "n = AffixTop \<or> n = OffAffixTop"
  shows "c = update_current_state (options (vp s)) (has_pane (vp s)) g (cur s)"
proof -
  let ?opts = "options (vp s)"
  let ?c1 = "update_current_state ?opts (has_pane (vp s)) g (cur s)"
  let ?c2 = "fst (is_in_view_point ?opts ?c1)"
  let ?P = "fst (position_spec ?opts ?c2 (snd (is_in_view_point ?opts ?c1)) (isCalled (vp s)))"
  have "s' = handler_spec g s" using assms(2) check_view_point_eq [OF assms(1)] by simp
  then have mem: "(n, c) \<in> (\<lambda>n. (n, ?c1)) ` set (fst (affix_spec ?opts (isAffixTop ?c1) (isAffixTopCalled (vp s))))
                  \<union> (\<lambda>n. (n, ?c2)) ` set ?P"
    using assms(3) new_fired_handler_spec [of s g] by simp
  have "n \<notin> set ?P" using position_spec_set [of ?opts ?c2 _ "isCalled (vp s)"] assms(4) by blast
  with mem show "c = ?c1" by blast
qed

text \<open>
  C8.
  When no callback option is a truthy non-function, an affix callback receives
  the edge flags and \<^verbatim>\<open>isInViewPoint\<close> of the previous evaluation, not of
  the current one: the affix branch (lines 117--121) runs before
  \<^verbatim>\<open>self.isInViewPoint()\<close> (line 122) recomputes them, and
  \<^verbatim>\<open>updateCurrentState\<close> does not touch them.
\<close>

theorem affix_callbacks_see_previous_flags:
  assumes "callable (options (vp s))" and "check_view_point g s = (r, s')"
    and "(n, c) \<in> set (drop (length (fired s)) (fired s'))"
    and "n = AffixTop \<or> n = OffAffixTop"
  shows "isOffTop c = isOffTop (cur s) \<and> isOffRight c = isOffRight (cur s) \<and>
         isOffBottom c = isOffBottom (cur s) \<and> isOffLeft c = isOffLeft (cur s) \<and>
         isInViewPoint c = isInViewPoint (cur s)"
  using affix_call_snapshot [OF assms] by (simp add: update_current_state_fields)

text \<open>
  C9.
  An \<^verbatim>\<open>affixTop\<close> option that is truthy but not a function makes the
  evaluation of an affixed element throw a \<^verbatim>\<open>TypeError\<close> at line 118: the
  snapshot is already resampled, but no callback is logged, no memory is set and
  the position callbacks of lines 122--126 are never reached.
\<close>

theorem truthy_affix_top_throws:
  assumes "callbacks (options (vp s)) AffixTop = CbTruthy"
    and "isAffixTopCalled (vp s) \<noteq> Some AffixTop"
    and "g_scroll_top g \<ge> fst (if has_pane (vp s) then g_position g else g_offset g)
                           - affix_offset (affixOffset (options (vp s)))"
  shows "check_view_point g s =
    (Inl (TypeErrorNotFunction ''affixTop''),
     s\<lparr>cur := update_current_state (options (vp s)) (has_pane (vp s)) g (cur s)\<rparr>)"
  using assms
  by (simp add: check_view_point_def affix_dispatch_def on_affix_top_def invoke_def truthy_def
      is_function_def cb_key_def update_current_state_fields)


section \<open>Refinement over a run of events\<close>

text \<open>
  C1.
  Any run of evaluations refines the outcome function: when no callback option
  is a non-function, evaluating the handler on a sequence of geometries returns
  normally in the state obtained by applying \<open>handler_spec\<close> to each geometry in
  turn.
\<close>

theorem check_view_point_refines:
  assumes "callable (options (vp s))"
  shows "check_view_points gs s = (Inr (), fold handler_spec gs s)"
  using assms
proof (induction gs arbitrary: s)
  case (Cons g gs)
  then show ?case
    by (simp add: check_view_point_eq handler_spec_callable)
qed simp

section \<open>The guarded chain against a reference\<close>

text \<open>
  A chain of memory-guarded blocks in the style of \<^verbatim>\<open>offView\<close> (lines
  150--181), over any table of callback names and snapshot guards, is
  equivalent to a reference computation on the list of eligible names: it calls
  that list with adjacent repeats removed (\<open>remdups_adj\<close>) and a leading run
  of the remembered name dropped, and leaves the memory on the last eligible
  name.
\<close>

lemma fire_edges_remdups_adj:
  fixes s es
  assumes "callable (options (vp s))"
  defines "xs \<equiv> map fst (filter (\<lambda>(n, f). truthy (slot s n) \<and> f (cur s)) es)"
  shows "fst (fire_edges es s) = Inr () \<and>
         map fst (drop (length (fired s)) (fired (snd (fire_edges es s)))) =
           dropWhile (\<lambda>x. Some x = isCalled (vp s)) (remdups_adj xs) \<and>
         isCalled (vp (snd (fire_edges es s))) = (if xs = [] then isCalled (vp s) else Some (last xs))"
  using fire_edges_eq [OF assms(1), of es] dispatch_seq_remdups_adj [of "isCalled (vp s)" xs]
    dispatch_seq_memory_last [of xs "isCalled (vp s)"]
  unfolding xs_def [symmetric] by (simp add: log_position_def comp_def)

section \<open>The snapshot is well-formed after an evaluation\<close>

text \<open>
  C27.
  After an evaluation that returns normally, whatever the options hold, the
  shared snapshot holds a boolean, not \<^verbatim>\<open>undefined\<close>, in each of the six
  flags, and \<^verbatim>\<open>isInViewPoint\<close> is the conjunction of the negated edge flags.
\<close>

theorem check_view_point_snapshot_ok:
  assumes "check_view_point g s = (Inr (), s')"
  shows "snapshot_ok (cur s')"
  using check_view_point_cur [OF assms]
  by (simp add: snapshot_ok_def is_in_view_point_eq update_current_state_fields)

end
