(* ===== verification/Tracker.thy ===== *)
theory Tracker
  imports Dispatch
begin

text \<open>
  The instance's life cycle outside evaluation (src/js/viewpoint.js):
  the options a caller passes and their merge with the defaults
  (\<^verbatim>\<open>$.extend({}, defaultOptions, opt)\<close>, line 67), the \<^verbatim>\<open>Viewpoint\<close>
  constructor (lines 55--73) with \<^verbatim>\<open>init\<close> and its two thrown errors
  (lines 82--98), and the instance methods \<^verbatim>\<open>reset\<close>, \<^verbatim>\<open>disable\<close> and
  \<^verbatim>\<open>enable\<close> (lines 306--320). The event bindings \<^verbatim>\<open>init\<close> makes through
  \<^verbatim>\<open>setupEvents\<close> are the theory \<open>Schedule\<close>.
\<close>

section \<open>Options as the caller passes them\<close>

text \<open>
  A plain options object. \<open>None\<close> is a key that is absent or \<^verbatim>\<open>undefined\<close>:
  \<^verbatim>\<open>$.extend\<close> copies no \<^verbatim>\<open>undefined\<close> value, so both leave the default in
  place. A callback slot that is absent, \<^verbatim>\<open>undefined\<close> or another falsy value is
  \<open>CbAbsent\<close>, the default's own value. The event-name options
  (\<^verbatim>\<open>eventCheckViewPoint\<close>, \<^verbatim>\<open>eventNamespace\<close>) only name the bindings and are
  left out.
\<close>

record user_options =
  u_scrollElement :: "elem_ref option"
  u_contentPane :: "js_opt option"
  u_topOffset :: "js_opt option"
  u_rightOffset :: "js_opt option"
  u_bottomOffset :: "js_opt option"
  u_leftOffset :: "js_opt option"
  u_affixOffset :: "js_opt option"
  u_delay :: "nat option"
  u_callbacks :: "cb_name \<Rightarrow> cb_slot"

text \<open>The second argument of the constructor and of \<^verbatim>\<open>$.fn.viewpoint\<close>.\<close>

datatype opt_arg = ArgPlain user_options | ArgFalsy | ArgString string | ArgOther

definition extend_val :: "'a \<Rightarrow> 'a option \<Rightarrow> 'a" where
  "extend_val d v = (case v of None \<Rightarrow> d | Some x \<Rightarrow> x)"

definition extend_js :: "js_opt \<Rightarrow> js_opt option \<Rightarrow> js_opt" where
  "extend_js d v = (case v of Some x \<Rightarrow> (if x = OptUndefined then d else x) | None \<Rightarrow> d)"

text \<open>\<^verbatim>\<open>$.extend({}, defaultOptions, opt)\<close>, line 67: a later source wins on each key it defines.\<close>

definition extend_options :: "vp_options \<Rightarrow> user_options \<Rightarrow> vp_options" where
  "extend_options d u =
     \<lparr>scrollElement = extend_val (scrollElement d) (u_scrollElement u),
      contentPane = extend_js (contentPane d) (u_contentPane u),
      topOffset = extend_js (topOffset d) (u_topOffset u),
      rightOffset = extend_js (rightOffset d) (u_rightOffset u),
      bottomOffset = extend_js (bottomOffset d) (u_bottomOffset u),
      leftOffset = extend_js (leftOffset d) (u_leftOffset u),
      affixOffset = extend_js (affixOffset d) (u_affixOffset u),
      delay = extend_val (delay d) (u_delay u),
      callbacks = (\<lambda>n. if u_callbacks u n = CbAbsent then callbacks d n else u_callbacks u n)\<rparr>"

section \<open>The constructor and \<^verbatim>\<open>init\<close>\<close>

text \<open>The eight slots in the order of the \<^verbatim>\<open>||\<close> chain of lines 59--66.\<close>

definition all_cb_names :: "cb_name list" where
  "all_cb_names = [InView, OffView, OffTop, OffRight, OffBottom, OffLeft, AffixTop, OffAffixTop]"

definition has_function_callback :: "user_options \<Rightarrow> bool" where
  "has_function_callback u = list_ex (\<lambda>n. is_function (u_callbacks u n)) all_cb_names"

text \<open>The host document: how many elements a selector string matches (\<^verbatim>\<open>$(s).length\<close>).\<close>

record host =
  sel_count :: "string \<Rightarrow> nat"

definition query_length :: "host \<Rightarrow> elem_ref \<Rightarrow> nat" where
  "query_length h r = (case r of WindowRef \<Rightarrow> 1 | SelectorRef s \<Rightarrow> sel_count h s | NodeRef _ \<Rightarrow> 1)"

text \<open>
  The prototype's initial fields, lines 76--79 (memories \<^verbatim>\<open>""\<close>, enabled),
  with the element \<^verbatim>\<open>init\<close> stores in line 95.
\<close>

definition fresh_viewpoint :: "vp_options \<Rightarrow> bool \<Rightarrow> nat \<Rightarrow> viewpoint" where
  "fresh_viewpoint opts pane e =
     \<lparr>options = opts, has_pane = pane, isCalled = None, isAffixTopCalled = None, isDisable = False,
      element = e\<rparr>"

text \<open>
  \<^verbatim>\<open>init\<close>, lines 82--98: resolve the scroll element, then a content pane given
  as a selector string; any other \<^verbatim>\<open>contentPane\<close> value is ignored.
\<close>

definition init :: "host \<Rightarrow> nat \<Rightarrow> vp_options \<Rightarrow> js_exc + viewpoint" where
  "init h e opts =
     (if query_length h (scrollElement opts) = 0 then Inl (ThrowString ''scrollElement not found'')
      else case contentPane opts of
        OptString sel \<Rightarrow>
          (if sel_count h sel = 0 then Inl (ThrowString ''contentPane not found'')
           else Inr (fresh_viewpoint opts True e))
      | _ \<Rightarrow> Inr (fresh_viewpoint opts False e))"

text \<open>
  What \<^verbatim>\<open>new Viewpoint(element, opt)\<close> yields: an initialised instance, or the
  object the early \<^verbatim>\<open>return\<close>s of lines 58 and 69 leave without options and
  without bindings.
\<close>

datatype vp_instance = Inert | Live viewpoint

definition viewpoint_new :: "host \<Rightarrow> nat option \<Rightarrow> opt_arg \<Rightarrow> js_exc + vp_instance" where
  "viewpoint_new h el opt =
     (case (el, opt) of
        (Some e, ArgPlain u) \<Rightarrow>
          (if has_function_callback u then map_sum id Live (init h e (extend_options default_options u))
           else Inr Inert)
      | _ \<Rightarrow> Inr Inert)"

section \<open>\<^verbatim>\<open>reset\<close>, \<^verbatim>\<open>disable\<close>, \<^verbatim>\<open>enable\<close>\<close>

text \<open>
  A JavaScript value as \<^verbatim>\<open>reset\<close> compares it (\<^verbatim>\<open>=== false\<close>). The argument
  of \<^verbatim>\<open>reset\<close> is its own properties, or \<open>None\<close> when it is falsy.
\<close>

datatype js_val = JBool bool | JNum real | JStr string | JNull | JUndef | JObj

definition strict_false :: "(string \<times> js_val) list option \<Rightarrow> string \<Rightarrow> bool" where
  "strict_false opt k = (case opt of Some r \<Rightarrow> map_of r k = Some (JBool False) | None \<Rightarrow> False)"

definition reset :: "(string \<times> js_val) list option \<Rightarrow> viewpoint \<Rightarrow> viewpoint" where
  "reset opt v =
     v\<lparr>isCalled := (if strict_false opt ''isCalled'' then None else isCalled v),
       isAffixTopCalled := (if strict_false opt ''isAffixTopCalled'' then None else isAffixTopCalled v)\<rparr>"

definition disable :: "viewpoint \<Rightarrow> viewpoint" where
  "disable v = v\<lparr>isDisable := True\<rparr>"

definition enable :: "viewpoint \<Rightarrow> viewpoint" where
  "enable v = v\<lparr>isDisable := False\<rparr>"


section \<open>Construction\<close>

lemma extend_options_fields [simp]:
  "scrollElement (extend_options d u) = extend_val (scrollElement d) (u_scrollElement u)"
  "contentPane (extend_options d u) = extend_js (contentPane d) (u_contentPane u)"
  "callbacks (extend_options d u) n = (if u_callbacks u n = CbAbsent then callbacks d n else u_callbacks u n)"
  "delay (extend_options d u) = extend_val (delay d) (u_delay u)"
  by (simp_all add: extend_options_def)

lemma init_cases:
  "init h e opts = Inr v \<longleftrightarrow>
     query_length h (scrollElement opts) \<noteq> 0 \<and>
     (case contentPane opts of OptString sel \<Rightarrow> sel_count h sel \<noteq> 0 \<and> v = fresh_viewpoint opts True e
      | _ \<Rightarrow> v = fresh_viewpoint opts False e)"
  by (auto simp: init_def split: js_opt.split)

lemma init_Inl:
  "init h e opts = Inl x \<longleftrightarrow>
     (query_length h (scrollElement opts) = 0 \<and> x = ThrowString ''scrollElement not found'') \<or>
     (query_length h (scrollElement opts) \<noteq> 0 \<and> (\<exists>sel. contentPane opts = OptString sel \<and> sel_count h sel = 0) \<and>
      x = ThrowString ''contentPane not found'')"
  by (auto simp: init_def split: js_opt.split)

lemma viewpoint_new_Plain:
  "viewpoint_new h (Some e) (ArgPlain u) =
     (if has_function_callback u then map_sum id Live (init h e (extend_options default_options u)) else Inr Inert)"
  by (simp add: viewpoint_new_def)

lemma viewpoint_new_other:
  "(\<forall>e u. el \<noteq> Some e \<or> opt \<noteq> ArgPlain u) \<Longrightarrow> viewpoint_new h el opt = Inr Inert"
  by (cases el; cases opt) (auto simp: viewpoint_new_def)

lemma map_sum_Live_eq:
  "map_sum id Live r = Inr (Live v) \<longleftrightarrow> r = Inr v" "map_sum id Live r \<noteq> Inr Inert"
  "map_sum id Live r = Inl x \<longleftrightarrow> r = Inl x"
  by (cases r; simp)+

lemma viewpoint_new_LiveE:
  assumes "viewpoint_new h el opt = Inr (Live v)"
  obtains e u where "el = Some e" "opt = ArgPlain u" "has_function_callback u"
    "init h e (extend_options default_options u) = Inr v"
proof -
  have "\<exists>e u. el = Some e \<and> opt = ArgPlain u"
  proof (rule ccontr)
    assume "\<not> (\<exists>e u. el = Some e \<and> opt = ArgPlain u)"
    then have "viewpoint_new h el opt = Inr Inert" by (intro viewpoint_new_other) auto
    with assms show False by simp
  qed
  then obtain e u where eu: "el = Some e" "opt = ArgPlain u" by blast
  with assms have "has_function_callback u" "init h e (extend_options default_options u) = Inr v"
    by (simp_all add: viewpoint_new_Plain map_sum_Live_eq split: if_splits)
  with eu show ?thesis by (rule that)
qed

lemma viewpoint_new_Inl_element:
  "viewpoint_new h (Some e) opt = Inl x \<Longrightarrow> viewpoint_new h (Some e') opt = Inl x"
  by (cases opt) (auto simp: viewpoint_new_def init_def map_sum_Live_eq split: js_opt.splits if_splits)

lemma viewpoint_new_Live_element: "viewpoint_new h (Some e) opt = Inr (Live v) \<Longrightarrow> element v = e"
  by (erule viewpoint_new_LiveE) (auto simp: init_cases fresh_viewpoint_def split: js_opt.splits)

lemma viewpoint_new_memory_ok: "viewpoint_new h el opt = Inr (Live v) \<Longrightarrow> memory_ok v"
  by (erule viewpoint_new_LiveE) (auto simp: init_cases fresh_viewpoint_def memory_ok_def split: js_opt.splits)

text \<open>
  C12.
  Every instance the constructor initialises was given a function callback,
  belongs to the element it was constructed for, has the merged options, unset memories, is enabled, and measures against a content
  pane exactly when \<^verbatim>\<open>contentPane\<close> is a selector string.
\<close>

theorem viewpoint_new_live:
  assumes "viewpoint_new h el opt = Inr (Live v)"
  shows "\<exists>e u. el = Some e \<and> opt = ArgPlain u \<and> has_function_callback u \<and> element v = e \<and>
           options v = extend_options default_options u \<and>
           isCalled v = None \<and> isAffixTopCalled v = None \<and> \<not> isDisable v \<and> memory_ok v \<and>
           (has_pane v \<longleftrightarrow> (\<exists>sel. contentPane (options v) = OptString sel))"
proof -
  obtain e u where eu: "el = Some e" "opt = ArgPlain u" and f: "has_function_callback u"
    and i: "init h e (extend_options default_options u) = Inr v"
    using assms by (rule viewpoint_new_LiveE)
  from i show ?thesis
    using eu f by (auto simp: init_cases fresh_viewpoint_def memory_ok_def split: js_opt.splits)
qed

text \<open>
  C13.
  Construction throws exactly two exceptions: \<^verbatim>\<open>"scrollElement not found"\<close>
  when the merged scroll element matches nothing, and \<^verbatim>\<open>"contentPane not
  found"\<close> when it does but a selector-string content pane matches nothing;
  both only for an options object with a function callback.
\<close>

theorem viewpoint_new_errors:
  "viewpoint_new h el opt = Inl x \<longleftrightarrow>
     (\<exists>e u. el = Some e \<and> opt = ArgPlain u \<and> has_function_callback u \<and>
        ((query_length h (extend_val WindowRef (u_scrollElement u)) = 0 \<and>
          x = ThrowString ''scrollElement not found'') \<or>
         (query_length h (extend_val WindowRef (u_scrollElement u)) \<noteq> 0 \<and>
          (\<exists>sel. extend_js OptOther (u_contentPane u) = OptString sel \<and> sel_count h sel = 0) \<and>
          x = ThrowString ''contentPane not found'')))"
proof (cases "\<exists>e u. el = Some e \<and> opt = ArgPlain u")
  case True
  then obtain e u where "el = Some e" "opt = ArgPlain u" by blast
  then show ?thesis
    by (simp add: viewpoint_new_Plain map_sum_Live_eq init_Inl default_options_def)
next
  case False
  then show ?thesis using viewpoint_new_other [of el opt h] by auto
qed

text \<open>
  C14.
  Construction yields the inert object, silently, exactly when it is not given an
  options object with a function callback: a falsy or non-plain second argument,
  or no callback that is a function. No exception reports it.
\<close>

theorem viewpoint_new_inert:
  "viewpoint_new h el opt = Inr Inert \<longleftrightarrow>
     \<not> (\<exists>e u. el = Some e \<and> opt = ArgPlain u \<and> has_function_callback u)"
proof (cases "\<exists>e u. el = Some e \<and> opt = ArgPlain u")
  case True
  then obtain e u where "el = Some e" "opt = ArgPlain u" by blast
  then show ?thesis by (simp add: viewpoint_new_Plain map_sum_Live_eq)
next
  case False
  then show ?thesis using viewpoint_new_other [of el opt h] by auto
qed

section \<open>Reset\<close>

text \<open>
  C15.
  \<^verbatim>\<open>reset\<close> compares with \<^verbatim>\<open>=== false\<close>: unless a key \<^verbatim>\<open>isCalled\<close> or
  \<^verbatim>\<open>isAffixTopCalled\<close> holds exactly the boolean \<^verbatim>\<open>false\<close>, the call changes
  nothing. Loosely false values (\<^verbatim>\<open>0\<close>, \<^verbatim>\<open>""\<close>, \<^verbatim>\<open>null\<close>,
  \<^verbatim>\<open>undefined\<close>) and other keys, such as
  \<^verbatim>\<open>{resetPosition: true, resetAffix: true}\<close>, keep both memories.
\<close>

theorem reset_ignores_other_keys:
  assumes "map_of r ''isCalled'' \<noteq> Some (JBool False)"
    and "map_of r ''isAffixTopCalled'' \<noteq> Some (JBool False)"
  shows "reset (Some r) v = v"
  using assms by (simp add: reset_def strict_false_def)

text \<open>Evaluating again after the position memory was replaced by \<open>m\<close>.\<close>

lemma reevaluation_calls:
  fixes g s m
  defines "s1 \<equiv> handler_spec g s"
  defines "s' \<equiv> s1\<lparr>vp := (vp s1)\<lparr>isCalled := m\<rparr>\<rparr>"
  shows "new_calls s' (handler_spec g s') =
           fst (position_spec (options (vp s)) (cur s1) (isInViewPoint (cur s1) = Some True) m)"
proof -
  let ?opts = "options (vp s)" and ?hp = "has_pane (vp s)"
  define c1 where "c1 = update_current_state ?opts ?hp g (cur s)"
  define c1' where "c1' = update_current_state ?opts ?hp g (cur s1)"
  have o1: "options (vp s') = ?opts" "has_pane (vp s') = ?hp" "cur s' = cur s1"
    "isAffixTopCalled (vp s') = isAffixTopCalled (vp s1)" "isCalled (vp s') = m"
    by (simp_all add: s'_def s1_def handler_spec_fields)
  have same: "fst (is_in_view_point ?opts c1') = fst (is_in_view_point ?opts c1)"
    unfolding c1_def c1'_def by (rule sampled_snapshot_determined)
  have aff: "isAffixTop c1' = isAffixTop c1"
    by (simp add: c1_def c1'_def update_current_state_fields)
  have cur1: "cur s1 = fst (is_in_view_point ?opts c1)"
    by (simp add: s1_def handler_spec_fields c1_def)
  have "new_calls s' (handler_spec g s') =
      fst (affix_spec ?opts (isAffixTop c1') (isAffixTopCalled (vp s1))) @
      fst (position_spec ?opts (fst (is_in_view_point ?opts c1')) (snd (is_in_view_point ?opts c1')) m)"
    by (simp add: new_calls_handler_spec o1 c1'_def)
  also have "\<dots> = fst (position_spec ?opts (cur s1) (isInViewPoint (cur s1) = Some True) m)"
    using same aff is_in_view_point_snd [of ?opts c1']
    by (simp add: s1_def handler_spec_unfold c1_def [symmetric] affix_spec_twice cur1)
  finally show ?thesis .
qed

text \<open>
  C16.
  When no callback option is a truthy non-function,
  \<^verbatim>\<open>reset({isCalled: false})\<close> between two evaluations on the same geometry
  makes the second one call every position callback the current state makes
  eligible, once each: \<^verbatim>\<open>inView\<close> when in view, else the eligible off-view
  callbacks; the affix memory is kept, so no affix callback runs.
\<close>

theorem reset_refires:
  assumes "callable (options (vp s))"
    and "check_view_point g s = (r1, s1)"
    and "s2 = s1\<lparr>vp := reset (Some [(''isCalled'', JBool False)]) (vp s1)\<rparr>"
    and "check_view_point g s2 = (r2, s3)"
  shows "r2 = Inr () \<and>
         new_calls s2 s3 =
           (if isInViewPoint (cur s1) = Some True
            then (if truthy (callbacks (options (vp s)) InView) then [InView] else [])
            else off_eligible (options (vp s)) (cur s1))"
proof -
  have s1: "s1 = handler_spec g s" using assms(2) check_view_point_eq [OF assms(1)] by simp
  have s2: "s2 = s1\<lparr>vp := (vp s1)\<lparr>isCalled := None\<rparr>\<rparr>"
    by (simp add: assms(3) reset_def strict_false_def)
  have c2: "callable (options (vp s2))" using assms(1) by (simp add: s2 s1 handler_spec_fields)
  have s3: "s3 = handler_spec g s2" and r2: "r2 = Inr ()"
    using assms(4) check_view_point_eq [OF c2] by simp_all
  have "new_calls s2 s3 = fst (position_spec (options (vp s)) (cur s1) (isInViewPoint (cur s1) = Some True) None)"
    unfolding s3 s2 s1 by (rule reevaluation_calls)
  then show ?thesis
    using r2 distinct_off_eligible [of "options (vp s)" "cur s1"]
    by (simp add: position_spec_def dispatch_seq_fires_all)
qed

end
