(* ===== verification/Schedule.thy ===== *)
theory Schedule
  imports Tracker
begin

text \<open>
  The event bindings of \<^verbatim>\<open>setupEvents\<close> (src/js/viewpoint.js, lines 100--220)
  and the host's timers: document ready evaluates at once, a scroll or resize
  notification arms a \<^verbatim>\<open>setTimeout\<close> of \<^verbatim>\<open>options.delay\<close> milliseconds whose
  callback evaluates, and \<^verbatim>\<open>disable\<close> gates the three handlers. The state is
  the instance's evaluation state with the two timer variables of the
  \<^verbatim>\<open>setupEvents\<close> closure and the host's clock and pending timers; the host's
  behaviour (a timer runs once its due time is reached, earliest first) is the
  HTML timer model, not code of the repository.
\<close>

section \<open>The scheduling state\<close>

text \<open>
  \<open>timers\<close> holds the pending \<^verbatim>\<open>setTimeout\<close>s, (id, due time), in the order
  they were armed. \<open>uncaught\<close> collects the exceptions that escape an
  evaluation. \<open>evals\<close> records the geometry of every evaluation that runs; it is
  an observation of the model, not a variable of the code.
\<close>

record sched =
  ev :: ev_state
  geom :: geometry
  now :: nat
  next_id :: nat
  timers :: "(nat \<times> nat) list"
  debounceScrollTimer :: "nat option"
  debounceResizeTimer :: "nat option"
  uncaught :: "js_exc list"
  evals :: "geometry list"

abbreviation delay_of :: "sched \<Rightarrow> nat" where
  "delay_of s \<equiv> delay (options (vp (ev s)))"

abbreviation disabled :: "sched \<Rightarrow> bool" where
  "disabled s \<equiv> isDisable (vp (ev s))"

text \<open>The closure right after \<^verbatim>\<open>setupEvents\<close>, lines 107--108: both timer variables \<^verbatim>\<open>null\<close>.\<close>

definition sched_init :: "viewpoint \<Rightarrow> geometry \<Rightarrow> sched" where
  "sched_init v g =
     \<lparr>ev = \<lparr>vp = v, cur = empty_state, fired = []\<rparr>, geom = g, now = 0, next_id = 1, timers = [],
      debounceScrollTimer = None, debounceResizeTimer = None, uncaught = [], evals = []\<rparr>"

section \<open>Timers\<close>

text \<open>\<^verbatim>\<open>clearTimeout(t)\<close>: \<^verbatim>\<open>null\<close> and an id that already ran are no-ops.\<close>

definition clear_timeout :: "nat option \<Rightarrow> sched \<Rightarrow> sched" where
  "clear_timeout t s = (case t of None \<Rightarrow> s | Some i \<Rightarrow> s\<lparr>timers := filter (\<lambda>(j, _). j \<noteq> i) (timers s)\<rparr>)"

text \<open>\<^verbatim>\<open>setTimeout(f, self.options.delay)\<close>: a fresh id, due \<open>delay\<close> from now.\<close>

definition set_timeout :: "sched \<Rightarrow> nat \<times> sched" where
  "set_timeout s =
     (next_id s, s\<lparr>timers := timers s @ [(next_id s, now s + delay_of s)], next_id := Suc (next_id s)\<rparr>)"

section \<open>The handlers\<close>

text \<open>
  \<^verbatim>\<open>triggerCheckViewpoint\<close>, lines 183--188: trigger the element's
  \<^verbatim>\<open>checkViewPoint\<close> event, which runs the handler synchronously on the
  geometry of the moment; an exception it throws escapes to the host.
\<close>

definition trigger_check :: "sched \<Rightarrow> sched" where
  "trigger_check s =
     (case check_view_point (geom s) (ev s) of (r, e') \<Rightarrow>
        s\<lparr>ev := e', evals := evals s @ [geom s],
          uncaught := uncaught s @ (case r of Inl x \<Rightarrow> [x] | Inr _ \<Rightarrow> [])\<rparr>)"

text \<open>The document-ready handler, lines 191--196.\<close>

definition on_ready :: "sched \<Rightarrow> sched" where
  "on_ready s = (if disabled s then s else trigger_check s)"

text \<open>The scroll handler, lines 199--207.\<close>

definition on_scroll :: "sched \<Rightarrow> sched" where
  "on_scroll s =
     (if disabled s then s
      else let s1 = clear_timeout (debounceScrollTimer s) s; (i, s2) = set_timeout s1
           in s2\<lparr>debounceScrollTimer := Some i\<rparr>)"

text \<open>
  The resize handler, lines 210--218: it clears \<^verbatim>\<open>debounceScrollTimer\<close>, not
  \<^verbatim>\<open>debounceResizeTimer\<close>, before arming a new resize timer.
\<close>

definition on_resize :: "sched \<Rightarrow> sched" where
  "on_resize s =
     (if disabled s then s
      else let s1 = clear_timeout (debounceScrollTimer s) s; (i, s2) = set_timeout s1
           in s2\<lparr>debounceResizeTimer := Some i\<rparr>)"

text \<open>
  The host runs the timers due by \<open>now + d\<close>, earliest first and in arming
  order among equals, each at its due time; the callback of lines 204--206 and
  215--217 evaluates without looking at \<^verbatim>\<open>isDisable\<close>.
\<close>

fun fire_timers :: "(nat \<times> nat) list \<Rightarrow> sched \<Rightarrow> sched" where
  "fire_timers [] s = s"
| "fire_timers ((i, u) # ts) s =
     fire_timers ts (trigger_check (s\<lparr>now := u, timers := filter (\<lambda>(j, _). j \<noteq> i) (timers s)\<rparr>))"

definition wait :: "nat \<Rightarrow> sched \<Rightarrow> sched" where
  "wait d s =
     (let t = now s + d in
      (fire_timers (sort_key snd (filter (\<lambda>(_, u). u \<le> t) (timers s))) s)\<lparr>now := t\<rparr>)"

section \<open>Host events\<close>

text \<open>
  What the host and the caller do: the ready signal, a scroll or resize that
  leaves the given geometry, time passing, and the instance methods.
\<close>

datatype host_event =
    Ready
  | Scroll geometry
  | Resize geometry
  | Wait nat
  | CallDisable
  | CallEnable
  | CallReset "(string \<times> js_val) list option"

definition update_vp :: "(viewpoint \<Rightarrow> viewpoint) \<Rightarrow> sched \<Rightarrow> sched" where
  "update_vp f s = s\<lparr>ev := (ev s)\<lparr>vp := f (vp (ev s))\<rparr>\<rparr>"

fun step :: "host_event \<Rightarrow> sched \<Rightarrow> sched" where
  "step Ready s = on_ready s"
| "step (Scroll g) s = on_scroll (s\<lparr>geom := g\<rparr>)"
| "step (Resize g) s = on_resize (s\<lparr>geom := g\<rparr>)"
| "step (Wait d) s = wait d s"
| "step CallDisable s = update_vp disable s"
| "step CallEnable s = update_vp enable s"
| "step (CallReset r) s = update_vp (reset r) s"

definition run :: "host_event list \<Rightarrow> sched \<Rightarrow> sched" where
  "run es s = fold step es s"

fun is_notification :: "host_event \<Rightarrow> bool" where
  "is_notification Ready = True"
| "is_notification (Scroll _) = True"
| "is_notification (Resize _) = True"
| "is_notification (Wait _) = True"
| "is_notification _ = False"

text \<open>The states an instance reaches from its construction.\<close>

inductive reachable :: "sched \<Rightarrow> bool" where
  reach_start: "viewpoint_new h el opt = Inr (Live v) \<Longrightarrow> reachable (sched_init v g)"
| reach_step: "reachable s \<Longrightarrow> reachable (step e s)"

text \<open>A burst of notifications, each followed by a pause.\<close>

definition burst :: "(geometry \<Rightarrow> host_event) \<Rightarrow> geometry list \<Rightarrow> nat list \<Rightarrow> host_event list" where
  "burst k gs ds = concat (map (\<lambda>(g, d). [k g, Wait d]) (zip gs ds))"


section \<open>What one evaluation and one wait change\<close>

abbreviation eval_at :: "geometry \<Rightarrow> ev_state \<Rightarrow> ev_state" where
  "eval_at g e \<equiv> snd (check_view_point g e)"

lemma trigger_check_fields [simp]:
  "geom (trigger_check s) = geom s" "now (trigger_check s) = now s" "next_id (trigger_check s) = next_id s"
  "timers (trigger_check s) = timers s" "debounceScrollTimer (trigger_check s) = debounceScrollTimer s"
  "debounceResizeTimer (trigger_check s) = debounceResizeTimer s"
  "evals (trigger_check s) = evals s @ [geom s]" "ev (trigger_check s) = eval_at (geom s) (ev s)"
  by (simp_all add: trigger_check_def split: prod.split)

lemma eval_at_frame [simp]:
  "options (vp (eval_at g e)) = options (vp e)" "has_pane (vp (eval_at g e)) = has_pane (vp e)"
  "isDisable (vp (eval_at g e)) = isDisable (vp e)"
  using jsm_invD [OF check_view_point_frame [of "options (vp e)" "has_pane (vp e)" "isDisable (vp e)" g], of e]
  by simp_all

lemma eval_at_funpow_frame [simp]:
  "options (vp ((eval_at g ^^ n) e)) = options (vp e)" "has_pane (vp ((eval_at g ^^ n) e)) = has_pane (vp e)"
  "isDisable (vp ((eval_at g ^^ n) e)) = isDisable (vp e)"
  by (induction n) simp_all

lemma fire_timers_fields:
  "geom (fire_timers ts s) = geom s" "next_id (fire_timers ts s) = next_id s"
  "debounceScrollTimer (fire_timers ts s) = debounceScrollTimer s"
  "debounceResizeTimer (fire_timers ts s) = debounceResizeTimer s"
  "options (vp (ev (fire_timers ts s))) = options (vp (ev s))"
  "isDisable (vp (ev (fire_timers ts s))) = isDisable (vp (ev s))"
  "evals (fire_timers ts s) = evals s @ replicate (length ts) (geom s)"
  "ev (fire_timers ts s) = (eval_at (geom s) ^^ length ts) (ev s)"
  "timers (fire_timers ts s) = filter (\<lambda>(j, _). j \<notin> fst ` set ts) (timers s)"
proof (induction ts arbitrary: s)
  case (Cons t ts)
  obtain i u where t: "t = (i, u)" by fastforce
  { case 1 show ?case using Cons.IH(1) by (simp add: t) }
  { case 2 show ?case using Cons.IH(2) by (simp add: t) }
  { case 3 show ?case using Cons.IH(3) by (simp add: t) }
  { case 4 show ?case using Cons.IH(4) by (simp add: t) }
  { case 5 show ?case using Cons.IH(5) by (simp add: t) }
  { case 6 show ?case using Cons.IH(6) by (simp add: t) }
  { case 7 show ?case using Cons.IH(7) by (simp add: t replicate_append_same) }
  { case 8 show ?case using Cons.IH(8) by (simp add: t funpow_Suc_right del: funpow.simps) }
  { case 9 show ?case using Cons.IH(9) by (simp add: t filter_filter case_prod_beta conj_commute) }
qed simp_all

text \<open>With distinct ids, removing the due timers by id keeps exactly the ones not due.\<close>

lemma filter_due_ids:
  "distinct (map fst xs) \<Longrightarrow>
     filter (\<lambda>(j, _). j \<notin> fst ` set (filter (\<lambda>(_, u). P u) xs)) xs = filter (\<lambda>(_, u). \<not> P u) xs"
proof (induction xs)
  case (Cons x xs)
  obtain i u where x: "x = (i, u)" by fastforce
  have "i \<notin> fst ` set xs" using Cons.prems by (simp add: x)
  then have nb: "\<And>b. (i, b) \<notin> set xs" by (metis fst_conv image_eqI)
  have "filter (\<lambda>(j, _). j \<notin> fst ` set (filter (\<lambda>(_, u). P u) ((i, u) # xs))) xs =
      filter (\<lambda>(j, _). j \<notin> fst ` set (filter (\<lambda>(_, u). P u) xs)) xs"
    using nb by (intro filter_cong) auto
  moreover note nb
  ultimately show ?case using Cons by (auto simp: x)
qed simp

lemma wait_fields:
  fixes d s
  assumes "distinct (map fst (timers s))"
  defines "due \<equiv> filter (\<lambda>(_, u). u \<le> now s + d) (timers s)"
  shows "now (wait d s) = now s + d" "geom (wait d s) = geom s" "next_id (wait d s) = next_id s"
    "debounceScrollTimer (wait d s) = debounceScrollTimer s"
    "debounceResizeTimer (wait d s) = debounceResizeTimer s"
    "options (vp (ev (wait d s))) = options (vp (ev s))"
    "isDisable (vp (ev (wait d s))) = isDisable (vp (ev s))"
    "evals (wait d s) = evals s @ replicate (length due) (geom s)"
    "ev (wait d s) = (eval_at (geom s) ^^ length due) (ev s)"
    "timers (wait d s) = filter (\<lambda>(_, u). \<not> u \<le> now s + d) (timers s)"
  using filter_due_ids [OF assms(1), of "\<lambda>u. u \<le> now s + d"]
  by (simp_all add: wait_def fire_timers_fields due_def Let_def)


section \<open>The scheduling invariant\<close>

text \<open>
  Pending timers have distinct ids below the next one, are due in arming order,
  and are due no earlier than now and no later than one delay from now; the
  remembered timer ids were handed out; the memories are well-typed.
\<close>

definition sched_ok :: "sched \<Rightarrow> bool" where
  "sched_ok s \<longleftrightarrow> memory_ok (vp (ev s)) \<and> distinct (map fst (timers s)) \<and> sorted (map snd (timers s)) \<and>
     list_all (\<lambda>(i, u). i < next_id s \<and> now s \<le> u \<and> u \<le> now s + delay_of s) (timers s) \<and>
     pred_option (\<lambda>i. i < next_id s) (debounceScrollTimer s) \<and>
     pred_option (\<lambda>i. i < next_id s) (debounceResizeTimer s)"

lemma eval_at_funpow_memory: "memory_ok (vp e) \<Longrightarrow> memory_ok (vp ((eval_at g ^^ n) e))"
  by (induction n) (simp_all add: jsm_invD [OF check_view_point_memory_inv])

lemma sched_ok_trigger_check: "sched_ok s \<Longrightarrow> sched_ok (trigger_check s)"
  by (simp add: sched_ok_def jsm_invD [OF check_view_point_memory_inv])

lemma sched_ok_geom: "sched_ok (s\<lparr>geom := g\<rparr>) \<longleftrightarrow> sched_ok s"
  by (simp add: sched_ok_def)

lemma clear_timeout_fields [simp]:
  "next_id (clear_timeout t s) = next_id s" "now (clear_timeout t s) = now s"
  "ev (clear_timeout t s) = ev s" "geom (clear_timeout t s) = geom s"
  "debounceScrollTimer (clear_timeout t s) = debounceScrollTimer s"
  "debounceResizeTimer (clear_timeout t s) = debounceResizeTimer s"
  "evals (clear_timeout t s) = evals s" "uncaught (clear_timeout t s) = uncaught s"
  by (simp_all add: clear_timeout_def split: option.split)

lemma sched_ok_arm:
  assumes "sched_ok s" and "t = debounceScrollTimer s"
  shows "sched_ok ((snd (set_timeout (clear_timeout t s)))\<lparr>debounceScrollTimer := Some (next_id s)\<rparr>)"
    and "sched_ok ((snd (set_timeout (clear_timeout t s)))\<lparr>debounceResizeTimer := Some (next_id s)\<rparr>)"
proof -
  let ?ts = "timers (clear_timeout t s)"
  have ts: "set ?ts \<subseteq> set (timers s)" "distinct (map fst ?ts)" "sorted (map snd ?ts)"
    using assms(1) by (auto simp: clear_timeout_def sched_ok_def distinct_map_filter sorted_filter
        split: option.split)
  have old: "list_all (\<lambda>(i, u). i < next_id s \<and> now s \<le> u \<and> u \<le> now s + delay_of s) ?ts"
    using assms(1) ts(1) by (auto simp: sched_ok_def list_all_iff)
  then have "next_id s \<notin> fst ` set ?ts" "\<forall>u \<in> snd ` set ?ts. u \<le> now s + delay_of s"
    by (auto simp: list_all_iff)
  then have new: "distinct (map fst (?ts @ [(next_id s, now s + delay_of s)]))"
    "sorted (map snd (?ts @ [(next_id s, now s + delay_of s)]))"
    using ts by (auto simp: sorted_append)
  show "sched_ok ((snd (set_timeout (clear_timeout t s)))\<lparr>debounceScrollTimer := Some (next_id s)\<rparr>)"
       "sched_ok ((snd (set_timeout (clear_timeout t s)))\<lparr>debounceResizeTimer := Some (next_id s)\<rparr>)"
    using assms(1) new old unfolding sched_ok_def set_timeout_def
    by (auto simp: list_all_iff pred_option_def less_Suc_eq)
qed

lemma sched_ok_wait: "sched_ok s \<Longrightarrow> sched_ok (wait d s)"
  unfolding sched_ok_def
  by (auto simp: wait_fields eval_at_funpow_memory distinct_map_filter sorted_filter list_all_iff)

lemma sched_ok_update_vp:
  "sched_ok s \<Longrightarrow> options (f (vp (ev s))) = options (vp (ev s)) \<Longrightarrow>
     memory_ok (f (vp (ev s))) \<Longrightarrow> sched_ok (update_vp f s)"
  by (simp add: sched_ok_def update_vp_def)

lemma step_sched_ok:
  assumes ok: "sched_ok s"
  shows "sched_ok (step e s)"
proof -
  have m: "memory_ok (vp (ev s))" using ok by (simp add: sched_ok_def)
  show ?thesis
  proof (cases e)
    case Ready
    then show ?thesis using ok by (simp add: on_ready_def sched_ok_trigger_check)
  next
    case (Scroll g)
    then show ?thesis using ok sched_ok_arm(1) [of "s\<lparr>geom := g\<rparr>"]
      by (simp add: on_scroll_def sched_ok_geom set_timeout_def Let_def)
  next
    case (Resize g)
    then show ?thesis using ok sched_ok_arm(2) [of "s\<lparr>geom := g\<rparr>"]
      by (simp add: on_resize_def sched_ok_geom set_timeout_def Let_def)
  next
    case (Wait d)
    then show ?thesis using ok by (simp add: sched_ok_wait)
  qed (use ok m in \<open>auto intro!: sched_ok_update_vp simp: disable_def enable_def reset_def memory_ok_def\<close>)
qed

lemma sched_init_ok: "memory_ok v \<Longrightarrow> sched_ok (sched_init v g)"
  by (simp add: sched_ok_def sched_init_def)


section \<open>Properties of the schedule\<close>

text \<open>
  Every state an instance reaches, from its construction through any sequence
  of host events and method calls, satisfies the scheduling invariant.
\<close>

lemma reachable_sched_ok: "reachable s \<Longrightarrow> sched_ok s"
  by (induction rule: reachable.induct) (auto intro: sched_init_ok viewpoint_new_memory_ok step_sched_ok)

lemma sched_ok_due_all:
  "sched_ok s \<Longrightarrow> filter (\<lambda>(_, u). u \<le> now s + delay_of s) (timers s) = timers s"
  by (auto simp: sched_ok_def list_all_iff filter_id_conv)

lemma sched_ok_distinct: "sched_ok s \<Longrightarrow> distinct (map fst (timers s))"
  by (simp add: sched_ok_def)

lemma length_filter_split:
  "length (filter (\<lambda>(_, u). P u) xs) + length (filter (\<lambda>(_, u). \<not> P u) xs) = length xs"
  by (induction xs) auto

text \<open>Waiting a full delay: every pending timer runs, in order, on the same geometry.\<close>

lemma wait_full_delay:
  assumes "sched_ok s"
  shows "timers (wait (delay_of s) s) = []"
    "evals (wait (delay_of s) s) = evals s @ replicate (length (timers s)) (geom s)"
    "ev (wait (delay_of s) s) = (eval_at (geom s) ^^ length (timers s)) (ev s)"
proof -
  have all: "filter (\<lambda>(_, u). u \<le> now s + delay_of s) (timers s) = timers s"
    using assms by (rule sched_ok_due_all)
  then have none: "filter (\<lambda>(_, u). \<not> u \<le> now s + delay_of s) (timers s) = []"
    using length_filter_split [of "\<lambda>u. u \<le> now s + delay_of s" "timers s"] by simp
  show "timers (wait (delay_of s) s) = []"
    "evals (wait (delay_of s) s) = evals s @ replicate (length (timers s)) (geom s)"
    "ev (wait (delay_of s) s) = (eval_at (geom s) ^^ length (timers s)) (ev s)"
    using wait_fields(8-10) [OF sched_ok_distinct [OF assms], of "delay_of s"] all none by simp_all
qed


lemma wait_count:
  "distinct (map fst (timers s)) \<Longrightarrow>
     length (evals (wait d s)) + length (timers (wait d s)) = length (evals s) + length (timers s)"
  by (simp add: wait_fields length_filter_split)

lemma burst_Nil: "burst k [] [] = []"
  by (simp add: burst_def)

lemma burst_Cons: "burst k (g # gs) (d # ds) = k g # Wait d # burst k gs ds"
  by (simp add: burst_def)

lemma run_Nil [simp]: "run [] s = s"
  by (simp add: run_def)

lemma run_Cons [simp]: "run (e # es) s = run es (step e s)"
  by (simp add: run_def)

lemma run_append: "run (es @ fs) s = run fs (run es s)"
  by (simp add: run_def)

text \<open>One scroll and a pause shorter than the delay: one timer pending, the scroll one, nothing run.\<close>

text \<open>A scroll notification when only the scroll timer is pending: it is replaced by a fresh one.\<close>

lemma scroll_arms:
  assumes en: "\<not> disabled s"
    and only: "list_all (\<lambda>(i, _). debounceScrollTimer s = Some i) (timers s)"
  shows "timers (step (Scroll g) s) = [(next_id s, now s + delay_of s)]" "ev (step (Scroll g) s) = ev s"
    "evals (step (Scroll g) s) = evals s" "geom (step (Scroll g) s) = g"
    "debounceScrollTimer (step (Scroll g) s) = Some (next_id s)" "now (step (Scroll g) s) = now s"
proof -
  have clr: "timers (clear_timeout (debounceScrollTimer s) (s\<lparr>geom := g\<rparr>)) = []"
  proof (cases "debounceScrollTimer s")
    case None
    with only have "timers s = []" by (cases "timers s") auto
    with None show ?thesis by (simp add: clear_timeout_def)
  next
    case (Some i)
    with only show ?thesis by (auto simp: clear_timeout_def list_all_iff filter_empty_conv)
  qed
  show "timers (step (Scroll g) s) = [(next_id s, now s + delay_of s)]" "ev (step (Scroll g) s) = ev s"
    "evals (step (Scroll g) s) = evals s" "geom (step (Scroll g) s) = g"
    "debounceScrollTimer (step (Scroll g) s) = Some (next_id s)" "now (step (Scroll g) s) = now s"
    using en clr by (simp_all add: on_scroll_def set_timeout_def Let_def)
qed

text \<open>One scroll and a pause shorter than the delay: one timer pending, the scroll one, nothing run.\<close>

lemma scroll_then_wait:
  fixes s g d
  assumes ok: "sched_ok s" and en: "\<not> disabled s"
    and only: "list_all (\<lambda>(i, _). debounceScrollTimer s = Some i) (timers s)" and d: "d < delay_of s"
  defines "s' \<equiv> step (Wait d) (step (Scroll g) s)"
  shows "sched_ok s' \<and> \<not> disabled s' \<and> ev s' = ev s \<and> evals s' = evals s \<and> geom s' = g \<and>
         timers s' = [(next_id s, now s + delay_of s)] \<and> debounceScrollTimer s' = Some (next_id s)"
proof -
  let ?s1 = "step (Scroll g) s"
  note s1 = scroll_arms [OF en only, of g]
  have ok1: "sched_ok ?s1" by (rule step_sched_ok [OF ok])
  have "sched_ok s'" unfolding s'_def by (rule step_sched_ok [OF ok1])
  then show ?thesis
    using en d wait_fields [OF sched_ok_distinct [OF ok1], of d] s1 unfolding s'_def by simp
qed

lemma scroll_burst_pending:
  assumes "length ds = length gs" and "gs \<noteq> []" and "sched_ok s" and "\<not> disabled s"
    and "list_all (\<lambda>(i, _). debounceScrollTimer s = Some i) (timers s)" and "list_all (\<lambda>d. d < delay_of s) ds"
  shows "sched_ok (run (burst Scroll gs ds) s) \<and> ev (run (burst Scroll gs ds) s) = ev s \<and>
         evals (run (burst Scroll gs ds) s) = evals s \<and> geom (run (burst Scroll gs ds) s) = last gs \<and>
         length (timers (run (burst Scroll gs ds) s)) = 1"
  using assms
proof (induction ds gs arbitrary: s rule: list_induct2)
  case (Cons d ds g gs)
  define s' where "s' = step (Wait d) (step (Scroll g) s)"
  have s': "sched_ok s'" "\<not> disabled s'" "ev s' = ev s" "evals s' = evals s" "geom s' = g"
    "timers s' = [(next_id s, now s + delay_of s)]" "debounceScrollTimer s' = Some (next_id s)"
    using scroll_then_wait [OF Cons.prems(2-4), of d g] Cons.prems unfolding s'_def by simp_all
  have r: "run (burst Scroll (g # gs) (d # ds)) s = run (burst Scroll gs ds) s'"
    by (simp only: burst_Cons run_Cons s'_def)
  show ?case
  proof (cases "gs = []")
    case True
    have "ds = []" using Cons.hyps(1) True by simp
    with True have "run (burst Scroll gs ds) s' = s'" by (simp only: burst_Nil run_Nil)
    moreover have "last (g # gs) = g" using True by simp
    ultimately show ?thesis unfolding r using s'(1,3-6) by simp
  next
    case False
    have pend: "list_all (\<lambda>(i, _). debounceScrollTimer s' = Some i) (timers s')" using s'(6,7) by simp
    have del: "list_all (\<lambda>d. d < delay_of s') ds" using Cons.prems(5) s'(3) by simp
    have l: "last (g # gs) = last gs" using False by simp
    show ?thesis unfolding r l using Cons.IH [OF False s'(1,2) pend del] s'(3,4) by (elim conjE) (intro conjI; argo)
  qed
qed simp

text \<open>
  C18.
  Scroll notifications are debounced: a burst of them, each less than a delay
  after the previous one, followed by a full delay, makes exactly one
  evaluation, on the geometry of the last notification.
\<close>

theorem scroll_burst_debounced:
  assumes "sched_ok s" and "\<not> disabled s" and "timers s = []"
    and "gs \<noteq> []" and "length ds = length gs" and "list_all (\<lambda>d. d < delay_of s) ds"
  shows "evals (run (burst Scroll gs ds @ [Wait (delay_of s)]) s) = evals s @ [last gs] \<and>
         ev (run (burst Scroll gs ds @ [Wait (delay_of s)]) s) = eval_at (last gs) (ev s)"
proof -
  define s' where "s' = run (burst Scroll gs ds) s"
  have s': "sched_ok s'" "ev s' = ev s" "evals s' = evals s" "geom s' = last gs" "length (timers s') = 1"
    using scroll_burst_pending [OF assms(5,4,1,2)] assms(3,6) unfolding s'_def by simp_all
  have "run (burst Scroll gs ds @ [Wait (delay_of s)]) s = wait (delay_of s') s'"
    by (simp add: run_append s'_def [symmetric] s'(2))
  then show ?thesis using wait_full_delay(2,3) [OF s'(1)] s' by simp
qed

text \<open>A resize notification followed by any pause: one more evaluation run or pending.\<close>

lemma resize_then_wait:
  fixes s g d
  assumes ok: "sched_ok s" and en: "\<not> disabled s"
    and other: "list_all (\<lambda>(i, _). debounceScrollTimer s \<noteq> Some i) (timers s)"
  defines "s' \<equiv> step (Wait d) (step (Resize g) s)"
  shows "sched_ok s' \<and> \<not> disabled s' \<and> delay_of s' = delay_of s \<and>
         debounceScrollTimer s' = debounceScrollTimer s \<and>
         list_all (\<lambda>(i, _). debounceScrollTimer s' \<noteq> Some i) (timers s') \<and>
         length (evals s') + length (timers s') = length (evals s) + length (timers s) + 1"
proof -
  let ?s1 = "step (Resize g) s"
  have clr: "timers (clear_timeout (debounceScrollTimer s) (s\<lparr>geom := g\<rparr>)) = timers s"
    using other by (cases "debounceScrollTimer s") (auto simp: clear_timeout_def list_all_iff filter_id_conv)
  have fresh: "debounceScrollTimer s \<noteq> Some (next_id s)"
    using ok by (cases "debounceScrollTimer s") (auto simp: sched_ok_def)
  have s1: "timers ?s1 = timers s @ [(next_id s, now s + delay_of s)]" "ev ?s1 = ev s" "evals ?s1 = evals s"
    "debounceScrollTimer ?s1 = debounceScrollTimer s"
    using en clr by (simp_all add: on_resize_def set_timeout_def Let_def)
  have ok1: "sched_ok ?s1" by (rule step_sched_ok [OF ok])
  have w: "sched_ok s'" "\<not> disabled s'" "delay_of s' = delay_of s"
    "debounceScrollTimer s' = debounceScrollTimer s" "set (timers s') \<subseteq> set (timers ?s1)"
    using step_sched_ok [OF ok1, of "Wait d"] en s1 wait_fields [OF sched_ok_distinct [OF ok1], of d]
    unfolding s'_def by auto
  have "length (evals s') + length (timers s') = length (evals ?s1) + length (timers ?s1)"
    unfolding s'_def step.simps(4) by (rule wait_count [OF sched_ok_distinct [OF ok1]])
  moreover have "list_all (\<lambda>(i, _). debounceScrollTimer s' \<noteq> Some i) (timers s')"
    using w(4,5) s1(1) other fresh by (auto simp: list_all_iff)
  ultimately show ?thesis using w s1 by simp
qed

lemma resize_burst_count:
  assumes "length ds = length gs" and "sched_ok s" and "\<not> disabled s"
    and "list_all (\<lambda>(i, _). debounceScrollTimer s \<noteq> Some i) (timers s)"
  shows "sched_ok (run (burst Resize gs ds) s) \<and> delay_of (run (burst Resize gs ds) s) = delay_of s \<and>
         length (evals (run (burst Resize gs ds) s)) + length (timers (run (burst Resize gs ds) s)) =
           length (evals s) + length (timers s) + length gs"
  using assms
proof (induction ds gs arbitrary: s rule: list_induct2)
  case Nil
  then show ?case by (simp add: burst_Nil)
next
  case (Cons d ds g gs)
  define s' where "s' = step (Wait d) (step (Resize g) s)"
  have s': "sched_ok s'" "\<not> disabled s'" "delay_of s' = delay_of s"
    "list_all (\<lambda>(i, _). debounceScrollTimer s' \<noteq> Some i) (timers s')"
    "length (evals s') + length (timers s') = length (evals s) + length (timers s) + 1"
    using resize_then_wait [OF Cons.prems, of d g] unfolding s'_def by blast+
  have r: "run (burst Resize (g # gs) (d # ds)) s = run (burst Resize gs ds) s'"
    by (simp only: burst_Cons run_Cons s'_def)
  show ?case unfolding r using Cons.IH [OF s'(1,2,4)] s'(3,5) by simp
qed

text \<open>
  C19.
  Resize notifications are not debounced: the resize handler clears the scroll
  timer instead of its own, so every resize notification of a burst makes its
  own evaluation, however close together they come.
\<close>

theorem resize_burst_not_debounced:
  assumes "sched_ok s" and "\<not> disabled s" and "timers s = []" and "length ds = length gs"
  shows "length (evals (run (burst Resize gs ds @ [Wait (delay_of s)]) s)) = length (evals s) + length gs"
proof -
  define s' where "s' = run (burst Resize gs ds) s"
  have s': "sched_ok s'" "delay_of s' = delay_of s"
    "length (evals s') + length (timers s') = length (evals s) + length gs"
    using resize_burst_count [OF assms(4,1,2)] assms(3) unfolding s'_def by simp_all
  have "run (burst Resize gs ds @ [Wait (delay_of s)]) s = wait (delay_of s') s'"
    by (simp add: run_append s'_def [symmetric] s'(2))
  then show ?thesis using wait_full_delay(2) [OF s'(1)] s'(3) by simp
qed

text \<open>While disabled with nothing pending, a notification only moves the geometry and the clock.\<close>

lemma disabled_notification:
  assumes "disabled s" and "timers s = []" and "is_notification e"
  shows "ev (step e s) = ev s" "evals (step e s) = evals s" "timers (step e s) = []"
    "uncaught (step e s) = uncaught s"
  using assms by (cases e; simp add: on_ready_def on_scroll_def on_resize_def wait_def)+

text \<open>
  C20.
  While the instance is disabled and no timer is pending, no sequence of ready,
  scroll, resize and time-passing events runs an evaluation, arms a timer, or
  changes the instance, its memories or its snapshot.
\<close>

theorem disabled_ignores_notifications:
  assumes "disabled s" and "timers s = []" and "list_all is_notification es"
  shows "ev (run es s) = ev s \<and> evals (run es s) = evals s \<and> timers (run es s) = [] \<and>
         uncaught (run es s) = uncaught s"
  using assms
proof (induction es arbitrary: s)
  case (Cons e es)
  then have "is_notification e" "list_all is_notification es" by simp_all
  note st = disabled_notification [OF Cons.prems(1,2) this(1)]
  have "disabled (step e s)" using st(1) Cons.prems(1) by simp
  with Cons.IH [of "step e s"] st \<open>list_all is_notification es\<close> show ?case by simp
qed simp

text \<open>
  C21.
  \<^verbatim>\<open>disable\<close> does not cancel a pending evaluation: after a scroll
  notification, a call of \<^verbatim>\<open>disable\<close> and a full delay, the timer's callback
  evaluates on the disabled instance.
\<close>

theorem pending_scroll_runs_after_disable:
  assumes "sched_ok s" and "\<not> disabled s" and "timers s = []"
  shows "disabled (run [Scroll g, CallDisable, Wait (delay_of s)] s) \<and>
         evals (run [Scroll g, CallDisable, Wait (delay_of s)] s) = evals s @ [g]"
proof -
  let ?s1 = "step (Scroll g) s"
  let ?s2 = "step CallDisable ?s1"
  note s1 = scroll_arms [OF assms(2), of g] 
  have ok2: "sched_ok ?s2" by (intro step_sched_ok assms(1))
  have s2: "timers ?s2 = [(next_id s, now s + delay_of s)]" "evals ?s2 = evals s" "geom ?s2 = g"
    "disabled ?s2" "delay_of ?s2 = delay_of s"
    using s1 assms(3) by (simp_all add: update_vp_def disable_def)
  show ?thesis
    using wait_full_delay(2) [OF ok2] wait_fields(7) [OF sched_ok_distinct [OF ok2], of "delay_of s"] s2
    by simp
qed

end
