(* ===== verification/Bridge.thy ===== *)
theory Bridge
  imports Tracker
begin

text \<open>
  The jQuery bridge \<^verbatim>\<open>$.fn.viewpoint\<close> (src/js/viewpoint.js, lines 324--354) and
  the state the instances of one page share: the registry \<^verbatim>\<open>$.data(elem,
  "viewpoint")\<close> that keeps one instance per element, and the snapshot
  \<^verbatim>\<open>currentState\<close>, which lives on \<^verbatim>\<open>Viewpoint.prototype\<close> (line 80) and is
  written field by field through \<^verbatim>\<open>self.currentState\<close>, so that every
  instance reads and writes the same object.
\<close>

section \<open>The page\<close>

text \<open>
  Elements are numbered. \<open>log\<close> records every callback call with the element
  whose instance made it; \<open>pseudo\<close> is whether the \<^verbatim>\<open>:viewpoint\<close> selector was
  registered (line 338).
\<close>

record world =
  registry :: "nat \<Rightarrow> vp_instance option"
  shared_cur :: vp_state
  log :: "(nat \<times> cb_name \<times> vp_state) list"
  pseudo :: bool

definition world_init :: world where
  "world_init = \<lparr>registry = (\<lambda>_. None), shared_cur = empty_state, log = [], pseudo = False\<rparr>"

section \<open>Binding\<close>

text \<open>
  \<^verbatim>\<open>this.each(...)\<close> of lines 330--342: an element without an instance gets
  \<^verbatim>\<open>new Viewpoint(this, options)\<close>, stored whatever it is; an exception thrown by
  the constructor leaves the loop and the bridge, with the elements before it
  bound.
\<close>

fun bind_each :: "host \<Rightarrow> opt_arg \<Rightarrow> nat list \<Rightarrow> world \<Rightarrow> (js_exc + unit) \<times> world" where
  "bind_each h opt [] w = (Inr (), w)"
| "bind_each h opt (e # es) w =
     (if registry w e \<noteq> None then bind_each h opt es w
      else case viewpoint_new h (Some e) opt of
        Inl x \<Rightarrow> (Inl x, w)
      | Inr inst \<Rightarrow> bind_each h opt es (w\<lparr>registry := (registry w)(e \<mapsto> inst), pseudo := True\<rparr>))"

section \<open>Method calls\<close>

text \<open>
  The public methods by name (lines 345--351). Calls of other members by name
  (\<^verbatim>\<open>init\<close>, \<^verbatim>\<open>setupEvents\<close>, the \<^verbatim>\<open>check*\<close> methods, data fields) are not
  modelled: \<open>None\<close>. A name that is not a member does nothing.
\<close>

definition prototype_members :: "string list" where
  "prototype_members =
     [''sWindow'', ''isCalled'', ''isAffixTopCalled'', ''isDisable'', ''currentState'', ''init'',
      ''setupEvents'', ''updateCurrentState'', ''isInViewPoint'', ''checkOffTop'', ''checkOffRight'',
      ''checkOffBottom'', ''checkOffLeft'', ''checkAffixTop'', ''constructor'', ''options'', ''element'',
      ''$element'', ''$contentPane'']"

definition apply_method :: "string \<Rightarrow> (string \<times> js_val) list option \<Rightarrow> viewpoint \<Rightarrow> viewpoint option" where
  "apply_method name arg v =
     (if name = ''reset'' then Some (reset arg v)
      else if name = ''disable'' then Some (disable v)
      else if name = ''enable'' then Some (enable v)
      else if name \<in> set prototype_members then None
      else Some v)"

text \<open>
  \<^verbatim>\<open>$(sel).viewpoint(name, arg)\<close> with \<open>e\<close> the collection's first element
  \<^verbatim>\<open>this[0]\<close>: only that element's instance is looked up.
\<close>

definition call_method :: "nat \<Rightarrow> string \<Rightarrow> (string \<times> js_val) list option \<Rightarrow> world \<Rightarrow> world option" where
  "call_method e name arg w =
     (case registry w e of
        Some (Live v) \<Rightarrow> map_option (\<lambda>v'. w\<lparr>registry := (registry w)(e \<mapsto> Live v')\<rparr>) (apply_method name arg v)
      | Some Inert \<Rightarrow> (if name \<in> {''reset'', ''disable'', ''enable''} \<or> name \<notin> set prototype_members
                       then Some w else None)
      | None \<Rightarrow> Some w)"

text \<open>
  \<^verbatim>\<open>$(els).viewpoint(options, arg)\<close>, lines 324--354: a plain object or a falsy
  value (the empty string included) binds; another string calls a method on
  the first element; anything else does nothing. A method call on an empty
  collection (\<^verbatim>\<open>this[0]\<close> undefined) is not modelled.
\<close>

definition viewpoint_bridge ::
  "host \<Rightarrow> nat list \<Rightarrow> opt_arg \<Rightarrow> (string \<times> js_val) list option \<Rightarrow> world \<Rightarrow> ((js_exc + unit) \<times> world) option" where
  "viewpoint_bridge h els opt arg w =
     (case opt of
        ArgString name \<Rightarrow>
          (if name = [] then Some (bind_each h opt els w)
           else case els of
             [] \<Rightarrow> None
           | e # _ \<Rightarrow> map_option (\<lambda>w'. (Inr (), w')) (call_method e name arg w))
      | ArgOther \<Rightarrow> Some (Inr (), w)
      | _ \<Rightarrow> Some (bind_each h opt els w))"

section \<open>Evaluation on the shared snapshot\<close>

text \<open>
  The \<^verbatim>\<open>checkViewPoint\<close> handler of element \<open>e\<close>'s instance on geometry
  \<open>g\<close>: it starts from and leaves its snapshot in the shared
  \<^verbatim>\<open>currentState\<close>. An element without a live instance has no handler.
\<close>

definition eval_elem :: "geometry \<Rightarrow> nat \<Rightarrow> world \<Rightarrow> (js_exc + unit) \<times> world" where
  "eval_elem g e w =
     (case registry w e of
        Some (Live v) \<Rightarrow>
          (case check_view_point g \<lparr>vp = v, cur = shared_cur w, fired = []\<rparr> of (r, s') \<Rightarrow>
             (r, w\<lparr>registry := (registry w)(e \<mapsto> Live (vp s')), shared_cur := cur s',
                   log := log w @ map (\<lambda>(n, c). (e, n, c)) (fired s')\<rparr>))
      | _ \<Rightarrow> (Inr (), w))"

section \<open>Binding keeps one instance per element\<close>

lemma viewpoint_new_Inr_element:
  "viewpoint_new h (Some e) opt = Inr i \<Longrightarrow> \<exists>i'. viewpoint_new h (Some e') opt = Inr i'"
  by (cases "viewpoint_new h (Some e') opt") (auto dest: viewpoint_new_Inl_element [where e' = e])

lemma bind_each_other:
  "registry w e \<noteq> None \<or> e \<notin> set es \<Longrightarrow> registry (snd (bind_each h opt es w)) e = registry w e"
proof (induction es arbitrary: w)
  case (Cons x es)
  show ?case
  proof (cases "registry w x = None")
    case True
    show ?thesis
    proof (cases "viewpoint_new h (Some x) opt")
      case (Inr inst)
      have "registry (snd (bind_each h opt es (w\<lparr>registry := (registry w)(x \<mapsto> inst), pseudo := True\<rparr>))) e =
          registry (w\<lparr>registry := (registry w)(x \<mapsto> inst), pseudo := True\<rparr>) e"
        using Cons.prems True by (intro Cons.IH) auto
      with Cons.prems True Inr show ?thesis by auto
    qed (use True in simp)
  next
    case False
    then show ?thesis using Cons.IH [of w] Cons.prems by auto
  qed
qed simp

text \<open>
  C22.
  Binding never replaces an instance: after \<^verbatim>\<open>$(els).viewpoint(options)\<close>
  every element keeps the entry it had, unless it had none and is in the
  collection. In particular an inert object stored by an earlier call with no
  callback blocks every later binding of its element.
\<close>

theorem bind_each_keeps_bound:
  "registry (snd (bind_each h opt es w)) e = registry w e \<or>
   (e \<in> set es \<and> registry w e = None)"
  using bind_each_other [of w e es h opt] by blast

text \<open>
  C23.
  When the constructor throws (the options have a function callback and the
  scroll element or the content pane is missing) it throws for every element,
  so a binding call binds nothing: the exception escapes as soon as the
  collection has an element without an instance, and the page is unchanged.
\<close>

theorem bind_each_error:
  assumes "viewpoint_new h (Some e0) opt = Inl x"
  shows "bind_each h opt es w = (if list_ex (\<lambda>e. registry w e = None) es then Inl x else Inr (), w)"
proof (induction es)
  case (Cons e es)
  have "viewpoint_new h (Some e) opt = Inl x" using assms by (rule viewpoint_new_Inl_element)
  with Cons show ?case by simp
qed simp

lemma bind_each_Inr:
  assumes "viewpoint_new h (Some e0) opt = Inr inst0"
  shows "\<exists>w'. bind_each h opt es w = (Inr (), w') \<and>
           registry w' = (\<lambda>e. if e \<in> set es \<and> registry w e = None
                                then Some (projr (viewpoint_new h (Some e) opt)) else registry w e)"
proof (induction es arbitrary: w)
  case (Cons x es)
  show ?case
  proof (cases "registry w x = None")
    case True
    obtain i where nx: "viewpoint_new h (Some x) opt = Inr i"
      using viewpoint_new_Inr_element [OF assms] by blast
    define w1 where "w1 = w\<lparr>registry := (registry w)(x \<mapsto> i), pseudo := True\<rparr>"
    obtain w' where b: "bind_each h opt es w1 = (Inr (), w')"
      and r: "registry w' = (\<lambda>e. if e \<in> set es \<and> registry w1 e = None
                                  then Some (projr (viewpoint_new h (Some e) opt)) else registry w1 e)"
      using Cons.IH [of w1] by blast
    have "bind_each h opt (x # es) w = (Inr (), w')" using True nx b by (simp add: w1_def)
    moreover have "registry w' = (\<lambda>e. if e \<in> set (x # es) \<and> registry w e = None
                                  then Some (projr (viewpoint_new h (Some e) opt)) else registry w e)"
      using r nx True by (auto simp: w1_def fun_eq_iff)
    ultimately show ?thesis by blast
  next
    case False
    with Cons.IH [of w] show ?thesis by (auto simp: fun_eq_iff)
  qed
qed simp

text \<open>
  C24.
  A binding call whose constructor succeeds stores for every element of the
  collection without an instance the instance \<^verbatim>\<open>new Viewpoint(element, opt)\<close>
  builds for that very element, and leaves every other entry unchanged; every
  initialised instance it stores belongs to the element it is stored under.
\<close>

theorem bind_each_success:
  assumes "viewpoint_new h (Some e0) opt = Inr inst0"
  shows "\<exists>w'. bind_each h opt es w = (Inr (), w') \<and>
           registry w' = (\<lambda>e. if e \<in> set es \<and> registry w e = None
                                then Some (projr (viewpoint_new h (Some e) opt)) else registry w e) \<and>
           (\<forall>e v. registry w e = None \<and> registry w' e = Some (Live v) \<longrightarrow> element v = e)"
proof -
  obtain w' where b: "bind_each h opt es w = (Inr (), w')"
    and r: "registry w' = (\<lambda>e. if e \<in> set es \<and> registry w e = None
                                then Some (projr (viewpoint_new h (Some e) opt)) else registry w e)"
    using bind_each_Inr [OF assms] by blast
  have "element v = e" if "registry w e = None" "registry w' e = Some (Live v)" for e v
  proof -
    obtain i where "viewpoint_new h (Some e) opt = Inr i"
      using viewpoint_new_Inr_element [OF assms] by blast
    with that r show ?thesis by (auto intro: viewpoint_new_Live_element split: if_splits)
  qed
  with b r show ?thesis by blast
qed

section \<open>Method calls reach one element\<close>

text \<open>
  C25.
  \<^verbatim>\<open>$(els).viewpoint("disable")\<close> disables only the instance of the collection's
  first element; the instances of the other elements stay as they were, enabled
  ones included.
\<close>

theorem disable_reaches_first_only:
  assumes "registry w e = Some (Live v)"
  shows "viewpoint_bridge h (e # es) (ArgString ''disable'') arg w =
           Some (Inr (), w\<lparr>registry := (registry w)(e \<mapsto> Live (disable v))\<rparr>) \<and>
         (\<forall>e' \<in> set es. e' \<noteq> e \<longrightarrow>
            registry (w\<lparr>registry := (registry w)(e \<mapsto> Live (disable v))\<rparr>) e' = registry w e')"
  using assms by (simp add: viewpoint_bridge_def call_method_def apply_method_def)

section \<open>Instances share one snapshot\<close>

lemma eval_elem_Live:
  assumes "registry w e = Some (Live v)"
  shows "shared_cur (snd (eval_elem g e w)) = cur (snd (check_view_point g \<lparr>vp = v, cur = shared_cur w, fired = []\<rparr>))"
    "log (snd (eval_elem g e w)) =
       log w @ map (\<lambda>(n, c). (e, n, c)) (fired (snd (check_view_point g \<lparr>vp = v, cur = shared_cur w, fired = []\<rparr>)))"
    "registry (snd (eval_elem g e w)) = (registry w)(e \<mapsto> Live (vp (snd (check_view_point g \<lparr>vp = v, cur = shared_cur w, fired = []\<rparr>))))"
  using assms by (simp_all add: eval_elem_def split: prod.split)

text \<open>
  C26.
  Because \<^verbatim>\<open>currentState\<close> is shared through the prototype, the edge flags
  that element \<open>a\<close>'s affix callbacks receive are the ones another element
  \<open>b\<close>'s evaluation computed just before, from \<open>b\<close>'s options and geometry,
  when neither instance has a callback option that is a truthy non-function.
\<close>

theorem affix_flags_leak_between_instances:
  assumes "registry w a = Some (Live va)" and "registry w b = Some (Live vb)" and "a \<noteq> b"
    and "callable (options va)" and "callable (options vb)"
    and "w1 = snd (eval_elem gb b w)" and "w2 = snd (eval_elem ga a w1)"
    and "(a, n, c) \<in> set (drop (length (log w1)) (log w2))" and "n = AffixTop \<or> n = OffAffixTop"
  shows "isOffTop c = Some (check_off_top (options vb) (update_current_state (options vb) (has_pane vb) gb (shared_cur w))) \<and>
         isOffBottom c = Some (check_off_bottom (options vb) (update_current_state (options vb) (has_pane vb) gb (shared_cur w))) \<and>
         isOffRight c = Some (check_off_right (options vb) (update_current_state (options vb) (has_pane vb) gb (shared_cur w))) \<and>
         isOffLeft c = Some (check_off_left (options vb) (update_current_state (options vb) (has_pane vb) gb (shared_cur w)))"
proof -
  let ?sb = "\<lparr>vp = vb, cur = shared_cur w, fired = []\<rparr>"
  have cb: "callable (options (vp ?sb))" using assms(5) by simp
  have w1cur: "shared_cur w1 = fst (is_in_view_point (options vb) (update_current_state (options vb) (has_pane vb) gb (shared_cur w)))"
    using eval_elem_Live(1) [OF assms(2), of gb] check_view_point_eq [OF cb, of gb] assms(6)
    by (simp add: handler_spec_fields)
  have ra: "registry w1 a = Some (Live va)" using eval_elem_Live(3) [OF assms(2), of gb] assms(1,3,6) by simp
  let ?sa = "\<lparr>vp = va, cur = shared_cur w1, fired = []\<rparr>"
  have ca: "callable (options (vp ?sa))" using assms(4) by simp
  have "(n, c) \<in> set (drop (length (fired ?sa)) (fired (snd (check_view_point ga ?sa))))"
    using assms(8) eval_elem_Live(2) [OF ra, of ga] assms(7) by auto
  then have "c = update_current_state (options va) (has_pane va) ga (shared_cur w1)"
    using affix_call_snapshot [OF ca, of ga "fst (check_view_point ga ?sa)" "snd (check_view_point ga ?sa)" n c]
      assms(9) by simp
  then show ?thesis by (simp add: update_current_state_fields w1cur is_in_view_point_eq)
qed

end
