(* ===== verification/Spec2Isabelle.thy ===== *)
theory Spec2Isabelle
  imports Schedule Bridge
begin

text \<open>
  A verification development for jQuery-Viewpoint (src/js/viewpoint.js), the
  jQuery plugin that tells whether an element is inside the scrolled viewport
  and calls user callbacks when that changes.

  \<^bold>\<open>The program.\<close> One source file. \<^verbatim>\<open>isNumeric\<close>/\<^verbatim>\<open>isPercent\<close> (lines 39--53)
  parse offset options such as \<^verbatim>\<open>"50%"\<close>. The \<^verbatim>\<open>Viewpoint\<close> constructor and
  \<^verbatim>\<open>init\<close> (lines 55--98) merge the options with the defaults, validate them and
  bind the instance. \<^verbatim>\<open>setupEvents\<close> (lines 100--220) binds the
  \<^verbatim>\<open>checkViewPoint\<close> handler, which samples the geometry
  (\<^verbatim>\<open>updateCurrentState\<close>, lines 222--237), evaluates the four edges
  (\<^verbatim>\<open>isInViewPoint\<close> and the \<^verbatim>\<open>check*\<close> methods, lines 240--304), and calls at
  most one affix-family and some position-family callbacks, each guarded by a
  memory of the last one called (\<^verbatim>\<open>isCalled\<close>, \<^verbatim>\<open>isAffixTopCalled\<close>). Document
  ready runs the handler at once; scroll and resize notifications arm a
  \<^verbatim>\<open>setTimeout\<close> that runs it. \<^verbatim>\<open>reset\<close>, \<^verbatim>\<open>disable\<close>, \<^verbatim>\<open>enable\<close> (lines
  306--320) and the jQuery bridge (lines 324--354), which keeps one instance per
  element in \<^verbatim>\<open>$.data\<close>, are the external interface.

  \<^bold>\<open>The theories.\<close>
  \<^item> \<open>Prelude\<close>: exceptions as values (\<open>js_exc\<close>), the state-and-exception
    computations \<open>jsm\<close> the handler is written in with their invariant rules
    (\<open>jsm_inv\<close>), lexer lemmas on lists.
  \<^item> \<open>JsNumber\<close>: JavaScript numbers (\<open>jsnum\<close>: finite reals, the infinities,
    NaN), the engine's \<^verbatim>\<open>Number()\<close> (\<open>to_number\<close>) and \<^verbatim>\<open>parseFloat()\<close>
    (\<open>parse_float\<close>) from the ECMAScript grammar, and the plugin's
    \<open>is_numeric\<close> and \<open>is_percent\<close>. Proved: what \<^verbatim>\<open>isNumeric\<close> accepts
    (C3), and that \<^verbatim>\<open>Number()\<close> and \<^verbatim>\<open>parseFloat()\<close> read back the
    decimal rendering of every natural number (used for the percentage digits).
  \<^item> \<open>Sampler\<close>: the options record, the geometry the host reports, the
    \<^verbatim>\<open>currentState\<close> snapshot (\<open>vp_state\<close>), offset resolution, the edge checks,
    \<open>update_current_state\<close> and \<open>is_in_view_point\<close>. Proved: the aggregate is
    strict overlap of the offset-shrunk element with the viewport (C2);
    percentage offsets act the same at top and bottom, pixel offsets do not
    (C4, C5).
  \<^item> \<open>Dispatch\<close>: the instance (\<open>viewpoint\<close>, with the element it belongs
    to), the evaluation state
    (instance, snapshot, log of callback calls), the four helpers and the
    handler \<open>check_view_point\<close>; \<open>handler_spec\<close>, the handler's outcome as a
    function. Proved: refinement over any run of evaluations (C1), re-firing on
    a repeated evaluation (C6), the affix-branch anomalies (C7--C9), bounds on
    one evaluation's calls (C10), the memory invariant (C11), a well-formed
    snapshot after every normal return (C27); as lemmas, that the guarded
    \<^verbatim>\<open>offView\<close> chain computes \<open>remdups_adj\<close> of the eligible names
    (\<open>fire_edges_remdups_adj\<close>) and that the callbacks never write the
    snapshot (\<open>dispatch_frame\<close>).
  \<^item> \<open>Tracker\<close>: the caller's options and \<^verbatim>\<open>$.extend\<close>, the constructor and
    \<^verbatim>\<open>init\<close> with their errors and the element \<^verbatim>\<open>init\<close> stores,
    \<^verbatim>\<open>reset\<close> (strict \<^verbatim>\<open>=== false\<close>)/\<^verbatim>\<open>disable\<close>/\<^verbatim>\<open>enable\<close> (C12--C16).
  \<^item> \<open>Schedule\<close>: the three handlers of \<^verbatim>\<open>setupEvents\<close> with the closure's timer
    variables, the timer callbacks, host events (\<open>step\<close>, \<open>run\<close>) and the
    reachable states as an inductive predicate. Proved: the scheduling
    invariant of every reachable state by rule induction (lemma
    \<open>reachable_sched_ok\<close>), every pending timer runs within one delay (C17),
    scroll is debounced (C18), resize is not (C19), the disable gate (C20), and
    a timer armed before \<^verbatim>\<open>disable\<close> still runs (C21).
  \<^item> \<open>Bridge\<close>: the \<^verbatim>\<open>$.data\<close> registry and binding loop, method calls, and
    several instances on the prototype-shared \<^verbatim>\<open>currentState\<close> (C22--C26):
    binding builds one instance per element, for that element (C24).
  \<^item> This theory: the header, the fixtures and the witnesses of the claims.

  \<^bold>\<open>Modelling choices.\<close> JS doubles are exact reals: rounding and overflow are
  not modelled (they matter only for literals beyond 1e308). Strings are byte
  lists and only ASCII whitespace is trimmed. An offset option that is a
  number is a finite real (\<open>OptNumber\<close>): \<^verbatim>\<open>NaN\<close> and \<^verbatim>\<open>Infinity\<close>
  given as numbers are not represented, although the same values reached
  through a percentage string are. Callbacks are user code: a call
  is recorded with the snapshot it receives and is assumed to return without
  re-entering the plugin; an option that is truthy but not a function throws.
  Time is in whole milliseconds; the host runs a timer once its due time is
  reached, earliest first, which is the HTML timer model and not code of the
  repository: \<open>set_timeout\<close> and \<open>clear_timeout\<close> model the host's
  \<^verbatim>\<open>setTimeout\<close> and \<^verbatim>\<open>clearTimeout\<close> at their call sites. The host may
  deliver the document-ready event more than once, which a page does not: the
  schedule is an over-approximation, so what holds of all its runs holds of
  the page's. \<^verbatim>\<open>options.delay\<close> is a natural number. In \<open>Schedule\<close> an
  instance has its own snapshot; the sharing of \<^verbatim>\<open>currentState\<close> between
  instances is the subject of \<open>Bridge\<close>.

  \<^bold>\<open>Not modelled.\<close> The jQuery and DOM primitives (\<^verbatim>\<open>$()\<close>,
  \<^verbatim>\<open>.offset()\<close>, \<^verbatim>\<open>.position()\<close>, \<^verbatim>\<open>.on\<close>, \<^verbatim>\<open>.trigger\<close>): the geometry they
  report is an input (\<open>geometry\<close>), a selector is its match count (\<open>host\<close>),
  and a scroll element given as a window or a node is taken to exist (match
  count 1). The jQuery wrappers \<^verbatim>\<open>$element\<close>, \<^verbatim>\<open>sWindow\<close> and
  \<^verbatim>\<open>$contentPane\<close> are not stored: what is read through them is the
  geometry; the instance keeps \<^verbatim>\<open>element\<close> and whether a content pane is
  used.
  Calling internal prototype members by name through the bridge, and a method
  call on an empty collection, are the value \<open>None\<close> of \<open>call_method\<close> and
  \<open>viewpoint_bridge\<close>. The event-name options only name bindings. No code
  loops without bound: every recursion is structural, so no fuel is needed.
\<close>

section \<open>Fixtures\<close>

definition demo_callbacks :: "cb_name \<Rightarrow> cb_slot" where
  "demo_callbacks n = (if n = OffView \<or> n = OffTop \<or> n = InView then CbFunction else CbAbsent)"

definition demo_options :: vp_options where
  "demo_options = default_options\<lparr>callbacks := demo_callbacks\<rparr>"

definition demo_vp :: viewpoint where
  "demo_vp = \<lparr>options = demo_options, has_pane = False, isCalled = None,
     isAffixTopCalled = None, isDisable = False, element = 1\<rparr>"

definition demo_start :: ev_state where
  "demo_start = \<lparr>vp = demo_vp, cur = empty_state, fired = []\<rparr>"

text \<open>A 1000 by 1000 viewport scrolled to 600, an element at 100 of height 400.\<close>

definition demo_geom :: geometry where
  "demo_geom = \<lparr>g_win_width = 1000, g_win_height = 1000, g_scroll_top = 600, g_scroll_left = 0,
     g_el_width = 200, g_el_height = 400, g_offset = (100, 0), g_position = (100, 0)\<rparr>"

text \<open>An instance with only an \<^verbatim>\<open>offAffixTop\<close> callback, and one whose \<^verbatim>\<open>affixTop\<close> is \<^verbatim>\<open>true\<close>.\<close>

definition demo_affix_callbacks :: "cb_name \<Rightarrow> cb_slot" where
  "demo_affix_callbacks n = (if n = OffAffixTop then CbFunction else CbAbsent)"

definition demo_affix_start :: ev_state where
  "demo_affix_start = demo_start\<lparr>vp := demo_vp\<lparr>options := default_options\<lparr>callbacks := demo_affix_callbacks\<rparr>\<rparr>\<rparr>"

definition demo_truthy_start :: ev_state where
  "demo_truthy_start = demo_start\<lparr>vp := demo_vp\<lparr>options :=
     default_options\<lparr>callbacks := (\<lambda>n. if n = AffixTop then CbTruthy else CbAbsent)\<rparr>\<rparr>\<rparr>"

text \<open>The options object \<^verbatim>\<open>{offView: f, offTop: f, inView: f}\<close>, and a page where no selector matches.\<close>

definition demo_user :: user_options where
  "demo_user = \<lparr>u_scrollElement = None, u_contentPane = None, u_topOffset = None, u_rightOffset = None,
     u_bottomOffset = None, u_leftOffset = None, u_affixOffset = None, u_delay = None,
     u_callbacks = demo_callbacks\<rparr>"

definition demo_host :: host where
  "demo_host = \<lparr>sel_count = (\<lambda>_. 0)\<rparr>"

text \<open>The state after one evaluation of \<open>demo_start\<close>, and after \<^verbatim>\<open>reset({isCalled: false})\<close>.\<close>

definition demo_after1 :: ev_state where
  "demo_after1 = snd (check_view_point demo_geom demo_start)"

definition demo_reset :: ev_state where
  "demo_reset = demo_after1\<lparr>vp := reset (Some [(''isCalled'', JBool False)]) (vp demo_after1)\<rparr>"

text \<open>The demo instance bound on \<open>demo_geom\<close>, and the same after one scroll notification.\<close>

definition demo_sched :: sched where
  "demo_sched = sched_init demo_vp demo_geom"


definition demo_geom_top :: geometry where
  "demo_geom_top = demo_geom\<lparr>g_scroll_top := 0\<rparr>"

definition demo_disabled :: sched where
  "demo_disabled = update_vp disable demo_sched"

text \<open>
  A page with two bound elements: element 1 with only an \<^verbatim>\<open>offAffixTop\<close>
  callback, element 2 the demo instance; and options naming a missing scroll
  element.
\<close>

definition demo_world :: world where
  "demo_world = world_init\<lparr>registry := (\<lambda>e. if e = 1 then Some (Live (vp demo_affix_start))
     else if e = 2 then Some (Live (demo_vp\<lparr>element := 2\<rparr>)) else None)\<rparr>"

definition demo_user_missing :: user_options where
  "demo_user_missing = demo_user\<lparr>u_scrollElement := Some (SelectorRef ''#scroller'')\<rparr>"

section \<open>Witnesses\<close>

lemma demo_callable: "callable (options (vp demo_start))"
  by (simp add: callable_def demo_start_def demo_vp_def demo_options_def demo_callbacks_def)

theorem check_view_point_refines_witness:
  "callable (options (vp demo_start)) \<and>
   check_view_points [demo_geom, demo_geom] demo_start =
     (Inr (), handler_spec demo_geom (handler_spec demo_geom demo_start))"
  using check_view_point_refines [OF demo_callable, of "[demo_geom, demo_geom]"] demo_callable by simp

theorem percent_offset_mirror_witness:
  "is_percent (topOffset (default_options\<lparr>topOffset := OptString ''50%'', bottomOffset := OptString ''50%''\<rparr>)) = Some ''50'' \<and>
   (check_off_top (default_options\<lparr>topOffset := OptString ''50%'', bottomOffset := OptString ''50%''\<rparr>)
      (empty_state\<lparr>winScrollTop := 300, elementOffsetTop := 100, elementHeight := 400\<rparr>) \<longleftrightarrow>
    (100 + 400) - 300 \<le> (400::real) * (number_value ''50'' / 100))"
proof -
  have h: "is_percent (OptString ''50%'') = Some ''50''" by code_simp
  show ?thesis
    using percent_offset_mirror [of "default_options\<lparr>topOffset := OptString ''50%'', bottomOffset := OptString ''50%''\<rparr>"
        "''50''" "empty_state\<lparr>winScrollTop := 300, elementOffsetTop := 100, elementHeight := 400\<rparr>"] h
    by simp
qed

theorem pixel_offset_asymmetry_witness:
  "topOffset (default_options\<lparr>topOffset := OptNumber 10, bottomOffset := OptNumber 10\<rparr>) = OptNumber 10 \<and>
   (check_off_bottom (default_options\<lparr>topOffset := OptNumber 10, bottomOffset := OptNumber 10\<rparr>)
      (empty_state\<lparr>foldHeight := 1000, elementOffsetTop := 1005\<rparr>) \<longleftrightarrow> (1005::real) - 1000 \<ge> 10)"
  using pixel_offset_asymmetry [of "default_options\<lparr>topOffset := OptNumber 10, bottomOffset := OptNumber 10\<rparr>" 10
      "empty_state\<lparr>foldHeight := 1000, elementOffsetTop := 1005\<rparr>"]
  by simp


text \<open>Whatever the callbacks, on \<open>demo_geom\<close> the element is above the viewport.\<close>

lemma demo_sampled_any:
  "fst (is_in_view_point (default_options\<lparr>callbacks := cb\<rparr>)
        (update_current_state (default_options\<lparr>callbacks := cb\<rparr>) False demo_geom c)) =
     (update_current_state (default_options\<lparr>callbacks := cb\<rparr>) False demo_geom c)\<lparr>isOffTop := Some True,
        isOffRight := Some False, isOffBottom := Some False, isOffLeft := Some False,
        isInViewPoint := Some False\<rparr>"
  by (simp add: is_in_view_point_eq edge_defs update_current_state_fields demo_geom_def default_options_def)

lemma demo_sampled:
  "fst (is_in_view_point demo_options (update_current_state demo_options False demo_geom c)) =
     (update_current_state demo_options False demo_geom c)\<lparr>isOffTop := Some True, isOffRight := Some False,
        isOffBottom := Some False, isOffLeft := Some False, isInViewPoint := Some False\<rparr>"
  unfolding demo_options_def by (rule demo_sampled_any)

lemma demo_off_eligible:
  "off_eligible demo_options
     (fst (is_in_view_point demo_options (update_current_state demo_options False demo_geom c))) =
   [OffView, OffTop]"
  unfolding demo_sampled
  by (simp add: off_eligible_def off_edges_def demo_options_def demo_callbacks_def truthy_def)

theorem second_evaluation_refires_witness:
  "callable (options (vp demo_start)) \<and>
   map fst (drop (length (fired (snd (check_view_point demo_geom demo_start))))
     (fired (snd (check_view_point demo_geom (snd (check_view_point demo_geom demo_start)))))) =
   [OffView, OffTop]"
proof -
  let ?s1 = "snd (check_view_point demo_geom demo_start)"
  have c1: "cur ?s1 = fst (is_in_view_point demo_options (update_current_state demo_options False demo_geom empty_state))"
    using check_view_point_eq [OF demo_callable]
    by (simp add: handler_spec_fields demo_start_def demo_vp_def)
  have o1: "options (vp demo_start) = demo_options" by (simp add: demo_start_def demo_vp_def)
  have "map fst (drop (length (fired ?s1)) (fired (snd (check_view_point demo_geom ?s1)))) =
      (if isInViewPoint (cur ?s1) = Some False \<and> 2 \<le> length (off_eligible (options (vp demo_start)) (cur ?s1))
       then off_eligible (options (vp demo_start)) (cur ?s1) else [])"
    using second_evaluation_refires [OF demo_callable, of demo_geom "fst (check_view_point demo_geom demo_start)" ?s1
        "fst (check_view_point demo_geom ?s1)" "snd (check_view_point demo_geom ?s1)"]
    by simp
  also have "\<dots> = [OffView, OffTop]"
    unfolding c1 o1 demo_off_eligible by (simp add: demo_sampled)
  finally show ?thesis using demo_callable by simp
qed

lemma demo_affix_facts:
  "callable (options (vp demo_affix_start))"
  "callbacks (options (vp demo_affix_start)) AffixTop = CbAbsent"
  "callbacks (options (vp demo_affix_start)) OffAffixTop = CbFunction"
  "isAffixTopCalled (vp demo_affix_start) = None"
  "has_pane (vp demo_affix_start) = False"
  "cur demo_affix_start = empty_state" "fired demo_affix_start = []"
  by (simp_all add: callable_def demo_affix_start_def demo_start_def demo_vp_def demo_affix_callbacks_def)

lemma demo_affix_new_fired:
  "drop (length (fired demo_affix_start)) (fired (snd (check_view_point demo_geom demo_affix_start))) =
     [(OffAffixTop, update_current_state (default_options\<lparr>callbacks := demo_affix_callbacks\<rparr>) False demo_geom empty_state)]"
proof -
  have o: "options (vp demo_affix_start) = default_options\<lparr>callbacks := demo_affix_callbacks\<rparr>"
    by (simp add: demo_affix_start_def demo_vp_def)
  show ?thesis
    using check_view_point_eq [OF demo_affix_facts(1), of demo_geom] new_fired_handler_spec [of demo_affix_start demo_geom]
    unfolding o demo_sampled_any demo_affix_facts
    by (simp add: affix_spec_def position_spec_def off_eligible_def off_edges_def truthy_def
        demo_affix_callbacks_def update_current_state_fields demo_geom_def default_options_def affix_offset_def)
qed

theorem off_affix_top_fires_while_affixed_witness:
  "callbacks (options (vp demo_affix_start)) AffixTop = CbAbsent \<and>
   callbacks (options (vp demo_affix_start)) OffAffixTop = CbFunction \<and>
   isAffixTop (cur (snd (check_view_point demo_geom demo_affix_start))) = Some True \<and>
   hd (new_calls demo_affix_start (snd (check_view_point demo_geom demo_affix_start))) = OffAffixTop"
  using off_affix_top_fires_while_affixed [of demo_affix_start demo_geom] demo_affix_facts
  by (simp add: demo_geom_def affix_offset_def demo_affix_start_def demo_vp_def default_options_def)

theorem affix_callbacks_see_previous_flags_witness:
  "(OffAffixTop, update_current_state (default_options\<lparr>callbacks := demo_affix_callbacks\<rparr>) False demo_geom empty_state)
     \<in> set (drop (length (fired demo_affix_start)) (fired (snd (check_view_point demo_geom demo_affix_start)))) \<and>
   isInViewPoint (update_current_state (default_options\<lparr>callbacks := demo_affix_callbacks\<rparr>) False demo_geom empty_state) = None \<and>
   isInViewPoint (cur (snd (check_view_point demo_geom demo_affix_start))) = Some False"
proof -
  have c: "cur (snd (check_view_point demo_geom demo_affix_start)) =
      fst (is_in_view_point (default_options\<lparr>callbacks := demo_affix_callbacks\<rparr>)
        (update_current_state (default_options\<lparr>callbacks := demo_affix_callbacks\<rparr>) False demo_geom empty_state))"
    using check_view_point_eq [OF demo_affix_facts(1), of demo_geom]
    by (simp add: handler_spec_fields demo_affix_facts demo_affix_start_def demo_vp_def demo_start_def)
  show ?thesis
    using affix_callbacks_see_previous_flags [OF demo_affix_facts(1), of demo_geom
        "fst (check_view_point demo_geom demo_affix_start)" "snd (check_view_point demo_geom demo_affix_start)"
        OffAffixTop "update_current_state (default_options\<lparr>callbacks := demo_affix_callbacks\<rparr>) False demo_geom empty_state"]
    unfolding demo_affix_new_fired c demo_sampled_any
    by (simp add: demo_affix_facts update_current_state_fields empty_state_def)
qed

theorem truthy_affix_top_throws_witness:
  "callbacks (options (vp demo_truthy_start)) AffixTop = CbTruthy \<and>
   check_view_point demo_geom demo_truthy_start =
    (Inl (TypeErrorNotFunction ''affixTop''),
     demo_truthy_start\<lparr>cur := update_current_state (options (vp demo_truthy_start)) False demo_geom empty_state\<rparr>)"
  using truthy_affix_top_throws [of demo_truthy_start demo_geom]
  by (simp add: demo_truthy_start_def demo_start_def demo_vp_def demo_geom_def affix_offset_def default_options_def)

theorem evaluation_call_bounds_witness:
  "callable (options (vp demo_start)) \<and>
   new_calls demo_start (snd (check_view_point demo_geom demo_start)) = [OffView, OffTop] \<and>
   distinct (new_calls demo_start (snd (check_view_point demo_geom demo_start)))"
proof -
  have f: "options (vp demo_start) = demo_options" "has_pane (vp demo_start) = False"
    "cur demo_start = empty_state" "isCalled (vp demo_start) = None" "isAffixTopCalled (vp demo_start) = None"
    by (simp_all add: demo_start_def demo_vp_def)
  have "new_calls demo_start (snd (check_view_point demo_geom demo_start)) = [OffView, OffTop]"
    using check_view_point_eq [OF demo_callable, of demo_geom] new_calls_handler_spec [of demo_start demo_geom]
    unfolding f
    by (simp add: demo_sampled_any is_in_view_point_snd affix_spec_def position_spec_def off_eligible_def
        off_edges_def demo_options_def demo_callbacks_def truthy_def update_current_state_fields)
  then show ?thesis
    using evaluation_call_bounds [OF demo_callable, of demo_geom "fst (check_view_point demo_geom demo_start)"
        "snd (check_view_point demo_geom demo_start)"] demo_callable
    by simp
qed

theorem check_view_point_memory_ok_witness:
  "memory_ok (vp demo_start) \<and> memory_ok (vp (snd (check_view_point demo_geom demo_start)))"
proof -
  have m: "memory_ok (vp demo_start)" by (simp add: memory_ok_def demo_start_def demo_vp_def)
  show ?thesis using check_view_point_memory_ok [OF m, of demo_geom] m by simp
qed

lemma demo_user_extend: "extend_options default_options demo_user = demo_options"
  by (simp add: extend_options_def demo_user_def demo_options_def default_options_def extend_val_def
      extend_js_def fun_eq_iff)

lemma demo_user_new_at:
  "viewpoint_new demo_host (Some e) (ArgPlain demo_user) = Inr (Live (demo_vp\<lparr>element := e\<rparr>))"
proof -
  have f: "has_function_callback demo_user"
    by (simp add: has_function_callback_def all_cb_names_def demo_user_def demo_callbacks_def is_function_def)
  have o: "scrollElement demo_options = WindowRef" "contentPane demo_options = OptOther"
    by (simp_all add: demo_options_def default_options_def)
  show ?thesis
    by (simp add: viewpoint_new_Plain f demo_user_extend init_def query_length_def o fresh_viewpoint_def
        demo_vp_def)
qed

lemma demo_user_new:
  "viewpoint_new demo_host (Some 1) (ArgPlain demo_user) = Inr (Live demo_vp)"
  using demo_user_new_at [of 1] by (simp add: demo_vp_def)

theorem viewpoint_new_live_witness:
  "viewpoint_new demo_host (Some 1) (ArgPlain demo_user) = Inr (Live demo_vp) \<and>
   memory_ok demo_vp \<and> \<not> has_pane demo_vp"
  using viewpoint_new_live [OF demo_user_new] demo_user_new by (auto simp: demo_vp_def)

theorem reset_ignores_other_keys_witness:
  "map_of [(''isCalled'', JNum 0), (''isAffixTopCalled'', JStr [])] ''isCalled'' \<noteq> Some (JBool False) \<and>
   reset (Some [(''isCalled'', JNum 0), (''isAffixTopCalled'', JStr [])])
       (demo_vp\<lparr>isCalled := Some InView, isAffixTopCalled := Some OffAffixTop\<rparr>) =
     demo_vp\<lparr>isCalled := Some InView, isAffixTopCalled := Some OffAffixTop\<rparr>"
  using reset_ignores_other_keys [of "[(''isCalled'', JNum 0), (''isAffixTopCalled'', JStr [])]"
      "demo_vp\<lparr>isCalled := Some InView, isAffixTopCalled := Some OffAffixTop\<rparr>"]
  by simp

theorem reset_refires_witness:
  "new_calls demo_reset (snd (check_view_point demo_geom demo_reset)) = [OffView, OffTop]"
proof -
  have c1: "cur demo_after1 = fst (is_in_view_point demo_options (update_current_state demo_options False demo_geom empty_state))"
    using check_view_point_eq [OF demo_callable]
    by (simp add: demo_after1_def handler_spec_fields demo_start_def demo_vp_def)
  have o1: "options (vp demo_start) = demo_options" by (simp add: demo_start_def demo_vp_def)
  have "new_calls demo_reset (snd (check_view_point demo_geom demo_reset)) =
      (if isInViewPoint (cur demo_after1) = Some True
       then (if truthy (callbacks (options (vp demo_start)) InView) then [InView] else [])
       else off_eligible (options (vp demo_start)) (cur demo_after1))"
    using reset_refires [OF demo_callable, of demo_geom "fst (check_view_point demo_geom demo_start)" demo_after1
        demo_reset "fst (check_view_point demo_geom demo_reset)" "snd (check_view_point demo_geom demo_reset)"]
    by (simp add: demo_after1_def demo_reset_def)
  also have "\<dots> = [OffView, OffTop]"
    unfolding c1 o1 demo_off_eligible by (simp add: demo_sampled)
  finally show ?thesis .
qed

lemma demo_vp_memory_ok: "memory_ok demo_vp"
  by (simp add: memory_ok_def demo_vp_def)




lemma demo_sched_facts:
  "sched_ok demo_sched" "\<not> disabled demo_sched" "timers demo_sched = []" "delay_of demo_sched = 70"
  "evals demo_sched = []"
  by (simp_all add: demo_sched_def sched_init_ok demo_vp_memory_ok)
    (simp_all add: sched_init_def demo_vp_def demo_options_def default_options_def)

theorem scroll_burst_debounced_witness:
  "list_all (\<lambda>d. d < delay_of demo_sched) [30, 30] \<and>
   evals (run (burst Scroll [demo_geom_top, demo_geom] [30, 30] @ [Wait (delay_of demo_sched)]) demo_sched) =
     [demo_geom]"
  using scroll_burst_debounced [OF demo_sched_facts(1-3), of "[demo_geom_top, demo_geom]" "[30, 30]"]
  by (simp add: demo_sched_facts)

theorem resize_burst_not_debounced_witness:
  "length (evals (run (burst Resize [demo_geom_top, demo_geom] [30, 30] @ [Wait (delay_of demo_sched)])
     demo_sched)) = 2"
  using resize_burst_not_debounced [OF demo_sched_facts(1-3), of "[30, 30]" "[demo_geom_top, demo_geom]"]
  by (simp add: demo_sched_facts)

theorem disabled_ignores_notifications_witness:
  "disabled demo_disabled \<and> timers demo_disabled = [] \<and>
   evals (run [Scroll demo_geom, Wait 100, Ready, Resize demo_geom_top, Wait 100] demo_disabled) = [] \<and>
   ev (run [Scroll demo_geom, Wait 100, Ready, Resize demo_geom_top, Wait 100] demo_disabled) = ev demo_disabled"
proof -
  have f: "disabled demo_disabled" "timers demo_disabled = []" "evals demo_disabled = []"
    by (simp_all add: demo_disabled_def update_vp_def disable_def demo_sched_facts)
  show ?thesis
    using disabled_ignores_notifications [OF f(1,2), of "[Scroll demo_geom, Wait 100, Ready, Resize demo_geom_top, Wait 100]"] f
    by simp
qed

theorem pending_scroll_runs_after_disable_witness:
  "disabled (run [Scroll demo_geom, CallDisable, Wait 70] demo_sched) \<and>
   evals (run [Scroll demo_geom, CallDisable, Wait 70] demo_sched) = [demo_geom]"
  using pending_scroll_runs_after_disable [OF demo_sched_facts(1-3), of demo_geom]
  by (simp add: demo_sched_facts)

lemma demo_user_missing_new:
  "viewpoint_new demo_host (Some 0) (ArgPlain demo_user_missing) = Inl (ThrowString ''scrollElement not found'')"
proof -
  have f: "has_function_callback demo_user_missing"
    by (simp add: has_function_callback_def all_cb_names_def demo_user_missing_def demo_user_def
        demo_callbacks_def is_function_def)
  show ?thesis
    by (simp add: viewpoint_new_Plain f init_def query_length_def) (simp add: demo_user_missing_def
        demo_user_def extend_val_def demo_host_def)
qed

theorem bind_each_error_witness:
  "viewpoint_new demo_host (Some 0) (ArgPlain demo_user_missing) = Inl (ThrowString ''scrollElement not found'') \<and>
   bind_each demo_host (ArgPlain demo_user_missing) [1, 2] world_init =
     (Inl (ThrowString ''scrollElement not found''), world_init)"
  using bind_each_error [OF demo_user_missing_new, of "[1, 2]" world_init] demo_user_missing_new
  by (simp add: world_init_def)

theorem bind_each_success_witness:
  "viewpoint_new demo_host (Some 1) (ArgPlain demo_user) = Inr (Live demo_vp) \<and>
   (\<exists>w'. bind_each demo_host (ArgPlain demo_user) [1, 2] world_init = (Inr (), w') \<and>
         registry w' 1 = Some (Live demo_vp) \<and>
         registry w' 2 = Some (Live (demo_vp\<lparr>element := 2\<rparr>)) \<and> registry w' 3 = None)"
  using bind_each_success [OF demo_user_new, of "[1, 2]" world_init] demo_user_new demo_user_new_at [of 2]
  by (auto simp: world_init_def)

theorem disable_reaches_first_only_witness:
  "registry demo_world 2 = Some (Live (demo_vp\<lparr>element := 2\<rparr>)) \<and>
   viewpoint_bridge demo_host [2, 1] (ArgString ''disable'') None demo_world =
     Some (Inr (), demo_world\<lparr>registry := (registry demo_world)(2 \<mapsto> Live (disable (demo_vp\<lparr>element := 2\<rparr>)))\<rparr>) \<and>
   registry (demo_world\<lparr>registry := (registry demo_world)(2 \<mapsto> Live (disable (demo_vp\<lparr>element := 2\<rparr>)))\<rparr>) 1 =
     Some (Live (vp demo_affix_start))"
proof -
  have r: "registry demo_world 2 = Some (Live (demo_vp\<lparr>element := 2\<rparr>))" by (simp add: demo_world_def)
  show ?thesis
    using disable_reaches_first_only [OF r, of demo_host "[1]" None] r by (simp add: demo_world_def)
qed

theorem affix_flags_leak_between_instances_witness:
  "(1, OffAffixTop, update_current_state (options (vp demo_affix_start)) False demo_geom
      (shared_cur (snd (eval_elem demo_geom 2 demo_world))))
     \<in> set (drop (length (log (snd (eval_elem demo_geom 2 demo_world))))
          (log (snd (eval_elem demo_geom 1 (snd (eval_elem demo_geom 2 demo_world)))))) \<and>
   isOffTop (update_current_state (options (vp demo_affix_start)) False demo_geom
      (shared_cur (snd (eval_elem demo_geom 2 demo_world)))) =
     Some (check_off_top demo_options (update_current_state demo_options False demo_geom empty_state))"
proof -
  let ?w1 = "snd (eval_elem demo_geom 2 demo_world)"
  let ?va = "vp demo_affix_start"
  let ?vb = "demo_vp\<lparr>element := 2\<rparr>"
  let ?sa = "\<lparr>vp = ?va, cur = shared_cur ?w1, fired = []\<rparr>"
  let ?c1 = "update_current_state (options ?va) False demo_geom (shared_cur ?w1)"
  have ra: "registry demo_world 1 = Some (Live ?va)" and rb: "registry demo_world 2 = Some (Live ?vb)"
    by (simp_all add: demo_world_def)
  have ca: "callable (options ?va)" and cb: "callable (options ?vb)"
    using demo_affix_facts(1) demo_callable by (simp_all add: demo_start_def)
  have hp: "has_pane ?va = False" by (simp add: demo_affix_start_def demo_start_def demo_vp_def)
  have ra1: "registry ?w1 1 = Some (Live ?va)" using eval_elem_Live(3) [OF rb, of demo_geom] ra by simp
  have fa: "fst (affix_spec (options ?va) (isAffixTop ?c1) None) = [OffAffixTop]"
    by (simp add: affix_spec_def demo_affix_start_def demo_start_def demo_vp_def demo_affix_callbacks_def truthy_def)
  have mem0: "isCalled ?va = None" "isAffixTopCalled ?va = None"
    by (simp_all add: demo_affix_start_def demo_start_def demo_vp_def)
  have "drop (length (fired ?sa)) (fired (handler_spec demo_geom ?sa)) =
      map (\<lambda>n. (n, ?c1)) (fst (affix_spec (options ?va) (isAffixTop ?c1) None)) @
      map (\<lambda>n. (n, fst (is_in_view_point (options ?va) ?c1)))
        (fst (position_spec (options ?va) (fst (is_in_view_point (options ?va) ?c1))
          (snd (is_in_view_point (options ?va) ?c1)) None))"
    using new_fired_handler_spec [of ?sa demo_geom] hp mem0 by simp
  then have mem: "(OffAffixTop, ?c1) \<in> set (fired (snd (check_view_point demo_geom ?sa)))"
    using check_view_point_eq [of ?sa demo_geom] ca fa by simp
  have m1: "(1, OffAffixTop, ?c1) \<in> set (drop (length (log ?w1)) (log (snd (eval_elem demo_geom 1 ?w1))))"
    using eval_elem_Live(2) [OF ra1, of demo_geom] mem by force
  have opts: "options ?vb = demo_options" "has_pane ?vb = False" "shared_cur demo_world = empty_state"
    by (simp_all add: demo_vp_def demo_world_def world_init_def)
  show ?thesis
    using affix_flags_leak_between_instances [OF ra rb _ ca cb refl refl m1] m1 opts by simp
qed

theorem check_view_point_snapshot_ok_witness:
  "fst (check_view_point demo_geom demo_start) = Inr () \<and>
   snapshot_ok (cur (snd (check_view_point demo_geom demo_start)))"
proof -
  have e: "check_view_point demo_geom demo_start = (Inr (), snd (check_view_point demo_geom demo_start))"
    using check_view_point_eq [OF demo_callable, of demo_geom] by simp
  show ?thesis
    using check_view_point_snapshot_ok [OF e] e by (metis fst_conv)
qed

end
